theory Spec2Isabelle
  imports Complex_Main
begin

section \<open>JavaScript values\<close>

text \<open>
  The ERP payloads are untyped (\<open>any\<close>) in the source. A value is one of the JSON
  shapes the code builds and inspects: the request bodies hold strings, booleans,
  \<open>null\<close> and objects, and the rows of an answer hold objects whose \<open>$\<close> is a string
  (the interfaces \<open>Produto\<close> and \<open>Estoque\<close> of the source type every field as
  \<open>string\<close>). An object is the list of its own properties; a property that is not listed
  reads as \<open>undefined\<close>.
\<close>

datatype jsval =
    JUndefined
  | JNull
  | JBool bool
  | JStr string
  | JObj "(string \<times> jsval) list"

text \<open>JavaScript truthiness, as used by \<open>if (x)\<close>, \<open>!x\<close> and \<open>x || y\<close>.\<close>

fun truthy :: "jsval \<Rightarrow> bool" where
  "truthy JUndefined = False"
| "truthy JNull = False"
| "truthy (JBool b) = b"
| "truthy (JStr s) = (s \<noteq> [])"
| "truthy (JObj kvs) = True"

text \<open>
  Property read \<open>v.k\<close> on a truthy value: an object yields the property or
  \<open>undefined\<close>; a primitive has no such own property. (The read is only ever
  performed under a truthiness guard, so \<open>null\<close> and \<open>undefined\<close> never reach it.)
\<close>

fun getProp :: "jsval \<Rightarrow> string \<Rightarrow> jsval" where
  "getProp (JObj kvs) k = (case map_of kvs k of Some v \<Rightarrow> v | None \<Rightarrow> JUndefined)"
| "getProp v k = JUndefined"

text \<open>
  Decimal rendering of an integer, as template strings and \<open>String(n)\<close> give it for the
  integers a Number holds exactly (those of magnitude below \<open>2^53\<close>): page numbers, page
  sizes, row indexes and codes.
\<close>

function string_of_nat :: "nat \<Rightarrow> string" where
  "string_of_nat n =
     (if n < 10 then [''0123456789'' ! n]
      else string_of_nat (n div 10) @ [''0123456789'' ! (n mod 10)])"
  by pat_completeness auto
termination
  by (relation "measure (\<lambda>n. n)") auto

declare string_of_nat.simps [simp del]

definition string_of_int :: "int \<Rightarrow> string" where
  "string_of_int i = (if i < 0 then CHR ''-'' # string_of_nat (nat (- i)) else string_of_nat (nat i))"

text \<open>\<open>String(v)\<close>.\<close>

fun jsString :: "jsval \<Rightarrow> string" where
  "jsString JUndefined = ''undefined''"
| "jsString JNull = ''null''"
| "jsString (JBool b) = (if b then ''true'' else ''false'')"
| "jsString (JStr s) = s"
| "jsString (JObj kvs) = ''[object Object]''"

text \<open>
  A JavaScript object under construction (\<open>cleanObject\<close>) and a raw positional row
  (\<open>rawEntity\<close>) are maps from property names to values; reading a missing property
  gives \<open>undefined\<close>.
\<close>

type_synonym jsobj = "string \<rightharpoonup> jsval"

definition readProp :: "jsobj \<Rightarrow> string \<Rightarrow> jsval" where
  "readProp obj k = (case obj k of Some v \<Rightarrow> v | None \<Rightarrow> JUndefined)"

section \<open>Normalization of positional rows\<close>

text \<open>The template string \<open>`f${i}`\<close>.\<close>

definition fieldKeyOf :: "nat \<Rightarrow> string" where
  "fieldKeyOf i = CHR ''f'' # string_of_nat i"

text \<open>
  The loop shared by \<open>mapearEntidades\<close> (produtos-service.ts) and \<open>mapearParceiros\<close>
  (sankhya-api.ts):
  \<^verbatim>\<open>
  for (let i = 0; i < fieldNames.length; i++) {
    const fieldKey = `f${i}`;
    const fieldName = fieldNames[i];
    if (rawEntity[fieldKey]) {
      cleanObject[fieldName] = rawEntity[fieldKey].$;
    }
  }
  \<close>
\<close>

function mapearCampos :: "string list \<Rightarrow> jsobj \<Rightarrow> nat \<Rightarrow> jsobj \<Rightarrow> jsobj" where
  "mapearCampos fieldNames rawEntity i cleanObject =
     (if i < length fieldNames then
        (let fieldKey = fieldKeyOf i;
             fieldName = fieldNames ! i
         in mapearCampos fieldNames rawEntity (Suc i)
              (if truthy (readProp rawEntity fieldKey)
               then cleanObject(fieldName \<mapsto> getProp (readProp rawEntity fieldKey) ''$'')
               else cleanObject))
      else cleanObject)"
  by pat_completeness auto
termination
  by (relation "measure (\<lambda>(fieldNames, rawEntity, i, cleanObject). length fieldNames - i)") auto

declare mapearCampos.simps [simp del]

text \<open>
  The callback of \<open>entityArray.map\<close> in \<open>mapearEntidades\<close>: the loop, then
  \<open>cleanObject._id = cleanObject.CODPROD ? String(cleanObject.CODPROD) : String(index)\<close>.
\<close>

definition mapearEntidade :: "string list \<Rightarrow> jsobj \<Rightarrow> nat \<Rightarrow> jsobj" where
  "mapearEntidade fieldNames rawEntity index =
     (let cleanObject = mapearCampos fieldNames rawEntity 0 Map.empty
      in cleanObject(''_id'' \<mapsto>
           JStr (if truthy (readProp cleanObject ''CODPROD'')
                 then jsString (readProp cleanObject ''CODPROD'')
                 else string_of_nat index)))"

text \<open>The same callback in \<open>mapearParceiros\<close>, keyed on \<open>CODPARC\<close>.\<close>

definition mapearParceiro :: "string list \<Rightarrow> jsobj \<Rightarrow> nat \<Rightarrow> jsobj" where
  "mapearParceiro fieldNames rawEntity index =
     (let cleanObject = mapearCampos fieldNames rawEntity 0 Map.empty
      in cleanObject(''_id'' \<mapsto>
           JStr (if truthy (readProp cleanObject ''CODPARC'')
                 then jsString (readProp cleanObject ''CODPARC'')
                 else string_of_nat index)))"

text \<open>
  The \<open>entities\<close> object of a response:
  \<open>{ metadata: { fields: { field: [{name}] } }, entity: <object or array>, total }\<close>.
  \<open>metadata\<close> is \<open>None\<close> when the path \<open>metadata.fields.field\<close> cannot be read
  (the code then raises a TypeError). \<open>total\<close> is \<open>None\<close> when \<open>entities.total\<close> is
  falsy, and otherwise the integer \<open>parseInt\<close> reads from it.
\<close>

datatype entityField = EntityAbsent | EntitySingle jsobj | EntityArray "jsobj list"

record entities =
  metadata :: "string list option"
  entity :: entityField
  total :: "int option"

text \<open>\<open>!entities.entity\<close>: the answer has no rows.\<close>

fun entityAusente :: "entityField \<Rightarrow> bool" where
  "entityAusente EntityAbsent = True"
| "entityAusente (EntitySingle r) = False"
| "entityAusente (EntityArray rows) = False"

text \<open>\<open>Array.isArray(entities.entity) ? entities.entity : [entities.entity]\<close>, for a truthy \<open>entity\<close>.\<close>

fun entityArrayOf :: "entityField \<Rightarrow> jsobj list" where
  "entityArrayOf (EntityArray rows) = rows"
| "entityArrayOf (EntitySingle r) = [r]"
| "entityArrayOf EntityAbsent = []"

text \<open>
  An \<open>Error\<close> is identified with its message (the only thing the code ever sets on the
  errors it raises). Accents of the Portuguese messages are dropped. \<open>typeError\<close> stands
  for the TypeError JavaScript raises when a property of \<open>undefined\<close> is read.
\<close>

type_synonym erro = string

definition typeError :: erro where
  "typeError = ''TypeError: Cannot read properties of undefined''"

definition mapearEntidades :: "entities \<Rightarrow> erro + jsobj list" where
  "mapearEntidades ents =
     (case metadata ents of
        None \<Rightarrow> Inl typeError
      | Some fieldNames \<Rightarrow>
          (let entityArray = entityArrayOf (entity ents)
           in Inr (map (\<lambda>(rawEntity, index). mapearEntidade fieldNames rawEntity index)
                     (zip entityArray [0..<length entityArray]))))"

definition mapearParceiros :: "entities \<Rightarrow> erro + jsobj list" where
  "mapearParceiros ents =
     (case metadata ents of
        None \<Rightarrow> Inl typeError
      | Some fieldNames \<Rightarrow>
          (let entityArray = entityArrayOf (entity ents)
           in Inr (map (\<lambda>(rawEntity, index). mapearParceiro fieldNames rawEntity index)
                     (zip entityArray [0..<length entityArray]))))"

section \<open>Transport answers and errors\<close>

text \<open>
  What a \<open>catch (erro)\<close> block of the source can inspect: \<open>erro.response?.status\<close>,
  \<open>erro.code\<close>, \<open>erro.response?.data?.error\<close>, \<open>erro.response?.data?.statusMessage\<close>
  and \<open>erro.message\<close>. An error raised by \<open>new Error(msg)\<close> has the message only;
  \<open>erro.response\<close> is truthy exactly when \<open>exStatus\<close> is given.
\<close>

record excecao =
  exStatus :: "nat option"
  exCode :: "string option"
  exDataError :: "string option"
  exStatusMessage :: "string option"
  exMessage :: string

definition erroSimples :: "erro \<Rightarrow> excecao" where
  "erroSimples msg =
     \<lparr>exStatus = None, exCode = None, exDataError = None, exStatusMessage = None, exMessage = msg\<rparr>"

text \<open>\<open>a || b\<close> on an optional string: a missing or empty \<open>a\<close> is falsy.\<close>

definition ouStr :: "string option \<Rightarrow> string \<Rightarrow> string" where
  "ouStr a b = (case a of Some s \<Rightarrow> if s \<noteq> [] then s else b | None \<Rightarrow> b)"

text \<open>\<open>erro.response?.status >= 500\<close> (false when there is no response).\<close>

definition statusServidor :: "excecao \<Rightarrow> bool" where
  "statusServidor ex = (case exStatus ex of Some st \<Rightarrow> st \<ge> 500 | None \<Rightarrow> False)"

text \<open>
  The login endpoint answers with a body holding \<open>bearerToken\<close> and \<open>token\<close> (either may
  be missing), or the call raises.
\<close>

datatype loginResposta =
    LoginResposta "string option" "string option"
  | LoginErro excecao

text \<open>
  The body of a data answer: \<open>{ responseBody: { entities: ... } }\<close>, where
  \<open>responseBody\<close> and \<open>entities\<close> may each be missing.
\<close>

datatype corpo = Corpo "entities option"

record resposta =
  responseBody :: "corpo option"

datatype respostaHttp =
    HttpResposta resposta
  | HttpErro excecao

text \<open>
  The environment: the answer of the login endpoint to the \<open>k\<close>-th login call, and the
  answer of the ERP to the \<open>k\<close>-th data call, given its URL, HTTP verb, body and bearer
  token.
\<close>

record env =
  loginTransport :: "nat \<Rightarrow> loginResposta"
  dataTransport :: "nat \<Rightarrow> string \<Rightarrow> string \<Rightarrow> jsval \<Rightarrow> string \<Rightarrow> respostaHttp"

section \<open>Cached values and the process state\<close>

text \<open>
  \<open>TokenCache\<close> of sankhya-api.ts. \<open>geradoEm\<close> is kept as the instant whose ISO rendering
  the code stores.
\<close>

record tokenCache =
  token :: string
  expiresAt :: int
  geradoEm :: int

text \<open>
  A paginated result \<open>{ produtos | parceiros, total, page, pageSize, totalPages }\<close>; the name
  of the list property is given by the constructor that wraps the record. \<open>totalPages\<close> is
  \<open>None\<close> when \<open>Math.ceil(total / pageSize)\<close> is not finite (\<open>pageSize = 0\<close>).
\<close>

record pagina =
  registros :: "jsobj list"
  totalRegistros :: int
  page :: int
  pageSize :: int
  totalPages :: "int option"

text \<open>The stock result \<open>{ estoques, total, estoqueTotal }\<close>.\<close>

record resultadoEstoque =
  estoques :: "jsobj list"
  totalEstoques :: nat
  estoqueTotal :: real

text \<open>Everything the code stores in the cache, returns from it, or shares through a promise.\<close>

datatype valor =
    VToken tokenCache
  | VLock int
  | VProdutos pagina
  | VParceiros pagina
  | VEstoques resultadoEstoque
  | VLista "jsobj list"
  | VTexto string
  | VResposta resposta

text \<open>
  The in-flight table of produtos-service.ts: \<open>pendingRequests\<close> maps a key to the
  promise registered for it (promises are numbered); \<open>emVoo\<close> maps each promise whose
  operation has been started and has not settled to its key; \<open>invocacoes\<close> counts the calls
  of \<open>fetcher()\<close>.
\<close>

record dedupEstado =
  pendingRequests :: "string \<rightharpoonup> nat"
  emVoo :: "nat \<rightharpoonup> string"
  proximaPromessa :: nat
  invocacoes :: nat

text \<open>
  The state one call runs against. \<open>now\<close> is the clock in milliseconds (\<open>Date.now()\<close>);
  it advances on \<open>setTimeout\<close> waits only. \<open>cache\<close> is the Shared Cache Store, every entry with
  the instant at which it is evicted. \<open>tokenPromise\<close> is the module variable of
  sankhya-api.ts, holding the outcome of a renewal that is in flight. \<open>loginCalls\<close> and
  \<open>httpCalls\<close> count the calls issued so far, \<open>tokensUsados\<close> lists the bearer token of
  every data call, \<open>esperas\<close> the waits. \<open>desfechos\<close> is the outcome a caller gets who
  waits for a promise that is pending in \<open>pendingRequests\<close>: \<open>None\<close> when the promise
  never settles. \<open>globalCachedToken\<close> is the module variable of produtos-service.ts.
\<close>

record world =
  now :: int
  cache :: "string \<rightharpoonup> (valor \<times> int)"
  tokenPromise :: "(erro + string) option"
  loginCalls :: nat
  httpCalls :: nat
  tokensUsados :: "string list"
  esperas :: "int list"
  dedup :: dedupEstado
  desfechos :: "nat \<Rightarrow> (erro + valor) option"
  globalCachedToken :: "string option"

text \<open>
  Modelled from the spec: the Shared Cache Store collaborator (\<open>redis-cache-wrapper\<close> and
  \<open>redis-cache-service\<close> are not among the sources): \<open>get(key) -> value|null\<close>,
  \<open>set(key, value, ttlSeconds)\<close>, \<open>delete(key)\<close>, with per-key expiration. An entry is
  readable until its time-to-live has elapsed.
\<close>

definition cacheGet :: "string \<Rightarrow> world \<Rightarrow> valor option" where
  "cacheGet key w =
     (case cache w key of
        Some (v, evicted) \<Rightarrow> if now w < evicted then Some v else None
      | None \<Rightarrow> None)"

definition cacheSet :: "string \<Rightarrow> valor \<Rightarrow> int \<Rightarrow> world \<Rightarrow> world" where
  "cacheSet key v ttlSeconds w = w\<lparr>cache := (cache w)(key \<mapsto> (v, now w + ttlSeconds * 1000))\<rparr>"

definition cacheDelete :: "string \<Rightarrow> world \<Rightarrow> world" where
  "cacheDelete key w = w\<lparr>cache := (cache w)(key := None)\<rparr>"

text \<open>\<open>await new Promise(resolve => setTimeout(resolve, ms))\<close>.\<close>

definition dormir :: "int \<Rightarrow> world \<Rightarrow> world" where
  "dormir ms w = w\<lparr>now := now w + ms, esperas := esperas w @ [ms]\<rparr>"

section \<open>Token manager (sankhya-api.ts)\<close>

definition LOCK_KEY :: string where
  "LOCK_KEY = ''sankhya:token:lock''"

definition TOKEN_CACHE_KEY :: string where
  "TOKEN_CACHE_KEY = ''sankhya:token''"

definition LOCK_TTL :: int where
  "LOCK_TTL = 30000"

definition MAX_LOCK_WAIT :: int where
  "MAX_LOCK_WAIT = 25000"

definition erroLockTimeout :: erro where
  "erroLockTimeout = ''Nao foi possivel gerar token - timeout ao aguardar lock''"

definition erroLoginSemToken :: erro where
  "erroLoginSemToken = ''Resposta de login do Sankhya nao continha o token esperado.''"

definition erroSankhyaIndisponivel :: erro where
  "erroSankhyaIndisponivel =
     ''Servico Sankhya temporariamente indisponivel. Tente novamente em instantes.''"

definition erroFalhaAutenticacao :: "string \<Rightarrow> erro" where
  "erroFalhaAutenticacao detalhe = ''Falha na autenticacao Sankhya: '' @ detalhe"

text \<open>
  The validity check that \<open>obterToken\<close> repeats after every read of the credential:
  \<^verbatim>\<open>
  tokenData = await cacheService.get<TokenCache>(TOKEN_CACHE_KEY);
  if (tokenData && tokenData.token) {
    const agora = Date.now();
    const tempoRestante = tokenData.expiresAt - agora;
    if (tempoRestante > 0) { ... return tokenData.token; }
  }
  \<close>
  The result is the token the block would return.
\<close>

definition tokenValido :: "world \<Rightarrow> string option" where
  "tokenValido w =
     (case cacheGet TOKEN_CACHE_KEY w of
        Some (VToken tokenData) \<Rightarrow>
          if token tokenData \<noteq> [] then
            (let agora = now w;
                 tempoRestante = expiresAt tokenData - agora
             in if tempoRestante > 0 then Some (token tokenData) else None)
          else None
      | _ \<Rightarrow> None)"

text \<open>The fast path: \<open>if (tempoRestante > 0 && !forceRefresh) return tokenData.token\<close>.\<close>

definition caminhoRapido :: "bool \<Rightarrow> world \<Rightarrow> string option" where
  "caminhoRapido forceRefresh w =
     (case tokenValido w of
        Some t \<Rightarrow> if \<not> forceRefresh then Some t else None
      | None \<Rightarrow> None)"

text \<open>
  The lock loop
  \<open>while (!lockAcquired && (Date.now() - lockStart) < MAX_LOCK_WAIT)\<close>. It ends with the
  lock taken, with a token another renewal has stored meanwhile, or with the wait used up.
\<close>

datatype lockResultado = LockAdquirido | TokenEncontrado string | LockNaoAdquirido

function adquirirLock :: "int \<Rightarrow> world \<Rightarrow> lockResultado \<times> world" where
  "adquirirLock lockStart w =
     (if now w - lockStart < MAX_LOCK_WAIT then
        (case cacheGet LOCK_KEY w of
           None \<Rightarrow> (LockAdquirido, cacheSet LOCK_KEY (VLock (now w)) LOCK_TTL w)
         | Some existing \<Rightarrow>
             (let w1 = dormir 500 w
              in case tokenValido w1 of
                   Some t \<Rightarrow> (TokenEncontrado t, cacheDelete LOCK_KEY w1)
                 | None \<Rightarrow> adquirirLock lockStart w1))
      else (LockNaoAdquirido, w))"
  by pat_completeness auto
termination
  by (relation "measure (\<lambda>(lockStart, w). nat (lockStart + MAX_LOCK_WAIT - now w))")
     (auto simp add: dormir_def MAX_LOCK_WAIT_def)

declare adquirirLock.simps [simp del]

text \<open>
  Everything \<open>obterToken\<close> does before it asks for a new token: the forced deletion, the
  fast path, the wait on \<open>tokenPromise\<close>, the lock, and the second look at the cache with
  the lock held. \<open>Inl\<close> is an early return (or the lock-timeout error), \<open>Inr\<close> the state
  in which the login is issued.
\<close>

definition prepararRenovacao :: "bool \<Rightarrow> world \<Rightarrow> ((erro + string) \<times> world) + world" where
  "prepararRenovacao forceRefresh w =
     (let w1 = (if forceRefresh then cacheDelete TOKEN_CACHE_KEY w else w)
      in case caminhoRapido forceRefresh w1 of
           Some t \<Rightarrow> Inl (Inr t, w1)
         | None \<Rightarrow>
            (case tokenPromise w1 of
               Some desfecho \<Rightarrow> Inl (desfecho, w1)
             | None \<Rightarrow>
                (case adquirirLock (now w1) w1 of
                   (TokenEncontrado t, w2) \<Rightarrow> Inl (Inr t, w2)
                 | (LockNaoAdquirido, w2) \<Rightarrow>
                     (case tokenValido w2 of
                        Some t \<Rightarrow> Inl (Inr t, w2)
                      | None \<Rightarrow> Inl (Inl erroLockTimeout, w2))
                 | (LockAdquirido, w2) \<Rightarrow>
                     (if \<not> forceRefresh then
                        (case tokenValido w2 of
                           Some t \<Rightarrow> Inl (Inr t, cacheDelete LOCK_KEY w2)
                         | None \<Rightarrow> Inr w2)
                      else Inr w2))))"

text \<open>
  The \<open>try\<close> block of the renewal: the login call, the extraction of the token, the
  credential stored with \<open>expiresAt = Date.now() + (20 * 60 * 1000)\<close> under a time-to-live
  of \<open>20 * 60\<close>, and the release of the lock.
\<close>

definition tentarLogin :: "env \<Rightarrow> world \<Rightarrow> (excecao + string) \<times> world" where
  "tentarLogin e w =
     (let w1 = w\<lparr>loginCalls := Suc (loginCalls w)\<rparr>
      in case loginTransport e (loginCalls w) of
           LoginErro ex \<Rightarrow> (Inl ex, w1)
         | LoginResposta bearerToken tk \<Rightarrow>
             (let t = ouStr bearerToken (ouStr tk [])
              in if t = [] then (Inl (erroSimples erroLoginSemToken), w1)
                 else
                   (let tokenData = \<lparr>token = t,
                                     expiresAt = now w1 + (20 * 60 * 1000),
                                     geradoEm = now w1\<rparr>;
                        w2 = cacheSet TOKEN_CACHE_KEY (VToken tokenData) (20 * 60) w1;
                        w3 = cacheDelete LOCK_KEY w2
                    in (Inr t, w3))))"

text \<open>The \<open>finally\<close> block: \<open>tokenPromise = null\<close> and one more release of the lock.\<close>

definition finalizar :: "world \<Rightarrow> world" where
  "finalizar w = cacheDelete LOCK_KEY (w\<lparr>tokenPromise := None\<rparr>)"

definition MAX_RETRIES_LOGIN :: nat where
  "MAX_RETRIES_LOGIN = 3"

definition RETRY_DELAY :: int where
  "RETRY_DELAY = 1000"

text \<open>
  \<open>obterToken(forceRefresh, retryCount)\<close>. The \<open>catch\<close> block releases the lock, retries on
  \<open>erro.response?.status === 500 && retryCount < MAX_RETRIES\<close> after
  \<open>RETRY_DELAY * (retryCount + 1)\<close>, and otherwise deletes the credential and raises.
  The retrying block returns the promise of the nested call without awaiting it, so its
  \<open>finally\<close> runs while the nested call is starting; for a call that runs alone the lock
  is released and \<open>tokenPromise\<close> is null both then and when the nested call has settled,
  and the block is applied to the settled state.
\<close>

function obterToken :: "env \<Rightarrow> bool \<Rightarrow> nat \<Rightarrow> world \<Rightarrow> (erro + string) \<times> world" where
  "obterToken e forceRefresh retryCount w =
     (case prepararRenovacao forceRefresh w of
        Inl retorno \<Rightarrow> retorno
      | Inr w1 \<Rightarrow>
         (case tentarLogin e w1 of
            (Inr t, w2) \<Rightarrow> (Inr t, finalizar w2)
          | (Inl ex, w2) \<Rightarrow>
             (let w3 = cacheDelete LOCK_KEY w2
              in if exStatus ex = Some 500 \<and> retryCount < MAX_RETRIES_LOGIN then
                   (let w4 = dormir (RETRY_DELAY * (int retryCount + 1)) w3;
                        w5 = w4\<lparr>tokenPromise := None\<rparr>
                    in case obterToken e forceRefresh (retryCount + 1) w5 of
                         (r, w6) \<Rightarrow> (r, finalizar w6))
                 else
                   (let w4 = cacheDelete TOKEN_CACHE_KEY w3;
                        w5 = w4\<lparr>tokenPromise := None\<rparr>
                    in if exStatus ex = Some 500
                       then (Inl erroSankhyaIndisponivel, finalizar w5)
                       else (Inl (erroFalhaAutenticacao
                                    (ouStr (exDataError ex) (exMessage ex))), finalizar w5)))))"
  by pat_completeness auto
termination
  by (relation "measure (\<lambda>(e, forceRefresh, retryCount, w). MAX_RETRIES_LOGIN - retryCount)") auto

declare obterToken.simps [simp del]

section \<open>Concurrent calls of obterToken (sankhya-api.ts)\<close>

text \<open>
  Several calls of \<open>obterToken\<close> in flight in one process. Execution is cooperative: a call
  runs until its next \<open>await\<close> and is suspended there. \<open>ponto\<close> names the \<open>await\<close> a call is
  suspended at, with the local variables the rest of the call reads:

  \<^item> \<open>ApagaCredencial\<close>: \<open>await cacheService.delete(TOKEN_CACHE_KEY)\<close> under \<open>forceRefresh\<close>;
  \<^item> \<open>LeCredencial\<close>: the first \<open>await cacheService.get(TOKEN_CACHE_KEY)\<close>;
  \<^item> \<open>AguardaPromessa q\<close>: \<open>return tokenPromise\<close>, the promise \<open>q\<close> of a renewal in flight;
  \<^item> \<open>LeLock lockStart\<close>: \<open>await cacheService.get(LOCK_KEY)\<close> in the lock loop;
  \<^item> \<open>GravaLock lockStart\<close>: \<open>await cacheService.set(LOCK_KEY, lockValue, LOCK_TTL)\<close>;
  \<^item> \<open>Espera500 lockStart\<close>: the 500 ms timer of the loop;
  \<^item> \<open>ReleCredencial lockStart\<close>: the read of the credential after that timer;
  \<^item> \<open>SoltaLockERetorna t\<close>: \<open>await cacheService.delete(LOCK_KEY)\<close> before \<open>return tokenData.token\<close>;
  \<^item> \<open>LeCredencialSemLock\<close>: the read of the credential after the loop has given up;
  \<^item> \<open>LeCredencialComLock\<close>: the read of the credential with the lock held;
  \<^item> \<open>Login k\<close>: \<open>await axiosInstance.post(ENDPOINT_LOGIN, ...)\<close>, the \<open>k\<close>-th login call;
  \<^item> \<open>GravaCredencial tokenData\<close>: \<open>await cacheService.set(TOKEN_CACHE_KEY, tokenData, 20 * 60)\<close>;
  \<^item> \<open>VerificaCredencial t\<close>: the read after the write, which is only logged;
  \<^item> \<open>SoltaLockAposLogin t\<close>: the release of the lock at the end of the \<open>try\<close> block;
  \<^item> \<open>SoltaLockAposErro ex\<close>: the release of the lock at the start of the \<open>catch\<close> block;
  \<^item> \<open>EsperaRetry\<close>: the timer \<open>RETRY_DELAY * (retryCount + 1)\<close>;
  \<^item> \<open>ApagaCredencialAposErro ex\<close>: \<open>await cacheService.delete(TOKEN_CACHE_KEY)\<close> before the throw;
  \<^item> \<open>Finaliza r\<close>: \<open>await cacheService.delete(LOCK_KEY)\<close> of the \<open>finally\<close> block, \<open>r\<close> the
    outcome of the \<open>try\<close>/\<open>catch\<close>;
  \<^item> \<open>Terminado r\<close>: the call has settled with \<open>r\<close>.

  \<open>await getCacheService()\<close> touches no shared state and is not a point of its own.
\<close>

datatype ponto =
    ApagaCredencial
  | LeCredencial
  | AguardaPromessa nat
  | LeLock int
  | GravaLock int
  | Espera500 int
  | ReleCredencial int
  | SoltaLockERetorna string
  | LeCredencialSemLock
  | LeCredencialComLock
  | Login nat
  | GravaCredencial tokenCache
  | VerificaCredencial string
  | SoltaLockAposLogin string
  | SoltaLockAposErro excecao
  | EsperaRetry
  | ApagaCredencialAposErro excecao
  | Finaliza "erro + string"
  | Terminado "erro + string"

text \<open>
  A call: where it is suspended, its arguments \<open>forceRefresh\<close> and \<open>retryCount\<close>, and the
  promises that settle with its outcome: the promise of its own async block
  (\<open>return tokenPromise\<close>) and, for a call made by \<open>return obterToken(forceRefresh,
  retryCount + 1)\<close>, those of the blocks that returned it.
\<close>

record chamada =
  ponto :: ponto
  forcar :: bool
  tentativa :: nat
  adotantes :: "nat list"

text \<open>
  The process: the store and the clock, the module variable \<open>tokenPromise\<close> (a promise is
  named by the number of the login call its block issues), and the promises settled so far.
\<close>

record processo =
  mundo :: world
  promessa :: "nat option"
  resolvidas :: "nat \<rightharpoonup> (erro + string)"

definition chamadaInicial :: "bool \<Rightarrow> chamada" where
  "chamadaInicial forceRefresh =
     \<lparr>ponto = (if forceRefresh then ApagaCredencial else LeCredencial),
      forcar = forceRefresh, tentativa = 0, adotantes = []\<rparr>"

definition processoInicial :: "world \<Rightarrow> processo" where
  "processoInicial w = \<lparr>mundo = w, promessa = None, resolvidas = Map.empty\<rparr>"

text \<open>The call settles with \<open>r\<close>, and with it every promise that has adopted it.\<close>

definition retorna :: "erro + string \<Rightarrow> chamada \<Rightarrow> processo \<Rightarrow> chamada \<times> processo" where
  "retorna r c p =
     (c\<lparr>ponto := Terminado r\<rparr>,
      p\<lparr>resolvidas := foldr (\<lambda>q m. m(q \<mapsto> r)) (adotantes c) (resolvidas p)\<rparr>)"

text \<open>
  The head of the loop, \<open>while (!lockAcquired && (Date.now() - lockStart) < MAX_LOCK_WAIT)\<close>:
  the next \<open>await\<close> is the read of the lock, or the last read of the credential.
\<close>

definition laco :: "int \<Rightarrow> chamada \<Rightarrow> processo \<Rightarrow> chamada \<times> processo" where
  "laco lockStart c p =
     (if now (mundo p) - lockStart < MAX_LOCK_WAIT
      then (c\<lparr>ponto := LeLock lockStart\<rparr>, p)
      else (c\<lparr>ponto := LeCredencialSemLock\<rparr>, p))"

text \<open>
  \<open>tokenPromise = (async () => { try { ... await axiosInstance.post(ENDPOINT_LOGIN, ...)\<close>:
  the block starts at once, so the login call is issued in the step that assigns the
  variable; \<open>return tokenPromise\<close> makes the new promise the outcome of the call.
\<close>

definition iniciarRenovacao :: "chamada \<Rightarrow> processo \<Rightarrow> chamada \<times> processo" where
  "iniciarRenovacao c p =
     (let k = loginCalls (mundo p)
      in (c\<lparr>ponto := Login k, adotantes := k # adotantes c\<rparr>,
          p\<lparr>promessa := Some k, mundo := (mundo p)\<lparr>loginCalls := Suc k\<rparr>\<rparr>))"

text \<open>
  One step of a call: the operation it awaits takes effect and the call runs up to its
  next \<open>await\<close>. A call that waits for an unsettled promise, or has settled, does not move.
  A timer advances the clock by its delay. In the retry branch the \<open>catch\<close> block returns
  the promise of the nested call without awaiting it, so the \<open>finally\<close> block runs as soon
  as the nested call has been started; its release of the lock is taken in the same step.
\<close>

definition passoChamada :: "env \<Rightarrow> chamada \<Rightarrow> processo \<Rightarrow> chamada \<times> processo" where
  "passoChamada e c p =
     (let w = mundo p in
      case ponto c of
        ApagaCredencial \<Rightarrow>
          (c\<lparr>ponto := LeCredencial\<rparr>, p\<lparr>mundo := cacheDelete TOKEN_CACHE_KEY w\<rparr>)
      | LeCredencial \<Rightarrow>
          (case caminhoRapido (forcar c) w of
             Some t \<Rightarrow> retorna (Inr t) c p
           | None \<Rightarrow>
              (case promessa p of
                 Some q \<Rightarrow> (c\<lparr>ponto := AguardaPromessa q\<rparr>, p)
               | None \<Rightarrow> laco (now w) c p))
      | AguardaPromessa q \<Rightarrow>
          (case resolvidas p q of
             Some r \<Rightarrow> retorna r c p
           | None \<Rightarrow> (c, p))
      | LeLock lockStart \<Rightarrow>
          (case cacheGet LOCK_KEY w of
             None \<Rightarrow> (c\<lparr>ponto := GravaLock lockStart\<rparr>, p)
           | Some existing \<Rightarrow> (c\<lparr>ponto := Espera500 lockStart\<rparr>, p))
      | GravaLock lockStart \<Rightarrow>
          (let p1 = p\<lparr>mundo := cacheSet LOCK_KEY (VLock (now w)) LOCK_TTL w\<rparr>
           in if \<not> forcar c then (c\<lparr>ponto := LeCredencialComLock\<rparr>, p1)
              else iniciarRenovacao c p1)
      | Espera500 lockStart \<Rightarrow>
          (c\<lparr>ponto := ReleCredencial lockStart\<rparr>, p\<lparr>mundo := dormir 500 w\<rparr>)
      | ReleCredencial lockStart \<Rightarrow>
          (case tokenValido w of
             Some t \<Rightarrow> (c\<lparr>ponto := SoltaLockERetorna t\<rparr>, p)
           | None \<Rightarrow> laco lockStart c p)
      | SoltaLockERetorna t \<Rightarrow>
          retorna (Inr t) c (p\<lparr>mundo := cacheDelete LOCK_KEY w\<rparr>)
      | LeCredencialSemLock \<Rightarrow>
          (case tokenValido w of
             Some t \<Rightarrow> retorna (Inr t) c p
           | None \<Rightarrow> retorna (Inl erroLockTimeout) c p)
      | LeCredencialComLock \<Rightarrow>
          (case tokenValido w of
             Some t \<Rightarrow> (c\<lparr>ponto := SoltaLockERetorna t\<rparr>, p)
           | None \<Rightarrow> iniciarRenovacao c p)
      | Login k \<Rightarrow>
          (case loginTransport e k of
             LoginErro ex \<Rightarrow> (c\<lparr>ponto := SoltaLockAposErro ex\<rparr>, p)
           | LoginResposta bearerToken tk \<Rightarrow>
               (let t = ouStr bearerToken (ouStr tk [])
                in if t = [] then (c\<lparr>ponto := SoltaLockAposErro (erroSimples erroLoginSemToken)\<rparr>, p)
                   else
                     (let tokenData = \<lparr>token = t,
                                       expiresAt = now w + (20 * 60 * 1000),
                                       geradoEm = now w\<rparr>
                      in (c\<lparr>ponto := GravaCredencial tokenData\<rparr>, p))))
      | GravaCredencial tokenData \<Rightarrow>
          (c\<lparr>ponto := VerificaCredencial (token tokenData)\<rparr>,
           p\<lparr>mundo := cacheSet TOKEN_CACHE_KEY (VToken tokenData) (20 * 60) w\<rparr>)
      | VerificaCredencial t \<Rightarrow> (c\<lparr>ponto := SoltaLockAposLogin t\<rparr>, p)
      | SoltaLockAposLogin t \<Rightarrow>
          (c\<lparr>ponto := Finaliza (Inr t)\<rparr>,
           p\<lparr>mundo := cacheDelete LOCK_KEY w, promessa := None\<rparr>)
      | SoltaLockAposErro ex \<Rightarrow>
          (let p1 = p\<lparr>mundo := cacheDelete LOCK_KEY w\<rparr>
           in if exStatus ex = Some 500 \<and> tentativa c < MAX_RETRIES_LOGIN
              then (c\<lparr>ponto := EsperaRetry\<rparr>, p1)
              else (c\<lparr>ponto := ApagaCredencialAposErro ex\<rparr>, p1))
      | EsperaRetry \<Rightarrow>
          (let w1 = dormir (RETRY_DELAY * (int (tentativa c) + 1)) w
           in (c\<lparr>ponto := (if forcar c then ApagaCredencial else LeCredencial),
                 tentativa := tentativa c + 1\<rparr>,
               p\<lparr>mundo := cacheDelete LOCK_KEY w1, promessa := None\<rparr>))
      | ApagaCredencialAposErro ex \<Rightarrow>
          (c\<lparr>ponto := Finaliza (if exStatus ex = Some 500
                                 then Inl erroSankhyaIndisponivel
                                 else Inl (erroFalhaAutenticacao
                                             (ouStr (exDataError ex) (exMessage ex))))\<rparr>,
           p\<lparr>mundo := cacheDelete TOKEN_CACHE_KEY w, promessa := None\<rparr>)
      | Finaliza r \<Rightarrow> retorna r c (p\<lparr>mundo := cacheDelete LOCK_KEY w\<rparr>)
      | Terminado r \<Rightarrow> (c, p))"

text \<open>
  The scheduler resumes the call number \<open>i\<close>; a schedule is the list of the calls resumed,
  in order.
\<close>

definition passo :: "env \<Rightarrow> nat \<Rightarrow> processo \<times> chamada list \<Rightarrow> processo \<times> chamada list" where
  "passo e i s =
     (case s of (p, cs) \<Rightarrow>
        if i < length cs
        then (case passoChamada e (cs ! i) p of (c1, p1) \<Rightarrow> (p1, cs[i := c1]))
        else s)"

definition escalonar :: "env \<Rightarrow> nat list \<Rightarrow> processo \<times> chamada list \<Rightarrow> processo \<times> chamada list" where
  "escalonar e ordem s = foldl (\<lambda>s1 i. passo e i s1) s ordem"

section \<open>Authenticated request executor (sankhya-api.ts)\<close>

definition MAX_RETRIES_REQUISICAO :: nat where
  "MAX_RETRIES_REQUISICAO = 2"

definition erroSessaoExpirada :: erro where
  "erroSessaoExpirada = ''Sessao expirada. Tente novamente.''"

definition erroTempoExcedido :: erro where
  "erroTempoExcedido = ''Tempo de resposta excedido. Tente novamente.''"

definition erroServicoIndisponivel :: erro where
  "erroServicoIndisponivel = ''Servico temporariamente indisponivel. Tente novamente.''"

definition erroComunicacao :: erro where
  "erroComunicacao = ''Erro na comunicacao com o servidor''"

text \<open>
  The \<open>try\<close> block of \<open>fazerRequisicaoAutenticada\<close>: \<open>obterToken()\<close>, then the HTTP call
  with \<open>Authorization: Bearer\<close> and the token; the value is \<open>response.data\<close> or the error
  caught. (The reports to the API log swallow their own errors and are left out.)
\<close>

definition executarRequisicao ::
  "env \<Rightarrow> string \<Rightarrow> string \<Rightarrow> jsval \<Rightarrow> world \<Rightarrow> (excecao + resposta) \<times> world" where
  "executarRequisicao e fullUrl metodo dados w =
     (case obterToken e False 0 w of
        (Inl msg, w1) \<Rightarrow> (Inl (erroSimples msg), w1)
      | (Inr tk, w1) \<Rightarrow>
          (let w2 = w1\<lparr>httpCalls := Suc (httpCalls w1), tokensUsados := tokensUsados w1 @ [tk]\<rparr>
           in case dataTransport e (httpCalls w1) fullUrl metodo dados tk of
                HttpResposta d \<Rightarrow> (Inr d, w2)
              | HttpErro ex \<Rightarrow> (Inl ex, w2)))"

text \<open>
  \<open>fazerRequisicaoAutenticada(fullUrl, method, data, retryCount)\<close>. The \<open>catch\<close> block:
  \<^verbatim>\<open>
  if (erro.response && (erro.response.status === 401 || erro.response.status === 403)) {
    await getCacheService().then(cache => cache.delete('sankhya:token')).catch(() => {});
    if (retryCount < 1) {
      await new Promise(resolve => setTimeout(resolve, 500));
      return fazerRequisicaoAutenticada(fullUrl, method, data, retryCount + 1);
    }
    throw new Error("Sessao expirada. Tente novamente.");
  }
  if ((erro.code === 'ECONNABORTED' || erro.code === 'ENOTFOUND' || erro.response?.status >= 500)
      && retryCount < MAX_RETRIES) {
    await new Promise(resolve => setTimeout(resolve, RETRY_DELAY * (retryCount + 1)));
    return fazerRequisicaoAutenticada(fullUrl, method, data, retryCount + 1);
  }
  if (erro.code === 'ECONNABORTED') throw new Error("Tempo de resposta excedido. Tente novamente.");
  if (erro.response?.status >= 500) throw new Error("Servico temporariamente indisponivel. Tente novamente.");
  throw new Error(erro.response?.data?.statusMessage || erro.message || "Erro na comunicacao com o servidor");
  \<close>
\<close>

function fazerRequisicaoAutenticada ::
  "env \<Rightarrow> string \<Rightarrow> string \<Rightarrow> jsval \<Rightarrow> nat \<Rightarrow> world \<Rightarrow> (erro + resposta) \<times> world" where
  "fazerRequisicaoAutenticada e fullUrl metodo dados retryCount w =
     (case executarRequisicao e fullUrl metodo dados w of
        (Inr d, w1) \<Rightarrow> (Inr d, w1)
      | (Inl ex, w1) \<Rightarrow>
          if exStatus ex = Some 401 \<or> exStatus ex = Some 403 then
            (let w2 = cacheDelete TOKEN_CACHE_KEY w1
             in if retryCount < 1
                then fazerRequisicaoAutenticada e fullUrl metodo dados (retryCount + 1) (dormir 500 w2)
                else (Inl erroSessaoExpirada, w2))
          else if (exCode ex = Some ''ECONNABORTED'' \<or> exCode ex = Some ''ENOTFOUND''
                   \<or> statusServidor ex) \<and> retryCount < MAX_RETRIES_REQUISICAO then
            fazerRequisicaoAutenticada e fullUrl metodo dados (retryCount + 1)
              (dormir (RETRY_DELAY * (int retryCount + 1)) w1)
          else if exCode ex = Some ''ECONNABORTED'' then (Inl erroTempoExcedido, w1)
          else if statusServidor ex then (Inl erroServicoIndisponivel, w1)
          else (Inl (ouStr (exStatusMessage ex) (ouStr (Some (exMessage ex)) erroComunicacao)), w1))"
  by pat_completeness auto
termination
  by (relation "measure (\<lambda>(e, fullUrl, metodo, dados, retryCount, w).
                  MAX_RETRIES_REQUISICAO - retryCount)")
     (auto simp add: MAX_RETRIES_REQUISICAO_def)

declare fazerRequisicaoAutenticada.simps [simp del]

section \<open>Request deduplicator (produtos-service.ts)\<close>

text \<open>
  \<^verbatim>\<open>
  async function dedupedRequest<T>(key: string, fetcher: () => Promise<T>): Promise<T> {
    if (pendingRequests.has(key)) {
      return pendingRequests.get(key) as Promise<T>;
    }
    const promise = fetcher().finally(() => {
      pendingRequests.delete(key);
    });
    pendingRequests.set(key, promise);
    return promise;
  }
  \<close>
  The call itself runs without suspension: it either hands out the registered promise, or
  calls \<open>fetcher()\<close> (which starts the operation and yields a new promise) and registers
  the promise. \<open>fetcher\<close> is an \<open>async\<close> function, as at every call site: it does not
  raise synchronously. Where it calls \<open>dedupedRequest\<close> before its first suspension (the
  fetcher of \<open>consultarProdutos\<close> does, through \<open>fazerRequisicaoAutenticada\<close>), it does so
  under another key, and that is a call of its own.
\<close>

definition dedupedRequest :: "string \<Rightarrow> dedupEstado \<Rightarrow> nat \<times> dedupEstado" where
  "dedupedRequest key st =
     (case pendingRequests st key of
        Some promise \<Rightarrow> (promise, st)
      | None \<Rightarrow>
          (let promise = proximaPromessa st
           in (promise,
               st\<lparr>pendingRequests := (pendingRequests st)(key \<mapsto> promise),
                  emVoo := (emVoo st)(promise \<mapsto> key),
                  proximaPromessa := Suc promise,
                  invocacoes := Suc (invocacoes st)\<rparr>)))"

text \<open>
  The operation behind promise \<open>promise\<close> settles, with success or with failure, and the
  \<open>finally\<close> callback registered for it runs: \<open>pendingRequests.delete(key)\<close>, for the key
  the callback has captured. A promise settles once.
\<close>

definition liquidar :: "nat \<Rightarrow> bool \<Rightarrow> dedupEstado \<Rightarrow> dedupEstado" where
  "liquidar promise sucesso st =
     (case emVoo st promise of
        None \<Rightarrow> st
      | Some key \<Rightarrow>
          st\<lparr>pendingRequests := (pendingRequests st)(key := None),
             emVoo := (emVoo st)(promise := None)\<rparr>)"

text \<open>
  What happens to the table within one process: a caller calls \<open>dedupedRequest(key, ...)\<close>,
  or an operation settles. A run is any sequence of such events.
\<close>

datatype evento = Chamar string | Liquidar nat bool

fun executar :: "evento \<Rightarrow> dedupEstado \<Rightarrow> dedupEstado" where
  "executar (Chamar key) st = snd (dedupedRequest key st)"
| "executar (Liquidar promise sucesso) st = liquidar promise sucesso st"

fun correr :: "evento list \<Rightarrow> dedupEstado \<Rightarrow> dedupEstado" where
  "correr [] st = st"
| "correr (ev # evs) st = correr evs (executar ev st)"

text \<open>
  The table is consistent when the registered promises are exactly the operations in
  flight, each under the key it was started for, and promise numbers are not reused.
\<close>

definition consistente :: "dedupEstado \<Rightarrow> bool" where
  "consistente st =
     ((\<forall>promise key. emVoo st promise = Some key \<longleftrightarrow> pendingRequests st key = Some promise)
      \<and> (\<forall>promise key. emVoo st promise = Some key \<longrightarrow> promise < proximaPromessa st))"

text \<open>
  \<open>dedupedRequest\<close> registering a new promise, seen from the call that runs its
  \<open>fetcher\<close>: while the fetcher runs, the promise is pending under its key. It settles
  only with the fetcher, so a wait for it that the fetcher itself starts never ends:
  \<open>desfechos\<close> gives \<open>None\<close> for the new promise.
\<close>

definition iniciarPromessa :: "string \<Rightarrow> world \<Rightarrow> nat \<times> world" where
  "iniciarPromessa key w =
     (case dedupedRequest key (dedup w) of
        (promise, st) \<Rightarrow> (promise, w\<lparr>dedup := st, desfechos := (desfechos w)(promise := None)\<rparr>))"

text \<open>The fetcher has settled: the \<open>finally\<close> callback removes the registration.\<close>

definition liquidarPromessa :: "nat \<Rightarrow> bool \<Rightarrow> world \<Rightarrow> world" where
  "liquidarPromessa promise sucesso w = w\<lparr>dedup := liquidar promise sucesso (dedup w)\<rparr>"

text \<open>
  \<open>await dedupedRequest(key, fetcher)\<close> as one caller sees it: when a promise is registered
  for the key, the caller gets that promise's outcome and \<open>fetcher\<close> is not run; otherwise
  \<open>fetcher\<close> runs with the new promise registered, and the registration is removed when it
  has settled. The outcome \<open>None\<close> is a call that never settles; its registration stays.
\<close>

definition aguardarDeduped ::
  "string \<Rightarrow> (world \<Rightarrow> (erro + valor) option \<times> world) \<Rightarrow> world
     \<Rightarrow> (erro + valor) option \<times> world" where
  "aguardarDeduped key fetcher w =
     (case pendingRequests (dedup w) key of
        Some promise \<Rightarrow> (desfechos w promise, w)
      | None \<Rightarrow>
          (case iniciarPromessa key w of
             (promise, w0) \<Rightarrow>
               (case fetcher w0 of
                  (Some (Inr v), w1) \<Rightarrow> (Some (Inr v), liquidarPromessa promise True w1)
                | (Some (Inl err), w1) \<Rightarrow> (Some (Inl err), liquidarPromessa promise False w1)
                | (None, w1) \<Rightarrow> (None, w1))))"

section \<open>Strings and payloads\<close>

text \<open>\<open>String.prototype.trim\<close> and \<open>toUpperCase\<close>, on ASCII text.\<close>

definition ehEspaco :: "char \<Rightarrow> bool" where
  "ehEspaco ch = (ch \<in> {CHR '' '', CHR 0x09, CHR 0x0A, CHR 0x0B, CHR 0x0C, CHR 0x0D})"

definition trim :: "string \<Rightarrow> string" where
  "trim s = rev (dropWhile ehEspaco (rev (dropWhile ehEspaco s)))"

definition toUpperChar :: "char \<Rightarrow> char" where
  "toUpperChar ch =
     (let n = (of_char ch :: nat) in if 97 \<le> n \<and> n \<le> 122 then char_of (n - 32) else ch)"

definition toUpperCase :: "string \<Rightarrow> string" where
  "toUpperCase s = map toUpperChar s"

text \<open>\<open>Array.prototype.join\<close>.\<close>

fun juntar :: "string \<Rightarrow> string list \<Rightarrow> string" where
  "juntar sep [] = []"
| "juntar sep [x] = x"
| "juntar sep (x # y # ys) = x @ sep @ juntar sep (y # ys)"

text \<open>
  \<open>JSON.stringify\<close> on the values the payloads are made of. A string is quoted: the
  double quote and the backslash get a backslash in front; the control characters 8, 9, 10,
  12 and 13 become a backslash and \<open>b\<close>, \<open>t\<close>, \<open>n\<close>, \<open>f\<close>, \<open>r\<close>; every other character
  below 32 becomes a backslash, \<open>u00\<close> and its two hexadecimal digits in lower case. A
  property whose value is \<open>undefined\<close> is left out.
\<close>

definition jsonEscape :: "char \<Rightarrow> string" where
  "jsonEscape ch =
     (let n = (of_char ch :: nat)
      in if n = 0x22 then [CHR 0x5C, CHR 0x22]
         else if n = 0x5C then [CHR 0x5C, CHR 0x5C]
         else if n = 0x08 then [CHR 0x5C, CHR ''b'']
         else if n = 0x09 then [CHR 0x5C, CHR ''t'']
         else if n = 0x0A then [CHR 0x5C, CHR ''n'']
         else if n = 0x0C then [CHR 0x5C, CHR ''f'']
         else if n = 0x0D then [CHR 0x5C, CHR ''r'']
         else if n < 0x20 then
           [CHR 0x5C, CHR ''u'', CHR ''0'', CHR ''0'',
            ''0123456789abcdef'' ! (n div 16), ''0123456789abcdef'' ! (n mod 16)]
         else [ch])"

definition jsonQuote :: "string \<Rightarrow> string" where
  "jsonQuote s = CHR 0x22 # concat (map jsonEscape s) @ [CHR 0x22]"

fun stringify :: "jsval \<Rightarrow> string"
  and stringifyProps :: "(string \<times> jsval) list \<Rightarrow> string list" where
  "stringify JUndefined = ''undefined''"
| "stringify JNull = ''null''"
| "stringify (JBool b) = (if b then ''true'' else ''false'')"
| "stringify (JStr s) = jsonQuote s"
| "stringify (JObj kvs) = ''{'' @ juntar '','' (stringifyProps kvs) @ ''}''"
| "stringifyProps [] = []"
| "stringifyProps ((k, v) # kvs) =
     (if v = JUndefined then stringifyProps kvs
      else (jsonQuote k @ '':'' @ stringify v) # stringifyProps kvs)"

definition URL_CONSULTA_SERVICO :: string where
  "URL_CONSULTA_SERVICO =
     ''https://api.sandbox.sankhya.com.br/gateway/v1/mge/service.sbr?serviceName=CRUDServiceProvider.loadRecords&outputType=json''"

text \<open>
  The request bodies \<open>{ requestBody: { dataSet: { rootEntity, ..., criteria: { expression:
  { $: criteriaExpression } } } } }\<close> the fetchers send.
\<close>

definition montarPayload ::
  "string \<Rightarrow> (string \<times> jsval) list \<Rightarrow> string \<Rightarrow> string \<Rightarrow> (string \<times> jsval) list \<Rightarrow> jsval" where
  "montarPayload rootEntity paginacao campos criteriaExpression ordem =
     JObj [(''requestBody'',
        JObj [(''dataSet'',
          JObj ([(''rootEntity'', JStr rootEntity),
                 (''includePresentationFields'', JStr ''N'')]
                @ paginacao
                @ [(''entity'', JObj [(''fieldset'', JObj [(''list'', JStr campos)])]),
                   (''criteria'', JObj [(''expression'', JObj [(''$'', JStr criteriaExpression)])])]
                @ ordem))])]"

definition semLimite :: "(string \<times> jsval) list" where
  "semLimite = [(''offsetPage'', JNull), (''disableRowsLimit'', JBool True)]"

definition comLimite :: "string \<Rightarrow> (string \<times> jsval) list" where
  "comLimite limite = [(''offsetPage'', JStr ''0''), (''limit'', JStr limite)]"

definition ordenadoPor :: "string \<Rightarrow> (string \<times> jsval) list" where
  "ordenadoPor expressao = [(''orderBy'', JObj [(''expression'', JObj [(''$'', JStr expressao)])])]"

text \<open>\<open>xs.slice(0, fim)\<close>: a negative \<open>fim\<close> counts from the end of the list.\<close>

definition jsSlice0 :: "'a list \<Rightarrow> int \<Rightarrow> 'a list" where
  "jsSlice0 xs fim =
     (let n = int (length xs);
          k = (if fim < 0 then max (n + fim) 0 else min fim n)
      in take (nat k) xs)"

text \<open>\<open>Math.ceil(total / pageSize)\<close>; not finite when \<open>pageSize\<close> is 0.\<close>

definition jsCeilDiv :: "int \<Rightarrow> int \<Rightarrow> int option" where
  "jsCeilDiv t p = (if p = 0 then None else Some (- ((- t) div p)))"

text \<open>The empty result \<open>{ produtos | parceiros: [], total: 0, page, pageSize, totalPages: 0 }\<close>.\<close>

definition paginaVazia :: "int \<Rightarrow> int \<Rightarrow> pagina" where
  "paginaVazia pg tamanho =
     \<lparr>registros = [], totalRegistros = 0, page = pg, pageSize = tamanho, totalPages = Some 0\<rparr>"

section \<open>Token and request executor of produtos-service.ts\<close>

text \<open>
  \<open>getSankhyaToken(retryCount)\<close>: the token held in the module variable
  \<open>globalCachedToken\<close>, or a login. The \<open>try\<close> block stores a new token in the variable and
  in the store (\<open>"sankhya_global_token"\<close>, 18 minutes); the \<open>catch\<close> block retries on
  \<open>erro.response?.status === 500 && retryCount < MAX_RETRIES\<close> after
  \<open>RETRY_DELAY * (retryCount + 1)\<close>, and otherwise clears both and raises. \<open>MAX_RETRIES\<close>
  is 3 and \<open>RETRY_DELAY\<close> 1000, as in \<open>obterToken\<close>. (\<open>initializeGlobalToken\<close>, run when
  the module is loaded, copies a stored token into the variable: a state whose variable is
  set stands for it.)
\<close>

function getSankhyaToken :: "env \<Rightarrow> nat \<Rightarrow> world \<Rightarrow> (erro + string) \<times> world" where
  "getSankhyaToken e retryCount w =
     (if ouStr (globalCachedToken w) [] \<noteq> [] then (Inr (ouStr (globalCachedToken w) []), w)
      else
        (let w1 = w\<lparr>loginCalls := Suc (loginCalls w)\<rparr>;
             respostaLogin =
               (case loginTransport e (loginCalls w) of
                  LoginErro ex \<Rightarrow> Inl ex
                | LoginResposta bearerToken tk \<Rightarrow>
                    (let t = ouStr bearerToken (ouStr tk [])
                     in if t = [] then Inl (erroSimples erroLoginSemToken) else Inr t))
         in case respostaLogin of
              Inr t \<Rightarrow>
                (Inr t, cacheSet ''sankhya_global_token'' (VTexto t) (18 * 60)
                          (w1\<lparr>globalCachedToken := Some t\<rparr>))
            | Inl ex \<Rightarrow>
                if exStatus ex = Some 500 \<and> retryCount < MAX_RETRIES_LOGIN then
                  getSankhyaToken e (retryCount + 1)
                    (dormir (RETRY_DELAY * (int retryCount + 1)) w1)
                else
                  (let w2 = cacheDelete ''sankhya_global_token'' (w1\<lparr>globalCachedToken := None\<rparr>)
                   in if exStatus ex = Some 500 then (Inl erroSankhyaIndisponivel, w2)
                      else (Inl (erroFalhaAutenticacao (ouStr (exDataError ex) (exMessage ex))), w2))))"
  by pat_completeness auto
termination
  by (relation "measure (\<lambda>(e, retryCount, w). MAX_RETRIES_LOGIN - retryCount)") auto

declare getSankhyaToken.simps [simp del]

text \<open>
  The \<open>try\<close> block of the module's own \<open>fazerRequisicaoAutenticada\<close>:
  \<open>getSankhyaToken()\<close>, then the HTTP call with the token; the value is \<open>resposta.data\<close>
  or the error caught.
\<close>

definition executarRequisicao_produtos ::
  "env \<Rightarrow> string \<Rightarrow> string \<Rightarrow> jsval \<Rightarrow> world \<Rightarrow> (excecao + resposta) \<times> world" where
  "executarRequisicao_produtos e fullUrl metodo dados w =
     (case getSankhyaToken e 0 w of
        (Inl msg, w1) \<Rightarrow> (Inl (erroSimples msg), w1)
      | (Inr tk, w1) \<Rightarrow>
          (let w2 = w1\<lparr>httpCalls := Suc (httpCalls w1), tokensUsados := tokensUsados w1 @ [tk]\<rparr>
           in case dataTransport e (httpCalls w1) fullUrl metodo dados tk of
                HttpResposta d \<Rightarrow> (Inr d, w2)
              | HttpErro ex \<Rightarrow> (Inl ex, w2)))"

text \<open>
  What a caller reads as \<open>respostaCompleta\<close> from a value that a shared promise has
  yielded: a response, or a value with no \<open>responseBody\<close>.
\<close>

fun respostaDe :: "valor \<Rightarrow> resposta" where
  "respostaDe (VResposta r) = r"
| "respostaDe v = \<lparr>responseBody = None\<rparr>"

text \<open>
  \<open>fazerRequisicaoAutenticada(fullUrl, method, data, retryCount)\<close> of produtos-service.ts.
  The whole body runs inside
  \<open>dedupedRequest(`${method}:${fullUrl}:${JSON.stringify(data)}`, async () => { ... })\<close>,
  and both retry branches are \<open>return fazerRequisicaoAutenticada(fullUrl, method, data,
  retryCount + 1)\<close>: the nested call computes the same key while the promise of the
  enclosing call is still registered under it. The outcome \<open>None\<close> is a call that never
  settles. The \<open>catch\<close> block:
  \<^verbatim>\<open>
  if (erro.response && (erro.response.status === 401 || erro.response.status === 403)) {
    globalCachedToken = null;
    await redisCacheService.delete("sankhya_global_token");
    if (retryCount < 1) {
      await new Promise(resolve => setTimeout(resolve, 500));
      return fazerRequisicaoAutenticada(fullUrl, method, data, retryCount + 1);
    }
    throw new Error("Sessao expirada. Tente novamente.");
  }
  if ((erro.code === 'ECONNABORTED' || erro.code === 'ENOTFOUND' || erro.response?.status >= 500)
      && retryCount < MAX_RETRIES) {
    await new Promise(resolve => setTimeout(resolve, RETRY_DELAY * (retryCount + 1)));
    return fazerRequisicaoAutenticada(fullUrl, method, data, retryCount + 1);
  }
  if (erro.code === 'ECONNABORTED') throw new Error("Tempo de resposta excedido. Tente novamente.");
  if (erro.response?.status >= 500) throw new Error("Servico temporariamente indisponivel. Tente novamente.");
  throw new Error(erro.response?.data?.statusMessage || erro.message || "Erro na comunicacao com o servidor");
  \<close>
\<close>

function fazerRequisicaoAutenticada_produtos ::
  "env \<Rightarrow> string \<Rightarrow> string \<Rightarrow> jsval \<Rightarrow> nat \<Rightarrow> world \<Rightarrow> (erro + resposta) option \<times> world" where
  "fazerRequisicaoAutenticada_produtos e fullUrl metodo dados retryCount w =
     (let requestKey = metodo @ '':'' @ fullUrl @ '':'' @ stringify dados
      in case pendingRequests (dedup w) requestKey of
           Some pendente \<Rightarrow>
             (case desfechos w pendente of
                None \<Rightarrow> (None, w)
              | Some (Inl err) \<Rightarrow> (Some (Inl err), w)
              | Some (Inr v) \<Rightarrow> (Some (Inr (respostaDe v)), w))
         | None \<Rightarrow>
             (case iniciarPromessa requestKey w of
                (promise, w0) \<Rightarrow>
                  (case executarRequisicao_produtos e fullUrl metodo dados w0 of
                     (Inr d, w1) \<Rightarrow> (Some (Inr d), liquidarPromessa promise True w1)
                   | (Inl ex, w1) \<Rightarrow>
                       if exStatus ex = Some 401 \<or> exStatus ex = Some 403 then
                         (let w2 = cacheDelete ''sankhya_global_token''
                                     (w1\<lparr>globalCachedToken := None\<rparr>)
                          in if retryCount < 1 then
                               (case fazerRequisicaoAutenticada_produtos e fullUrl metodo dados
                                       (retryCount + 1) (dormir 500 w2) of
                                  (Some (Inr d), w3) \<Rightarrow> (Some (Inr d), liquidarPromessa promise True w3)
                                | (Some (Inl err), w3) \<Rightarrow> (Some (Inl err), liquidarPromessa promise False w3)
                                | (None, w3) \<Rightarrow> (None, w3))
                             else (Some (Inl erroSessaoExpirada), liquidarPromessa promise False w2))
                       else if (exCode ex = Some ''ECONNABORTED'' \<or> exCode ex = Some ''ENOTFOUND''
                                \<or> statusServidor ex) \<and> retryCount < MAX_RETRIES_REQUISICAO then
                         (case fazerRequisicaoAutenticada_produtos e fullUrl metodo dados
                                 (retryCount + 1) (dormir (RETRY_DELAY * (int retryCount + 1)) w1) of
                            (Some (Inr d), w3) \<Rightarrow> (Some (Inr d), liquidarPromessa promise True w3)
                          | (Some (Inl err), w3) \<Rightarrow> (Some (Inl err), liquidarPromessa promise False w3)
                          | (None, w3) \<Rightarrow> (None, w3))
                       else if exCode ex = Some ''ECONNABORTED'' then
                         (Some (Inl erroTempoExcedido), liquidarPromessa promise False w1)
                       else if statusServidor ex then
                         (Some (Inl erroServicoIndisponivel), liquidarPromessa promise False w1)
                       else
                         (Some (Inl (ouStr (exStatusMessage ex)
                                       (ouStr (Some (exMessage ex)) erroComunicacao))),
                          liquidarPromessa promise False w1))))"
  by pat_completeness auto
termination
  by (relation "measure (\<lambda>(e, fullUrl, metodo, dados, retryCount, w).
                  MAX_RETRIES_REQUISICAO - retryCount)")
     (auto simp add: MAX_RETRIES_REQUISICAO_def)

declare fazerRequisicaoAutenticada_produtos.simps [simp del]

section \<open>Cache-aside data fetchers of produtos-service.ts\<close>

text \<open>
  \<open>logApiRequest\<close> (api-logger, not among the sources) is the observability collaborator
  of the specification, which never propagates a failure: the awaited call changes nothing
  here and is left out.

  The \<open>try\<close> block of the function \<open>consultarProdutos\<close> hands to \<open>dedupedRequest\<close>:
  the query, the two empty answers (cached for an hour), the rows cut to \<open>pageSize\<close>, every
  record given \<open>ESTOQUE: '0'\<close> and \<open>VLRCOMERC: produto.VLRCOMERC || '0'\<close>, and the result
  cached for an hour.
\<close>

definition tentarConsultarProdutos ::
  "env \<Rightarrow> int \<Rightarrow> int \<Rightarrow> jsval \<Rightarrow> string \<Rightarrow> world \<Rightarrow> (erro + valor) option \<times> world" where
  "tentarConsultarProdutos e pg tamanho payload cacheKey w =
     (case fazerRequisicaoAutenticada_produtos e URL_CONSULTA_SERVICO ''POST'' payload 0 w of
        (None, w1) \<Rightarrow> (None, w1)
      | (Some (Inl err), w1) \<Rightarrow> (Some (Inl err), w1)
      | (Some (Inr respostaCompleta), w1) \<Rightarrow>
          (case responseBody respostaCompleta of
             None \<Rightarrow>
               (Some (Inr (VProdutos (paginaVazia pg tamanho))),
                cacheSet cacheKey (VProdutos (paginaVazia pg tamanho)) (60 * 60 * 1) w1)
           | Some (Corpo None) \<Rightarrow>
               (Some (Inr (VProdutos (paginaVazia pg tamanho))),
                cacheSet cacheKey (VProdutos (paginaVazia pg tamanho)) (60 * 60 * 1) w1)
           | Some (Corpo (Some ents)) \<Rightarrow>
               (if entityAusente (entity ents) then
                  (Some (Inr (VProdutos (paginaVazia pg tamanho))),
                   cacheSet cacheKey (VProdutos (paginaVazia pg tamanho)) (60 * 60 * 1) w1)
                else
                  (case mapearEntidades ents of
                     Inl err \<Rightarrow> (Some (Inl err), w1)
                   | Inr lista \<Rightarrow>
                       (let listaProdutosLimpa =
                              (if int (length lista) > tamanho then jsSlice0 lista tamanho else lista);
                            produtosComEstoque =
                              map (\<lambda>produto. produto
                                     (''ESTOQUE'' \<mapsto> JStr ''0'',
                                      ''VLRCOMERC'' \<mapsto>
                                        (if truthy (readProp produto ''VLRCOMERC'')
                                         then readProp produto ''VLRCOMERC'' else JStr ''0'')))
                                  listaProdutosLimpa;
                            resultado =
                              \<lparr>registros = produtosComEstoque,
                               totalRegistros = (case total ents of
                                                   Some t \<Rightarrow> t
                                                 | None \<Rightarrow> int (length produtosComEstoque)),
                               page = pg, pageSize = tamanho,
                               totalPages = (case total ents of
                                               Some t \<Rightarrow> jsCeilDiv t tamanho
                                             | None \<Rightarrow> Some 1)\<rparr>
                        in (Some (Inr (VProdutos resultado)),
                            cacheSet cacheKey (VProdutos resultado) (60 * 60 * 1) w1))))))"

text \<open>
  The whole function handed to \<open>dedupedRequest\<close>: the \<open>try\<close> block, and the \<open>catch\<close> block
  that caches the empty result for 60 seconds and raises the error again.
\<close>

definition buscarProdutos ::
  "env \<Rightarrow> int \<Rightarrow> int \<Rightarrow> jsval \<Rightarrow> string \<Rightarrow> world \<Rightarrow> (erro + valor) option \<times> world" where
  "buscarProdutos e pg tamanho payload cacheKey w =
     (case tentarConsultarProdutos e pg tamanho payload cacheKey w of
        (None, w1) \<Rightarrow> (None, w1)
      | (Some (Inr v), w1) \<Rightarrow> (Some (Inr v), w1)
      | (Some (Inl err), w1) \<Rightarrow>
          (Some (Inl err), cacheSet cacheKey (VProdutos (paginaVazia pg tamanho)) 60 w1))"

definition criterioProdutos :: "string \<Rightarrow> string \<Rightarrow> string" where
  "criterioProdutos searchName searchCode =
     (let filters =
            (if trim searchCode \<noteq> [] then [''CODPROD = '' @ [CHR 0x27] @ trim searchCode @ [CHR 0x27]] else [])
          @ (if trim searchName \<noteq> []
             then [''UPPER(DESCRPROD) LIKE '' @ [CHR 0x27] @ ''%'' @ toUpperCase (trim searchName) @ ''%'' @ [CHR 0x27]]
             else [])
      in if length filters > 0 then juntar '' AND '' filters else ''1=1'')"

definition payloadProdutos :: "string \<Rightarrow> jsval" where
  "payloadProdutos criteriaExpression =
     montarPayload ''Produto'' semLimite
       ''CODPROD, DESCRPROD, ATIVO, LOCAL, MARCA, CARACTERISTICAS, UNIDADE, VLRCOMERC''
       criteriaExpression []"

definition chaveProdutos :: "int \<Rightarrow> int \<Rightarrow> string \<Rightarrow> string \<Rightarrow> string" where
  "chaveProdutos pg tamanho searchName searchCode =
     ''produtos:list:'' @ string_of_int pg @ '':'' @ string_of_int tamanho @ '':''
       @ searchName @ '':'' @ searchCode"

text \<open>The \<open>requestKey\<close> that \<open>consultarProdutos\<close> computes for a search.\<close>

definition chaveRequisicaoProdutos :: "string \<Rightarrow> string \<Rightarrow> string" where
  "chaveRequisicaoProdutos searchName searchCode =
     ''produtos:'' @ URL_CONSULTA_SERVICO @ '':''
       @ stringify (payloadProdutos (criterioProdutos searchName searchCode))"

text \<open>
  \<open>consultarProdutos(page, pageSize, searchName, searchCode)\<close>: a cached value is returned
  as it is; otherwise the query runs through \<open>dedupedRequest\<close>, keyed by the URL and the
  request body (which hold neither \<open>page\<close> nor \<open>pageSize\<close>).
\<close>

definition consultarProdutos ::
  "env \<Rightarrow> int \<Rightarrow> int \<Rightarrow> string \<Rightarrow> string \<Rightarrow> world \<Rightarrow> (erro + valor) option \<times> world" where
  "consultarProdutos e pg tamanho searchName searchCode w =
     (let criteriaExpression = criterioProdutos searchName searchCode;
          PRODUTOS_PAYLOAD = payloadProdutos criteriaExpression;
          cacheKey = chaveProdutos pg tamanho searchName searchCode
      in case cacheGet cacheKey w of
           Some cached \<Rightarrow> (Some (Inr cached), w)
         | None \<Rightarrow>
             aguardarDeduped
               (''produtos:'' @ URL_CONSULTA_SERVICO @ '':'' @ stringify PRODUTOS_PAYLOAD)
               (buscarProdutos e pg tamanho PRODUTOS_PAYLOAD cacheKey) w)"

text \<open>
  \<open>consultarEstoqueProduto(codProd, searchLocal)\<close>. \<open>parseFloat\<close> is a parameter (the
  sum of the quantities is floating-point arithmetic). Empty answers and results are cached
  for 30 seconds; the \<open>catch\<close> block caches the empty result for 15 seconds and raises the
  error again.
\<close>

definition estoqueVazio :: resultadoEstoque where
  "estoqueVazio = \<lparr>estoques = [], totalEstoques = 0, estoqueTotal = 0\<rparr>"

definition criterioEstoque :: "string \<Rightarrow> string \<Rightarrow> string" where
  "criterioEstoque codProd searchLocal =
     juntar '' AND ''
       ([''CODPROD = '' @ codProd]
        @ (if trim searchLocal \<noteq> []
           then [''CODLOCAL LIKE '' @ [CHR 0x27] @ ''%'' @ trim searchLocal @ ''%'' @ [CHR 0x27]]
           else [])
        @ [''CONTROLE = '' @ [CHR 0x27] @ ''E'' @ [CHR 0x27]])"

definition payloadEstoque :: "string \<Rightarrow> string \<Rightarrow> jsval" where
  "payloadEstoque codProd searchLocal =
     montarPayload ''Estoque'' (comLimite ''100'') ''ESTOQUE, CODPROD, ATIVO, CONTROLE, CODLOCAL''
       (criterioEstoque codProd searchLocal) []"

definition chaveEstoque :: "string \<Rightarrow> string \<Rightarrow> string" where
  "chaveEstoque codProd searchLocal = ''estoque:produto:'' @ codProd @ '':'' @ searchLocal"

definition tentarConsultarEstoque ::
  "(jsval \<Rightarrow> real) \<Rightarrow> env \<Rightarrow> jsval \<Rightarrow> string \<Rightarrow> world \<Rightarrow> (erro + valor) option \<times> world" where
  "tentarConsultarEstoque parseFloat e payload cacheKey w =
     (case fazerRequisicaoAutenticada_produtos e URL_CONSULTA_SERVICO ''POST'' payload 0 w of
        (None, w1) \<Rightarrow> (None, w1)
      | (Some (Inl err), w1) \<Rightarrow> (Some (Inl err), w1)
      | (Some (Inr respostaCompleta), w1) \<Rightarrow>
          (case responseBody respostaCompleta of
             None \<Rightarrow>
               (Some (Inr (VEstoques estoqueVazio)), cacheSet cacheKey (VEstoques estoqueVazio) 30 w1)
           | Some (Corpo None) \<Rightarrow>
               (Some (Inr (VEstoques estoqueVazio)), cacheSet cacheKey (VEstoques estoqueVazio) 30 w1)
           | Some (Corpo (Some ents)) \<Rightarrow>
               (if entityAusente (entity ents) then
                  (Some (Inr (VEstoques estoqueVazio)),
                   cacheSet cacheKey (VEstoques estoqueVazio) 30 w1)
                else
                  (case mapearEntidades ents of
                     Inl err \<Rightarrow> (Some (Inl err), w1)
                   | Inr listaEstoquesLimpa \<Rightarrow>
                       (let soma =
                              foldl (\<lambda>acc estoque.
                                       acc + parseFloat
                                         (if truthy (readProp estoque ''ESTOQUE'')
                                          then readProp estoque ''ESTOQUE'' else JStr ''0''))
                                    0 listaEstoquesLimpa;
                            resultado =
                              \<lparr>estoques = listaEstoquesLimpa,
                               totalEstoques = length listaEstoquesLimpa,
                               estoqueTotal = soma\<rparr>
                        in (Some (Inr (VEstoques resultado)),
                            cacheSet cacheKey (VEstoques resultado) 30 w1))))))"

definition consultarEstoqueProduto ::
  "(jsval \<Rightarrow> real) \<Rightarrow> env \<Rightarrow> string \<Rightarrow> string \<Rightarrow> world \<Rightarrow> (erro + valor) option \<times> world" where
  "consultarEstoqueProduto parseFloat e codProd searchLocal w =
     (let cacheKey = chaveEstoque codProd searchLocal
      in case cacheGet cacheKey w of
           Some cached \<Rightarrow> (Some (Inr cached), w)
         | None \<Rightarrow>
             (let ESTOQUE_PAYLOAD = payloadEstoque codProd searchLocal
              in case tentarConsultarEstoque parseFloat e ESTOQUE_PAYLOAD cacheKey w of
                   (None, w1) \<Rightarrow> (None, w1)
                 | (Some (Inr v), w1) \<Rightarrow> (Some (Inr v), w1)
                 | (Some (Inl err), w1) \<Rightarrow>
                     (Some (Inl err), cacheSet cacheKey (VEstoques estoqueVazio) 15 w1)))"

section \<open>Cache-aside data fetchers of sankhya-api.ts\<close>

text \<open>\<open>`${codVendedor}`\<close> and \<open>`${codVendedoresEquipe?.join(',')}`\<close> for optional arguments.\<close>

definition textoOpcional :: "string option \<Rightarrow> string" where
  "textoOpcional x = (case x of Some s \<Rightarrow> s | None \<Rightarrow> ''undefined'')"

definition criterioParceiros ::
  "string \<Rightarrow> string \<Rightarrow> int option \<Rightarrow> int list option \<Rightarrow> string" where
  "criterioParceiros searchName searchCode codVendedor codVendedoresEquipe =
     juntar '' AND ''
       ([''CLIENTE = '' @ [CHR 0x27] @ ''S'' @ [CHR 0x27]]
        @ (if trim searchCode \<noteq> [] then [''CODPARC = '' @ trim searchCode] else [])
        @ (if trim searchName \<noteq> []
           then [''NOMEPARC LIKE '' @ [CHR 0x27] @ ''%'' @ toUpperCase (trim searchName) @ ''%'' @ [CHR 0x27]]
           else [])
        @ (case codVendedoresEquipe of
             Some (v # vs) \<Rightarrow>
               [''CODVEND IN ('' @ juntar '','' (map string_of_int (v # vs)) @ '')'',
                ''CODVEND IS NOT NULL'']
           | _ \<Rightarrow>
               (case codVendedor of
                  Some cv \<Rightarrow>
                    if cv \<noteq> 0 then [''CODVEND = '' @ string_of_int cv, ''CODVEND IS NOT NULL'']
                    else []
                | None \<Rightarrow> [])))"

definition chaveParceiros ::
  "int \<Rightarrow> int \<Rightarrow> string \<Rightarrow> string \<Rightarrow> int option \<Rightarrow> int list option \<Rightarrow> string" where
  "chaveParceiros pg tamanho searchName searchCode codVendedor codVendedoresEquipe =
     ''parceiros:list:'' @ string_of_int pg @ '':'' @ string_of_int tamanho @ '':''
       @ searchName @ '':'' @ searchCode @ '':''
       @ textoOpcional (map_option string_of_int codVendedor) @ '':''
       @ textoOpcional (map_option (\<lambda>vs. juntar '','' (map string_of_int vs)) codVendedoresEquipe)"

definition payloadParceiros ::
  "string \<Rightarrow> string \<Rightarrow> int option \<Rightarrow> int list option \<Rightarrow> jsval" where
  "payloadParceiros searchName searchCode codVendedor codVendedoresEquipe =
     montarPayload ''Parceiro'' semLimite
       ''CODPARC, NOMEPARC, CGC_CPF, CODCID, ATIVO, TIPPESSOA, RAZAOSOCIAL, IDENTINSCESTAD, CEP, CODEND, NUMEND, COMPLEMENTO, CODBAI, LATITUDE, LONGITUDE, CLIENTE, CODVEND''
       (criterioParceiros searchName searchCode codVendedor codVendedoresEquipe) []"

text \<open>
  \<open>consultarParceiros\<close>. The \<open>try\<close> block returns the empty result (without caching it)
  for an answer with no \<open>responseBody\<close>, no \<open>entities\<close> or no \<open>entity\<close>, and caches a
  result for ten minutes; the \<open>catch\<close> block is \<open>throw erro\<close>.
\<close>

definition consultarParceiros ::
  "env \<Rightarrow> int \<Rightarrow> int \<Rightarrow> string \<Rightarrow> string \<Rightarrow> int option \<Rightarrow> int list option \<Rightarrow> world
     \<Rightarrow> (erro + valor) \<times> world" where
  "consultarParceiros e pg tamanho searchName searchCode codVendedor codVendedoresEquipe w =
     (let cacheKey = chaveParceiros pg tamanho searchName searchCode codVendedor codVendedoresEquipe
      in case cacheGet cacheKey w of
           Some cached \<Rightarrow> (Inr cached, w)
         | None \<Rightarrow>
            (let PARCEIROS_PAYLOAD =
                   payloadParceiros searchName searchCode codVendedor codVendedoresEquipe
             in case fazerRequisicaoAutenticada e URL_CONSULTA_SERVICO ''POST'' PARCEIROS_PAYLOAD 0 w of
                  (Inl err, w1) \<Rightarrow> (Inl err, w1)
                | (Inr respostaCompleta, w1) \<Rightarrow>
                    (case responseBody respostaCompleta of
                       None \<Rightarrow> (Inr (VParceiros (paginaVazia pg tamanho)), w1)
                     | Some (Corpo None) \<Rightarrow> (Inr (VParceiros (paginaVazia pg tamanho)), w1)
                     | Some (Corpo (Some ents)) \<Rightarrow>
                         (if entityAusente (entity ents) then
                            (Inr (VParceiros (paginaVazia pg tamanho)), w1)
                          else
                            (case mapearParceiros ents of
                               Inl err \<Rightarrow> (Inl err, w1)
                             | Inr listaParceirosLimpa \<Rightarrow>
                                 (let tot = (case total ents of
                                               Some t \<Rightarrow> t
                                             | None \<Rightarrow> int (length listaParceirosLimpa));
                                      resultado =
                                        \<lparr>registros = listaParceirosLimpa, totalRegistros = tot,
                                         page = pg, pageSize = tamanho,
                                         totalPages = jsCeilDiv tot tamanho\<rparr>
                                  in (Inr (VParceiros resultado),
                                      cacheSet cacheKey (VParceiros resultado) (10 * 60) w1)))))))"

text \<open>
  The list fetchers \<open>consultarTiposOperacao\<close> and \<open>consultarTiposNegociacao\<close> differ in
  their cache key and request body only. Reading \<open>respostaCompleta.responseBody.entities\<close>
  raises a TypeError when \<open>responseBody\<close> is missing; an answer without entities gives
  \<open>[]\<close>, uncached; the records are cached for 60 minutes; the \<open>catch\<close> block logs and
  raises the error again.
\<close>

definition consultarLista :: "env \<Rightarrow> string \<Rightarrow> jsval \<Rightarrow> world \<Rightarrow> (erro + valor) \<times> world" where
  "consultarLista e cacheKey payload w =
     (case cacheGet cacheKey w of
        Some cached \<Rightarrow> (Inr cached, w)
      | None \<Rightarrow>
         (case fazerRequisicaoAutenticada e URL_CONSULTA_SERVICO ''POST'' payload 0 w of
            (Inl err, w1) \<Rightarrow> (Inl err, w1)
          | (Inr respostaCompleta, w1) \<Rightarrow>
              (case responseBody respostaCompleta of
                 None \<Rightarrow> (Inl typeError, w1)
               | Some (Corpo None) \<Rightarrow> (Inr (VLista []), w1)
               | Some (Corpo (Some ents)) \<Rightarrow>
                   (if entityAusente (entity ents) then (Inr (VLista []), w1)
                    else
                      (case metadata ents of
                         None \<Rightarrow> (Inl typeError, w1)
                       | Some fieldNames \<Rightarrow>
                           (let tipos = map (\<lambda>rawEntity. mapearCampos fieldNames rawEntity 0 Map.empty)
                                            (entityArrayOf (entity ents))
                            in (Inr (VLista tipos),
                                cacheSet cacheKey (VLista tipos) (60 * 60) w1)))))))"

definition payloadTiposOperacao :: jsval where
  "payloadTiposOperacao =
     montarPayload ''TipoOperacao'' (comLimite ''100'') ''CODTIPOPER, DESCROPER, ATIVO''
       (''ATIVO = '' @ [CHR 0x27] @ ''S'' @ [CHR 0x27]) (ordenadoPor ''DESCROPER ASC'')"

definition payloadTiposNegociacao :: jsval where
  "payloadTiposNegociacao =
     montarPayload ''TipoNegociacao'' (comLimite ''100'') ''CODTIPVENDA, DESCRTIPVENDA''
       (''ATIVO = '' @ [CHR 0x27] @ ''S'' @ [CHR 0x27]) (ordenadoPor ''DESCRTIPVENDA ASC'')"

definition consultarTiposOperacao :: "env \<Rightarrow> world \<Rightarrow> (erro + valor) \<times> world" where
  "consultarTiposOperacao e w = consultarLista e ''tipos:operacao:all'' payloadTiposOperacao w"

definition consultarTiposNegociacao :: "env \<Rightarrow> world \<Rightarrow> (erro + valor) \<times> world" where
  "consultarTiposNegociacao e w = consultarLista e ''tipos:negociacao:all'' payloadTiposNegociacao w"

text \<open>
  \<open>consultarTipVendaPorModelo(codTipOper)\<close>, the order header of a model: it reads no
  cache and writes none, and its \<open>catch\<close> block returns
  \<open>{ codTipVenda: null, nunota: null }\<close> instead of raising. The record is read from the
  first row (\<open>entities.entity[0]\<close> of an empty array is \<open>undefined\<close>, and reading a slot
  of it raises).
\<close>

record tipVenda =
  codTipVenda :: jsval
  nunota :: jsval

definition tipVendaNulo :: tipVenda where
  "tipVendaNulo = \<lparr>codTipVenda = JNull, nunota = JNull\<rparr>"

definition payloadTipVenda :: "string \<Rightarrow> jsval" where
  "payloadTipVenda codTipOper =
     montarPayload ''CabecalhoNota'' (comLimite ''1'') ''NUNOTA, CODTIPOPER, CODTIPVENDA''
       (''TIPMOV = '' @ [CHR 0x27] @ ''Z'' @ [CHR 0x27] @ '' AND CODTIPOPER = '' @ codTipOper)
       (ordenadoPor ''NUNOTA DESC'')"

definition consultarTipVendaPorModelo :: "env \<Rightarrow> string \<Rightarrow> world \<Rightarrow> tipVenda \<times> world" where
  "consultarTipVendaPorModelo e codTipOper w =
     (let PAYLOAD = payloadTipVenda codTipOper
      in case fazerRequisicaoAutenticada e URL_CONSULTA_SERVICO ''POST'' PAYLOAD 0 w of
           (Inl err, w1) \<Rightarrow> (tipVendaNulo, w1)
         | (Inr respostaCompleta, w1) \<Rightarrow>
             (case responseBody respostaCompleta of
                None \<Rightarrow> (tipVendaNulo, w1)
              | Some (Corpo None) \<Rightarrow> (tipVendaNulo, w1)
              | Some (Corpo (Some ents)) \<Rightarrow>
                  (if entityAusente (entity ents) then (tipVendaNulo, w1)
                   else
                     (case metadata ents of
                        None \<Rightarrow> (tipVendaNulo, w1)
                      | Some fieldNames \<Rightarrow>
                          (case entityArrayOf (entity ents) of
                             rawEntity # outros \<Rightarrow>
                               (let cabecalho = mapearCampos fieldNames rawEntity 0 Map.empty
                                in (\<lparr>codTipVenda = readProp cabecalho ''CODTIPVENDA'',
                                     nunota = readProp cabecalho ''NUNOTA''\<rparr>, w1))
                           | [] \<Rightarrow>
                               (if fieldNames = []
                                then (\<lparr>codTipVenda = JUndefined, nunota = JUndefined\<rparr>, w1)
                                else (tipVendaNulo, w1)))))))"

text \<open>The list of records of the outcome of a call, when it is a paginated result.\<close>

fun registrosDe :: "(erro + valor) option \<Rightarrow> jsobj list option" where
  "registrosDe (Some (Inr (VProdutos r))) = Some (registros r)"
| "registrosDe (Some (Inr (VParceiros r))) = Some (registros r)"
| "registrosDe other = None"



text \<open>
  Example states and environments: a process that has issued no call yet, at instant
  \<open>t\<close>; a transport failure with an HTTP status; login endpoints that always succeed,
  always answer 500, and always answer 503.
\<close>

definition dedupVazio :: dedupEstado where
  "dedupVazio = \<lparr>pendingRequests = Map.empty, emVoo = Map.empty, proximaPromessa = 0, invocacoes = 0\<rparr>"

definition mundoInicial :: "int \<Rightarrow> world" where
  "mundoInicial t =
     \<lparr>now = t, cache = Map.empty, tokenPromise = None, loginCalls = 0, httpCalls = 0,
      tokensUsados = [], esperas = [], dedup = dedupVazio, desfechos = (\<lambda>p. None),
      globalCachedToken = None\<rparr>"

definition falhaHttp :: "nat \<Rightarrow> excecao" where
  "falhaHttp st =
     \<lparr>exStatus = Some st, exCode = None, exDataError = None, exStatusMessage = None,
      exMessage = ''Request failed''\<rparr>"

definition envLoginOk :: env where
  "envLoginOk =
     \<lparr>loginTransport = (\<lambda>k. LoginResposta (Some ''tok'') None),
      dataTransport = (\<lambda>k url verbo dados tk. HttpErro (falhaHttp 500))\<rparr>"

definition envLogin500 :: env where
  "envLogin500 =
     \<lparr>loginTransport = (\<lambda>k. LoginErro (falhaHttp 500)),
      dataTransport = (\<lambda>k url verbo dados tk. HttpErro (falhaHttp 500))\<rparr>"

definition envLogin503 :: env where
  "envLogin503 =
     \<lparr>loginTransport = (\<lambda>k. LoginErro (falhaHttp 503)),
      dataTransport = (\<lambda>k url verbo dados tk. HttpErro (falhaHttp 500))\<rparr>"

text \<open>A store that still holds a credential whose \<open>expiresAt\<close> (900) has passed at instant 1000.\<close>

definition mundoExpirado :: world where
  "mundoExpirado =
     (mundoInicial 1000)\<lparr>cache :=
        [TOKEN_CACHE_KEY \<mapsto> (VToken \<lparr>token = ''velho'', expiresAt = 900, geradoEm = 0\<rparr>, 1201000)]\<rparr>"

text \<open>
  A store holding a credential that is valid from instant 1000 until 1201000; ERP
  endpoints that always answer 401, that answer 401 to the first data call and succeed
  afterwards, and that always time out or cannot be resolved.
\<close>

definition mundoComToken :: world where
  "mundoComToken =
     (mundoInicial 1000)\<lparr>cache :=
        [TOKEN_CACHE_KEY \<mapsto> (VToken \<lparr>token = ''tok'', expiresAt = 1201000, geradoEm = 1000\<rparr>, 1201000)]\<rparr>"

definition falhaRede :: "string \<Rightarrow> string \<Rightarrow> excecao" where
  "falhaRede codigo msg =
     \<lparr>exStatus = None, exCode = Some codigo, exDataError = None, exStatusMessage = None,
      exMessage = msg\<rparr>"

definition env401 :: env where
  "env401 =
     \<lparr>loginTransport = (\<lambda>k. LoginResposta (Some ''novo'') None),
      dataTransport = (\<lambda>k url verbo dados tk. HttpErro (falhaHttp 401))\<rparr>"

definition env401Depois200 :: env where
  "env401Depois200 =
     \<lparr>loginTransport = (\<lambda>k. LoginResposta (Some ''novo'') None),
      dataTransport = (\<lambda>k url verbo dados tk.
         if k = 0 then HttpErro (falhaHttp 401) else HttpResposta \<lparr>responseBody = None\<rparr>)\<rparr>"

definition envTimeout :: env where
  "envTimeout =
     \<lparr>loginTransport = (\<lambda>k. LoginResposta (Some ''tok'') None),
      dataTransport = (\<lambda>k url verbo dados tk.
         HttpErro (falhaRede ''ECONNABORTED'' ''timeout of 15000ms exceeded''))\<rparr>"

definition envSemDns :: env where
  "envSemDns =
     \<lparr>loginTransport = (\<lambda>k. LoginResposta (Some ''tok'') None),
      dataTransport = (\<lambda>k url verbo dados tk.
         HttpErro (falhaRede ''ENOTFOUND'' ''getaddrinfo ENOTFOUND api.sandbox.sankhya.com.br''))\<rparr>"

text \<open>
  An ERP that answers every data call with three product rows (codes 1, 2 and 3) and no
  \<open>total\<close>, and one that answers every data call with HTTP 400.
\<close>

definition linhaProduto :: "string \<Rightarrow> jsobj" where
  "linhaProduto cod = [''f0'' \<mapsto> JObj [(''$'', JStr cod)]]"

definition respostaTresProdutos :: resposta where
  "respostaTresProdutos =
     \<lparr>responseBody = Some (Corpo (Some
        \<lparr>metadata = Some [''CODPROD''],
         entity = EntityArray [linhaProduto ''1'', linhaProduto ''2'', linhaProduto ''3''],
         total = None\<rparr>))\<rparr>"

definition envTresProdutos :: env where
  "envTresProdutos =
     \<lparr>loginTransport = (\<lambda>k. LoginResposta (Some ''tok'') None),
      dataTransport = (\<lambda>k url verbo dados tk. HttpResposta respostaTresProdutos)\<rparr>"

definition env400 :: env where
  "env400 =
     \<lparr>loginTransport = (\<lambda>k. LoginResposta (Some ''tok'') None),
      dataTransport = (\<lambda>k url verbo dados tk. HttpErro (falhaHttp 400))\<rparr>"

text \<open>
  The state a second caller finds while a call that has registered its promise under \<open>key\<close>
  (from the state \<open>w\<close>) is suspended: the promise is pending, and a wait for it ends with
  the outcome \<open>r\<close> of that call.
\<close>

definition comChamadaEmVoo :: "string \<Rightarrow> (erro + valor) option \<Rightarrow> world \<Rightarrow> world" where
  "comChamadaEmVoo key r w =
     (case iniciarPromessa key w of
        (promise, w0) \<Rightarrow> w0\<lparr>desfechos := (desfechos w0)(promise := r)\<rparr>)"

text \<open>A login endpoint that issues a different token at every call.\<close>

definition envTokensDistintos :: env where
  "envTokensDistintos =
     \<lparr>loginTransport = (\<lambda>k. LoginResposta (Some (if k = 0 then ''tokenA'' else ''tokenB'')) None),
      dataTransport = (\<lambda>k url verbo dados tk. HttpErro (falhaHttp 500))\<rparr>"

text \<open>Two calls \<open>obterToken(false, 0)\<close> on an empty store, none resumed yet.\<close>

definition doisChamadores :: "processo \<times> chamada list" where
  "doisChamadores = (processoInicial (mundoInicial 1000), [chamadaInicial False, chamadaInicial False])"

section \<open>Verified properties\<close>

subsection \<open>Normalization\<close>














subsection \<open>The store and the clock\<close>

lemma cacheSet_fields [simp]:
  "now (cacheSet k v ttl w) = now w"
  "tokenPromise (cacheSet k v ttl w) = tokenPromise w"
  "loginCalls (cacheSet k v ttl w) = loginCalls w"
  "httpCalls (cacheSet k v ttl w) = httpCalls w"
  "tokensUsados (cacheSet k v ttl w) = tokensUsados w"
  "esperas (cacheSet k v ttl w) = esperas w"
  "dedup (cacheSet k v ttl w) = dedup w"
  "desfechos (cacheSet k v ttl w) = desfechos w"
  "cache (cacheSet k v ttl w) = (cache w)(k \<mapsto> (v, now w + ttl * 1000))"
  by (simp_all add: cacheSet_def)

lemma cacheDelete_fields [simp]:
  "now (cacheDelete k w) = now w"
  "tokenPromise (cacheDelete k w) = tokenPromise w"
  "loginCalls (cacheDelete k w) = loginCalls w"
  "httpCalls (cacheDelete k w) = httpCalls w"
  "tokensUsados (cacheDelete k w) = tokensUsados w"
  "esperas (cacheDelete k w) = esperas w"
  "dedup (cacheDelete k w) = dedup w"
  "desfechos (cacheDelete k w) = desfechos w"
  "cache (cacheDelete k w) = (cache w)(k := None)"
  by (simp_all add: cacheDelete_def)

lemma dormir_fields [simp]:
  "now (dormir ms w) = now w + ms"
  "tokenPromise (dormir ms w) = tokenPromise w"
  "loginCalls (dormir ms w) = loginCalls w"
  "httpCalls (dormir ms w) = httpCalls w"
  "tokensUsados (dormir ms w) = tokensUsados w"
  "esperas (dormir ms w) = esperas w @ [ms]"
  "dedup (dormir ms w) = dedup w"
  "desfechos (dormir ms w) = desfechos w"
  "cache (dormir ms w) = cache w"
  by (simp_all add: dormir_def)

lemma finalizar_fields [simp]:
  "now (finalizar w) = now w"
  "tokenPromise (finalizar w) = None"
  "loginCalls (finalizar w) = loginCalls w"
  "httpCalls (finalizar w) = httpCalls w"
  "tokensUsados (finalizar w) = tokensUsados w"
  "esperas (finalizar w) = esperas w"
  "dedup (finalizar w) = dedup w"
  "desfechos (finalizar w) = desfechos w"
  "cache (finalizar w) = (cache w)(LOCK_KEY := None)"
  by (simp_all add: finalizar_def)

lemma chaves_distintas [simp]:
  "LOCK_KEY \<noteq> TOKEN_CACHE_KEY" "TOKEN_CACHE_KEY \<noteq> LOCK_KEY"
  by (simp_all add: LOCK_KEY_def TOKEN_CACHE_KEY_def)

text \<open>The validity check reads the clock and the credential's entry, nothing else.\<close>

lemma tokenValido_cong:
  "now w' = now w \<Longrightarrow> cache w' TOKEN_CACHE_KEY = cache w TOKEN_CACHE_KEY \<Longrightarrow>
   tokenValido w' = tokenValido w"
  by (simp add: tokenValido_def cacheGet_def Let_def split: option.split prod.split valor.split)

text \<open>A credential that is not valid never becomes valid by waiting.\<close>

lemma tokenValido_mono:
  "tokenValido w = None \<Longrightarrow> now w \<le> now w' \<Longrightarrow>
   cache w' TOKEN_CACHE_KEY = cache w TOKEN_CACHE_KEY \<Longrightarrow> tokenValido w' = None"
  by (auto simp add: tokenValido_def cacheGet_def Let_def
      split: option.splits valor.splits if_splits prod.splits)

lemma tokenValido_sem_entrada:
  "cache w TOKEN_CACHE_KEY = None \<Longrightarrow> tokenValido w = None"
  by (simp add: tokenValido_def cacheGet_def)

lemma tokenValido_expirado:
  "cache w TOKEN_CACHE_KEY = Some (VToken c, evicted) \<Longrightarrow> expiresAt c \<le> now w \<Longrightarrow>
   tokenValido w = None"
  by (simp add: tokenValido_def cacheGet_def Let_def)

subsection \<open>Token manager\<close>

lemma adquirirLock_frame:
  "adquirirLock lockStart w = (r, w') \<Longrightarrow>
     loginCalls w' = loginCalls w \<and> tokenPromise w' = tokenPromise w \<and> httpCalls w' = httpCalls w
   \<and> tokensUsados w' = tokensUsados w \<and> dedup w' = dedup w \<and> desfechos w' = desfechos w
   \<and> now w \<le> now w' \<and> cache w' TOKEN_CACHE_KEY = cache w TOKEN_CACHE_KEY"
proof (induction lockStart w arbitrary: r w' rule: adquirirLock.induct)
  case (1 lockStart w)
  note unf = adquirirLock.simps[of lockStart w]
  show ?case
  proof (cases "now w - lockStart < MAX_LOCK_WAIT")
    case False
    with "1.prems" have "r = LockNaoAdquirido \<and> w' = w" unfolding unf by simp
    then show ?thesis by simp
  next
    case True
    show ?thesis
    proof (cases "cacheGet LOCK_KEY w")
      case None
      with True "1.prems" have "w' = cacheSet LOCK_KEY (VLock (now w)) LOCK_TTL w" unfolding unf by simp
      then show ?thesis by simp
    next
      case (Some existing)
      show ?thesis
      proof (cases "tokenValido (dormir 500 w)")
        case (Some t)
        with True \<open>cacheGet LOCK_KEY w = Some existing\<close> "1.prems" 
        have "w' = cacheDelete LOCK_KEY (dormir 500 w)"
          unfolding unf by simp
        then show ?thesis by simp
      next
        case None
        with True \<open>cacheGet LOCK_KEY w = Some existing\<close> "1.prems"
        have rec: "adquirirLock lockStart (dormir 500 w) = (r, w')"
          unfolding unf by simp
        from "1.IH"[OF True \<open>cacheGet LOCK_KEY w = Some existing\<close> refl None rec]
        show ?thesis by simp
      qed
    qed
  qed
qed

lemma adquirirLock_sem_token:
  "tokenValido w = None \<Longrightarrow> adquirirLock lockStart w = (r, w') \<Longrightarrow>
     (\<forall>t. r \<noteq> TokenEncontrado t) \<and> tokenValido w' = None"
proof (induction lockStart w arbitrary: r w' rule: adquirirLock.induct)
  case (1 lockStart w)
  note unf = adquirirLock.simps[of lockStart w]
  show ?case
  proof (cases "now w - lockStart < MAX_LOCK_WAIT")
    case False
    with "1.prems" have "r = LockNaoAdquirido \<and> w' = w" unfolding unf by simp
    with "1.prems"(1) show ?thesis by simp
  next
    case True
    show ?thesis
    proof (cases "cacheGet LOCK_KEY w")
      case None
      have "tokenValido (cacheSet LOCK_KEY (VLock (now w)) LOCK_TTL w) = tokenValido w"
        by (rule tokenValido_cong) simp_all
      with "1.prems"(1) have n: "tokenValido (cacheSet LOCK_KEY (VLock (now w)) LOCK_TTL w) = None"
        by simp
      from None True "1.prems"
      have "r = LockAdquirido \<and> w' = cacheSet LOCK_KEY (VLock (now w)) LOCK_TTL w"
        unfolding unf by simp
      with n show ?thesis by simp
    next
      case (Some existing)
      have n: "tokenValido (dormir 500 w) = None"
        using "1.prems"(1) by (rule tokenValido_mono) simp_all
      with True Some "1.prems"
      have rec: "adquirirLock lockStart (dormir 500 w) = (r, w')"
        unfolding unf by simp
      from "1.IH"[OF True Some refl n n rec] show ?thesis .
    qed
  qed
qed

lemma prepararRenovacao_frame:
  "prepararRenovacao forceRefresh w = Inr w1 \<Longrightarrow>
     loginCalls w1 = loginCalls w \<and> tokenPromise w = None \<and> tokenPromise w1 = None
   \<and> httpCalls w1 = httpCalls w \<and> tokensUsados w1 = tokensUsados w \<and> now w \<le> now w1
   \<and> (forceRefresh \<or> tokenValido w1 = None)"
proof -
  assume a: "prepararRenovacao forceRefresh w = Inr w1"
  define w0 where "w0 = (if forceRefresh then cacheDelete TOKEN_CACHE_KEY w else w)"
  have f0: "loginCalls w0 = loginCalls w" "tokenPromise w0 = tokenPromise w"
    "httpCalls w0 = httpCalls w" "tokensUsados w0 = tokensUsados w" "now w0 = now w"
    by (simp_all add: w0_def)
  obtain r w2 where al: "adquirirLock (now w0) w0 = (r, w2)" by (cases "adquirirLock (now w0) w0")
  note fr = adquirirLock_frame[OF al]
  have eq: "prepararRenovacao forceRefresh w =
     (case caminhoRapido forceRefresh w0 of
           Some t \<Rightarrow> Inl (Inr t, w0)
         | None \<Rightarrow>
            (case tokenPromise w0 of
               Some desfecho \<Rightarrow> Inl (desfecho, w0)
             | None \<Rightarrow>
                (case (r, w2) of
                   (TokenEncontrado t, w2) \<Rightarrow> Inl (Inr t, w2)
                 | (LockNaoAdquirido, w2) \<Rightarrow>
                     (case tokenValido w2 of
                        Some t \<Rightarrow> Inl (Inr t, w2)
                      | None \<Rightarrow> Inl (Inl erroLockTimeout, w2))
                 | (LockAdquirido, w2) \<Rightarrow>
                     (if \<not> forceRefresh then
                        (case tokenValido w2 of
                           Some t \<Rightarrow> Inl (Inr t, cacheDelete LOCK_KEY w2)
                         | None \<Rightarrow> Inr w2)
                      else Inr w2))))"
    unfolding prepararRenovacao_def Let_def w0_def[symmetric] al ..
  from a have c0: "caminhoRapido forceRefresh w0 = None"
    unfolding eq by (cases "caminhoRapido forceRefresh w0") simp_all
  from a c0 have tp: "tokenPromise w0 = None"
    unfolding eq by (cases "tokenPromise w0") simp_all
  from a c0 tp have r: "r = LockAdquirido"
    unfolding eq by (cases r; cases "tokenValido w2") simp_all
  from a c0 tp r have w12: "w1 = w2 \<and> (forceRefresh \<or> tokenValido w2 = None)"
    unfolding eq by (cases "tokenValido w2"; cases forceRefresh) simp_all
  with fr f0 tp show ?thesis by simp
qed
lemma prepararRenovacao_sem_token:
  assumes "tokenValido w = None" and "tokenPromise w = None"
  shows "prepararRenovacao forceRefresh w = Inl (Inl erroLockTimeout, snd (adquirirLock (now w) (if forceRefresh then cacheDelete TOKEN_CACHE_KEY w else w)))
       \<or> (\<exists>w1. prepararRenovacao forceRefresh w = Inr w1 \<and> tokenValido w1 = None)"
proof -
  define w0 where "w0 = (if forceRefresh then cacheDelete TOKEN_CACHE_KEY w else w)"
  have v0: "tokenValido w0 = None"
    using assms(1) by (auto simp add: w0_def tokenValido_sem_entrada)
  have p0: "tokenPromise w0 = None" "now w0 = now w" using assms(2) by (simp_all add: w0_def)
  obtain r w2 where al: "adquirirLock (now w0) w0 = (r, w2)" by (cases "adquirirLock (now w0) w0")
  from adquirirLock_sem_token[OF v0 al] have nt: "\<forall>t. r \<noteq> TokenEncontrado t" and v2: "tokenValido w2 = None"
    by simp_all
  have cr: "caminhoRapido forceRefresh w0 = None" using v0 by (simp add: caminhoRapido_def)
  show ?thesis
  proof (cases r)
    case LockAdquirido
    with al cr p0 v2 show ?thesis
      by (simp add: prepararRenovacao_def w0_def[symmetric] Let_def)
  next
    case (TokenEncontrado t)
    with nt show ?thesis by simp
  next
    case LockNaoAdquirido
    with al cr p0 v2 show ?thesis
      by (simp add: prepararRenovacao_def w0_def[symmetric] Let_def)
  qed
qed

lemma tentarLogin_falha:
  "tentarLogin e w = (Inl ex, w') \<Longrightarrow> w' = w\<lparr>loginCalls := Suc (loginCalls w)\<rparr>"
  by (auto simp add: tentarLogin_def Let_def split: loginResposta.splits if_splits)

lemma tentarLogin_sucesso:
  "tentarLogin e w = (Inr t, w') \<Longrightarrow>
     t \<noteq> [] \<and> (\<exists>b tk. loginTransport e (loginCalls w) = LoginResposta b tk \<and> ouStr b (ouStr tk []) = t)
   \<and> w' = cacheDelete LOCK_KEY
             (cacheSet TOKEN_CACHE_KEY
                (VToken \<lparr>token = t, expiresAt = now w + 1200000, geradoEm = now w\<rparr>) 1200
                (w\<lparr>loginCalls := Suc (loginCalls w)\<rparr>))"
  by (auto simp add: tentarLogin_def Let_def split: loginResposta.splits if_splits)

lemma obterToken_retorno:
  "prepararRenovacao forceRefresh w = Inl retorno \<Longrightarrow> obterToken e forceRefresh retryCount w = retorno"
  by (subst obterToken.simps) simp

lemma obterToken_sucesso:
  "prepararRenovacao forceRefresh w = Inr w1 \<Longrightarrow> tentarLogin e w1 = (Inr t, w2) \<Longrightarrow>
   obterToken e forceRefresh retryCount w = (Inr t, finalizar w2)"
  by (subst obterToken.simps) simp

lemma obterToken_retry:
  "prepararRenovacao forceRefresh w = Inr w1 \<Longrightarrow> tentarLogin e w1 = (Inl ex, w2) \<Longrightarrow>
   exStatus ex = Some 500 \<Longrightarrow> retryCount < MAX_RETRIES_LOGIN \<Longrightarrow>
   obterToken e forceRefresh retryCount w =
     (case obterToken e forceRefresh (retryCount + 1)
             ((dormir (RETRY_DELAY * (int retryCount + 1)) (cacheDelete LOCK_KEY w2))\<lparr>tokenPromise := None\<rparr>) of
        (r, w6) \<Rightarrow> (r, finalizar w6))"
  by (subst obterToken.simps) (simp add: Let_def)

lemma obterToken_falha:
  "prepararRenovacao forceRefresh w = Inr w1 \<Longrightarrow> tentarLogin e w1 = (Inl ex, w2) \<Longrightarrow>
   \<not> (exStatus ex = Some 500 \<and> retryCount < MAX_RETRIES_LOGIN) \<Longrightarrow>
   obterToken e forceRefresh retryCount w =
     (Inl (if exStatus ex = Some 500 then erroSankhyaIndisponivel
           else erroFalhaAutenticacao (ouStr (exDataError ex) (exMessage ex))),
      finalizar ((cacheDelete TOKEN_CACHE_KEY (cacheDelete LOCK_KEY w2))\<lparr>tokenPromise := None\<rparr>))"
  by (subst obterToken.simps) (simp add: Let_def)

lemma obterToken_renova:
  "tokenValido w = None \<Longrightarrow> tokenPromise w = None \<Longrightarrow>
   obterToken e forceRefresh retryCount w = (Inr t, w') \<Longrightarrow>
     loginCalls w < loginCalls w'
   \<and> (\<exists>b tk. loginTransport e (loginCalls w' - 1) = LoginResposta b tk \<and> ouStr b (ouStr tk []) = t)
   \<and> cache w' TOKEN_CACHE_KEY =
        Some (VToken \<lparr>token = t, expiresAt = now w' + 1200000, geradoEm = now w'\<rparr>, now w' + 1200000)
   \<and> t \<noteq> []"
proof (induction e forceRefresh retryCount w arbitrary: t w' rule: obterToken.induct)
  case (1 e forceRefresh retryCount w)
  from prepararRenovacao_sem_token[OF "1.prems"(1,2), of forceRefresh]
  show ?case
  proof
    assume "prepararRenovacao forceRefresh w = Inl (Inl erroLockTimeout,
        snd (adquirirLock (now w) (if forceRefresh then cacheDelete TOKEN_CACHE_KEY w else w)))"
    from obterToken_retorno[OF this, of e retryCount] "1.prems"(3) show ?thesis by simp
  next
    assume "\<exists>w1. prepararRenovacao forceRefresh w = Inr w1 \<and> tokenValido w1 = None"
    then obtain w1 where prep: "prepararRenovacao forceRefresh w = Inr w1" and v1: "tokenValido w1 = None"
      by blast
    note fr = prepararRenovacao_frame[OF prep]
    obtain x w2 where tl: "tentarLogin e w1 = (x, w2)" by (cases "tentarLogin e w1")
    show ?thesis
    proof (cases x)
      case (Inr t')
      from tl Inr have tl': "tentarLogin e w1 = (Inr t', w2)" by simp
      from obterToken_sucesso[OF prep tl', of retryCount] "1.prems"(3)
      have e1: "t = t'" "w' = finalizar w2" by simp_all
      from tentarLogin_sucesso[OF tl'] fr e1 show ?thesis by auto
    next
      case (Inl ex)
      from tl Inl have tl': "tentarLogin e w1 = (Inl ex, w2)" by simp
      note w2 = tentarLogin_falha[OF tl']
      show ?thesis
      proof (cases "exStatus ex = Some 500 \<and> retryCount < MAX_RETRIES_LOGIN")
        case False
        from obterToken_falha[OF prep tl' False] "1.prems"(3) show ?thesis by simp
      next
        case True
        define w5 where "w5 = (dormir (RETRY_DELAY * (int retryCount + 1)) (cacheDelete LOCK_KEY w2))\<lparr>tokenPromise := None\<rparr>"
        obtain r w6 where rec: "obterToken e forceRefresh (retryCount + 1) w5 = (r, w6)"
          by (cases "obterToken e forceRefresh (retryCount + 1) w5")
        from obterToken_retry[OF prep tl'] True rec "1.prems"(3)
        have e1: "r = Inr t" "w' = finalizar w6" by (simp_all add: w5_def)
        have v5: "tokenValido w5 = None"
          using v1 by (rule tokenValido_mono) (simp_all add: w5_def w2 RETRY_DELAY_def)
        have p5: "tokenPromise w5 = None" by (simp add: w5_def)
        have l5: "loginCalls w5 = Suc (loginCalls w)" using fr by (simp add: w5_def w2)
        from rec e1 have rec': "obterToken e forceRefresh (retryCount + 1) w5 = (Inr t, w6)" by simp
        note ih = "1.IH"[OF prep tl[symmetric] Inl refl True refl refl, folded w5_def]
        from ih[OF v5 p5 rec'] show ?thesis using l5 e1 by simp
      qed
    qed
  qed
qed

lemma prepararRenovacao_desdobrado:
  assumes al: "adquirirLock (now w0) w0 = (r, w2)"
    and w0: "w0 = (if forceRefresh then cacheDelete TOKEN_CACHE_KEY w else w)"
  shows "prepararRenovacao forceRefresh w =
     (case caminhoRapido forceRefresh w0 of
           Some t \<Rightarrow> Inl (Inr t, w0)
         | None \<Rightarrow>
            (case tokenPromise w0 of
               Some desfecho \<Rightarrow> Inl (desfecho, w0)
             | None \<Rightarrow>
                (case r of
                   TokenEncontrado t \<Rightarrow> Inl (Inr t, w2)
                 | LockNaoAdquirido \<Rightarrow>
                     (case tokenValido w2 of
                        Some t \<Rightarrow> Inl (Inr t, w2)
                      | None \<Rightarrow> Inl (Inl erroLockTimeout, w2))
                 | LockAdquirido \<Rightarrow>
                     (if \<not> forceRefresh then
                        (case tokenValido w2 of
                           Some t \<Rightarrow> Inl (Inr t, cacheDelete LOCK_KEY w2)
                         | None \<Rightarrow> Inr w2)
                      else Inr w2))))"
  unfolding prepararRenovacao_def Let_def w0[symmetric]
  by (simp add: al split: option.split lockResultado.split)

lemma prepararRenovacao_retorno_frame:
  assumes a: "prepararRenovacao forceRefresh w = Inl (res, w')"
  shows "loginCalls w' = loginCalls w \<and> httpCalls w' = httpCalls w \<and> tokensUsados w' = tokensUsados w"
proof -
  define w0 where "w0 = (if forceRefresh then cacheDelete TOKEN_CACHE_KEY w else w)"
  have f0: "loginCalls w0 = loginCalls w" "httpCalls w0 = httpCalls w" "tokensUsados w0 = tokensUsados w"
    by (simp_all add: w0_def)
  obtain r w2 where al: "adquirirLock (now w0) w0 = (r, w2)" by (cases "adquirirLock (now w0) w0")
  note fr = adquirirLock_frame[OF al]
  note eq = prepararRenovacao_desdobrado[OF al w0_def]
  from a have "w' = w0 \<or> w' = w2 \<or> w' = cacheDelete LOCK_KEY w2"
    unfolding eq
    by (cases "caminhoRapido forceRefresh w0"; cases "tokenPromise w0"; cases r;
        cases "tokenValido w2"; cases forceRefresh) simp_all
  with fr f0 show ?thesis by auto
qed

lemma prepararRenovacao_login_sem_token:
  assumes a: "prepararRenovacao forceRefresh w = Inr w1"
  shows "tokenValido w1 = None"
proof (cases forceRefresh)
  case False
  with prepararRenovacao_frame[OF a] show ?thesis by simp
next
  case True
  define w0 where "w0 = cacheDelete TOKEN_CACHE_KEY w"
  have v0: "tokenValido w0 = None" by (simp add: w0_def tokenValido_sem_entrada)
  obtain r w2 where al: "adquirirLock (now w0) w0 = (r, w2)" by (cases "adquirirLock (now w0) w0")
  have w0': "w0 = (if forceRefresh then cacheDelete TOKEN_CACHE_KEY w else w)" using True by (simp add: w0_def)
  note eq = prepararRenovacao_desdobrado[OF al w0']
  from a have "w1 = w2"
    unfolding eq using True
    by (cases "caminhoRapido forceRefresh w0"; cases "tokenPromise w0"; cases r;
        cases "tokenValido w2") simp_all
  with adquirirLock_sem_token[OF v0 al] show ?thesis by simp
qed

lemma obterToken_login_ou_retorno:
  assumes a: "obterToken e forceRefresh retryCount w = (Inr t, w')"
  shows "loginCalls w' = loginCalls w
       \<or> (loginCalls w < loginCalls w'
          \<and> (\<exists>b tk. loginTransport e (loginCalls w' - 1) = LoginResposta b tk \<and> ouStr b (ouStr tk []) = t)
          \<and> cache w' TOKEN_CACHE_KEY =
               Some (VToken \<lparr>token = t, expiresAt = now w' + 1200000, geradoEm = now w'\<rparr>, now w' + 1200000)
          \<and> t \<noteq> [])"
proof (cases "prepararRenovacao forceRefresh w")
  case (Inl ret)
  obtain res w'' where ret: "ret = (res, w'')" by (cases ret)
  from obterToken_retorno[OF Inl, of e retryCount] a ret have "w'' = w'" by simp
  with prepararRenovacao_retorno_frame[OF Inl[unfolded ret]] show ?thesis by simp
next
  case (Inr w1)
  note fr = prepararRenovacao_frame[OF Inr]
  note v1 = prepararRenovacao_login_sem_token[OF Inr]
  obtain x w2 where tl: "tentarLogin e w1 = (x, w2)" by (cases "tentarLogin e w1")
  show ?thesis
  proof (cases x)
    case (Inr t')
    from tl Inr have tl': "tentarLogin e w1 = (Inr t', w2)" by simp
    from obterToken_sucesso[OF \<open>prepararRenovacao forceRefresh w = Inr w1\<close> tl', of retryCount] a
    have e1: "t = t'" "w' = finalizar w2" by simp_all
    from tentarLogin_sucesso[OF tl'] fr e1 show ?thesis by auto
  next
    case (Inl ex)
    from tl Inl have tl': "tentarLogin e w1 = (Inl ex, w2)" by simp
    note w2 = tentarLogin_falha[OF tl']
    show ?thesis
    proof (cases "exStatus ex = Some 500 \<and> retryCount < MAX_RETRIES_LOGIN")
      case False
      from obterToken_falha[OF \<open>prepararRenovacao forceRefresh w = Inr w1\<close> tl' False] a show ?thesis by simp
    next
      case True
      define w5 where "w5 = (dormir (RETRY_DELAY * (int retryCount + 1)) (cacheDelete LOCK_KEY w2))\<lparr>tokenPromise := None\<rparr>"
      obtain r w6 where rec: "obterToken e forceRefresh (retryCount + 1) w5 = (r, w6)"
        by (cases "obterToken e forceRefresh (retryCount + 1) w5")
      from obterToken_retry[OF \<open>prepararRenovacao forceRefresh w = Inr w1\<close> tl'] True rec a
      have e1: "r = Inr t" "w' = finalizar w6" by (simp_all add: w5_def)
      have v5: "tokenValido w5 = None"
        using v1 by (rule tokenValido_mono) (simp_all add: w5_def w2 RETRY_DELAY_def)
      have p5: "tokenPromise w5 = None" by (simp add: w5_def)
      have l5: "loginCalls w5 = Suc (loginCalls w)" using fr by (simp add: w5_def w2)
      from rec e1 have rec': "obterToken e forceRefresh (retryCount + 1) w5 = (Inr t, w6)" by simp
      from obterToken_renova[OF v5 p5 rec'] show ?thesis using l5 e1 by simp
    qed
  qed
qed

lemma obterToken_solta_lock:
  "prepararRenovacao forceRefresh w = Inr w1 \<Longrightarrow>
   cache (snd (obterToken e forceRefresh retryCount w)) LOCK_KEY = None
   \<and> tokenPromise (snd (obterToken e forceRefresh retryCount w)) = None"
proof -
  assume prep: "prepararRenovacao forceRefresh w = Inr w1"
  obtain x w2 where tl: "tentarLogin e w1 = (x, w2)" by (cases "tentarLogin e w1")
  show ?thesis
  proof (cases x)
    case (Inr t')
    from tl Inr have tl': "tentarLogin e w1 = (Inr t', w2)" by simp
    show ?thesis by (simp add: obterToken_sucesso[OF prep tl'])
  next
    case (Inl ex)
    from tl Inl have tl': "tentarLogin e w1 = (Inl ex, w2)" by simp
    show ?thesis
    proof (cases "exStatus ex = Some 500 \<and> retryCount < MAX_RETRIES_LOGIN")
      case False
      show ?thesis by (simp add: obterToken_falha[OF prep tl' False])
    next
      case True
      then show ?thesis
        by (simp add: obterToken_retry[OF prep tl'] split: prod.split)
    qed
  qed
qed

lemmas avaliar_token =
  prepararRenovacao_def caminhoRapido_def tokenValido_def cacheGet_def adquirirLock.simps
  tentarLogin_def ouStr_def erroSimples_def MAX_LOCK_WAIT_def LOCK_TTL_def MAX_RETRIES_LOGIN_def
  RETRY_DELAY_def Let_def mundoInicial_def mundoExpirado_def falhaHttp_def

text \<open>
  Claim C1. A credential that is still in the store with \<open>expiresAt <= now\<close> is never
  returned by the fast path. \<open>obterToken\<close> then behaves as with no credential: with a
  renewal in flight it hands out that renewal's outcome, and otherwise every token it
  returns was issued by a login call made during this very call.
\<close>

theorem obterToken_ignora_credencial_expirada:
  assumes entrada: "cache w TOKEN_CACHE_KEY = Some (VToken c, evicted)"
    and expirada: "expiresAt c \<le> now w"
  shows "caminhoRapido forceRefresh w = None
       \<and> (\<forall>d. tokenPromise w = Some d \<longrightarrow> fst (obterToken e forceRefresh retryCount w) = d)
       \<and> (tokenPromise w = None \<longrightarrow>
            (\<forall>t w'. obterToken e forceRefresh retryCount w = (Inr t, w') \<longrightarrow>
               loginCalls w < loginCalls w'
             \<and> (\<exists>b tk. loginTransport e (loginCalls w' - 1) = LoginResposta b tk
                       \<and> ouStr b (ouStr tk []) = t)))"
proof (intro conjI allI impI)
  have v: "tokenValido w = None" using entrada expirada by (rule tokenValido_expirado)
  then show cr: "caminhoRapido forceRefresh w = None" by (simp add: caminhoRapido_def)
  {
    fix d assume tp: "tokenPromise w = Some d"
    define w0 where "w0 = (if forceRefresh then cacheDelete TOKEN_CACHE_KEY w else w)"
    have v0: "tokenValido w0 = None" using v by (simp add: w0_def tokenValido_sem_entrada)
    have "prepararRenovacao forceRefresh w = Inl (d, w0)"
      using v0 tp by (simp add: prepararRenovacao_def w0_def Let_def caminhoRapido_def)
    from obterToken_retorno[OF this, of e retryCount]
    show "fst (obterToken e forceRefresh retryCount w) = d" by simp
  }
  {
    fix t w'
    assume tp: "tokenPromise w = None" and r: "obterToken e forceRefresh retryCount w = (Inr t, w')"
    from obterToken_renova[OF v tp r]
    show "loginCalls w < loginCalls w'"
      and "\<exists>b tk. loginTransport e (loginCalls w' - 1) = LoginResposta b tk \<and> ouStr b (ouStr tk []) = t"
      by simp_all
  }
qed

text \<open>
  C1 at a store that still holds the credential \<open>velho\<close>, expired at 900, read at instant
  1000: the fast path yields nothing and the token returned comes from a new login.
\<close>

theorem obterToken_ignora_credencial_expirada_witness:
  "cache mundoExpirado TOKEN_CACHE_KEY
     = Some (VToken \<lparr>token = ''velho'', expiresAt = 900, geradoEm = 0\<rparr>, 1201000)
   \<and> expiresAt \<lparr>token = ''velho'', expiresAt = 900, geradoEm = 0\<rparr> \<le> now mundoExpirado
   \<and> tokenPromise mundoExpirado = None
   \<and> caminhoRapido False mundoExpirado = None
   \<and> fst (obterToken envLoginOk False 0 mundoExpirado) = Inr ''tok''
   \<and> loginCalls mundoExpirado < loginCalls (snd (obterToken envLoginOk False 0 mundoExpirado))"
proof -
  have h1: "cache mundoExpirado TOKEN_CACHE_KEY
     = Some (VToken \<lparr>token = ''velho'', expiresAt = 900, geradoEm = 0\<rparr>, 1201000)"
    by (simp add: mundoExpirado_def)
  have h2: "expiresAt \<lparr>token = ''velho'', expiresAt = 900, geradoEm = 0\<rparr> \<le> now mundoExpirado"
    by (simp add: mundoExpirado_def mundoInicial_def)
  have h3: "tokenPromise mundoExpirado = None" by (simp add: mundoExpirado_def mundoInicial_def)
  have r: "fst (obterToken envLoginOk False 0 mundoExpirado) = Inr ''tok''"
    by (simp add: obterToken.simps avaliar_token envLoginOk_def)
  then have r': "obterToken envLoginOk False 0 mundoExpirado
      = (Inr ''tok'', snd (obterToken envLoginOk False 0 mundoExpirado))"
    by (metis prod.collapse)
  from obterToken_ignora_credencial_expirada[OF h1 h2, of False envLoginOk 0] h3 r'
  have "caminhoRapido False mundoExpirado = None"
    and "loginCalls mundoExpirado < loginCalls (snd (obterToken envLoginOk False 0 mundoExpirado))"
    by blast+
  with h1 h2 h3 r show ?thesis by simp
qed

text \<open>
  Claim C8, as the code has it. Whenever \<open>obterToken\<close> succeeds after issuing a login, the
  credential it leaves in the store has \<open>expiresAt = now + 20 * 60 * 1000\<close> milliseconds and
  was stored with a time-to-live of \<open>20 * 60\<close> seconds: the same twenty minutes, not less.
  The store serves the entry at every instant before \<open>expiresAt\<close> and evicts it at
  \<open>expiresAt\<close>, not earlier.
\<close>

theorem obterToken_ttl_igual_a_validade:
  assumes ok: "obterToken e forceRefresh retryCount w = (Inr t, w')"
    and login: "loginCalls w < loginCalls w'"
  shows "cache w' TOKEN_CACHE_KEY =
           Some (VToken \<lparr>token = t, expiresAt = now w' + 20 * 60 * 1000, geradoEm = now w'\<rparr>,
                 now w' + (20 * 60) * 1000)
       \<and> (\<forall>d. 0 \<le> d \<and> d < 20 * 60 * 1000 \<longrightarrow>
             cacheGet TOKEN_CACHE_KEY (w'\<lparr>now := now w' + d\<rparr>)
               = Some (VToken \<lparr>token = t, expiresAt = now w' + 20 * 60 * 1000, geradoEm = now w'\<rparr>))
       \<and> (\<forall>d. 20 * 60 * 1000 \<le> d \<longrightarrow> cacheGet TOKEN_CACHE_KEY (w'\<lparr>now := now w' + d\<rparr>) = None)"
proof -
  from obterToken_login_ou_retorno[OF ok] login
  have c: "cache w' TOKEN_CACHE_KEY =
      Some (VToken \<lparr>token = t, expiresAt = now w' + 1200000, geradoEm = now w'\<rparr>, now w' + 1200000)"
    by simp
  then show ?thesis by (simp add: cacheGet_def)
qed

theorem obterToken_ttl_igual_a_validade_witness:
  "fst (obterToken envLoginOk False 0 (mundoInicial 1000)) = Inr ''tok''
   \<and> loginCalls (mundoInicial 1000) < loginCalls (snd (obterToken envLoginOk False 0 (mundoInicial 1000)))
   \<and> cache (snd (obterToken envLoginOk False 0 (mundoInicial 1000))) TOKEN_CACHE_KEY
       = Some (VToken \<lparr>token = ''tok'',
                        expiresAt = now (snd (obterToken envLoginOk False 0 (mundoInicial 1000))) + 20 * 60 * 1000,
                        geradoEm = now (snd (obterToken envLoginOk False 0 (mundoInicial 1000)))\<rparr>,
               now (snd (obterToken envLoginOk False 0 (mundoInicial 1000))) + (20 * 60) * 1000)"
proof -
  have r: "fst (obterToken envLoginOk False 0 (mundoInicial 1000)) = Inr ''tok''"
    by (simp add: obterToken.simps avaliar_token envLoginOk_def)
  then have r': "obterToken envLoginOk False 0 (mundoInicial 1000)
      = (Inr ''tok'', snd (obterToken envLoginOk False 0 (mundoInicial 1000)))"
    by (metis prod.collapse)
  have l: "loginCalls (mundoInicial 1000) < loginCalls (snd (obterToken envLoginOk False 0 (mundoInicial 1000)))"
    by (simp add: obterToken.simps avaliar_token envLoginOk_def)
  from obterToken_ttl_igual_a_validade[OF r' l] r l show ?thesis by simp
qed

text \<open>
  The claim as stated fails: after a login at instant 1000 the credential expires at
  1201000 and the store evicts its entry at 1201000 as well, so the entry is not evicted
  before \<open>expiresAt\<close>; at 1200999 the store still serves it.
\<close>

theorem obterToken_ttl_counterexample:
  "cache (snd (obterToken envLoginOk False 0 (mundoInicial 1000))) TOKEN_CACHE_KEY
     = Some (VToken \<lparr>token = ''tok'', expiresAt = 1201000, geradoEm = 1000\<rparr>, 1201000)
   \<and> \<not> (1201000 :: int) < expiresAt \<lparr>token = ''tok'', expiresAt = 1201000, geradoEm = 1000\<rparr>
   \<and> cacheGet TOKEN_CACHE_KEY ((snd (obterToken envLoginOk False 0 (mundoInicial 1000)))\<lparr>now := 1200999\<rparr>)
     = Some (VToken \<lparr>token = ''tok'', expiresAt = 1201000, geradoEm = 1000\<rparr>)"
  by (simp add: obterToken.simps avaliar_token envLoginOk_def finalizar_def cacheDelete_def cacheSet_def)

text \<open>
  Claim C5, as the code has it. When the login issued by \<open>obterToken\<close> fails, the lock is
  released at once. If the failure carries HTTP status exactly 500 and \<open>retryCount < 3\<close>,
  \<open>obterToken\<close> waits \<open>1000 * (retryCount + 1)\<close> milliseconds and returns what the call
  with \<open>retryCount + 1\<close> returns. In every other case (any other status, other 5xx
  included, no status at all, or no retry left) it deletes the credential and raises: the
  "temporarily unavailable" error for status 500, the authentication failure for everything
  else. The lock is absent and \<open>tokenPromise\<close> is cleared when the call ends.
\<close>

theorem obterToken_falha_de_login:
  assumes prep: "prepararRenovacao forceRefresh w = Inr w1"
    and falha: "tentarLogin e w1 = (Inl ex, w2)"
  shows "cache (cacheDelete LOCK_KEY w2) LOCK_KEY = None
       \<and> (exStatus ex = Some 500 \<and> retryCount < 3 \<longrightarrow>
            obterToken e forceRefresh retryCount w =
              (case obterToken e forceRefresh (retryCount + 1)
                      ((dormir (1000 * (int retryCount + 1)) (cacheDelete LOCK_KEY w2))
                         \<lparr>tokenPromise := None\<rparr>) of
                 (r, w6) \<Rightarrow> (r, finalizar w6)))
       \<and> (\<not> (exStatus ex = Some 500 \<and> retryCount < 3) \<longrightarrow>
            fst (obterToken e forceRefresh retryCount w) =
              Inl (if exStatus ex = Some 500 then erroSankhyaIndisponivel
                   else erroFalhaAutenticacao (ouStr (exDataError ex) (exMessage ex)))
          \<and> cache (snd (obterToken e forceRefresh retryCount w)) TOKEN_CACHE_KEY = None
          \<and> loginCalls (snd (obterToken e forceRefresh retryCount w)) = loginCalls w2
          \<and> esperas (snd (obterToken e forceRefresh retryCount w)) = esperas w2)
       \<and> cache (snd (obterToken e forceRefresh retryCount w)) LOCK_KEY = None
       \<and> tokenPromise (snd (obterToken e forceRefresh retryCount w)) = None"
proof (intro conjI impI)
  show "cache (cacheDelete LOCK_KEY w2) LOCK_KEY = None" by simp
next
  assume "exStatus ex = Some 500 \<and> retryCount < 3"
  then show "obterToken e forceRefresh retryCount w =
              (case obterToken e forceRefresh (retryCount + 1)
                      ((dormir (1000 * (int retryCount + 1)) (cacheDelete LOCK_KEY w2))
                         \<lparr>tokenPromise := None\<rparr>) of
                 (r, w6) \<Rightarrow> (r, finalizar w6))"
    using obterToken_retry[OF prep falha, of retryCount]
    by (simp add: MAX_RETRIES_LOGIN_def RETRY_DELAY_def)
next
  assume n: "\<not> (exStatus ex = Some 500 \<and> retryCount < 3)"
  then have n': "\<not> (exStatus ex = Some 500 \<and> retryCount < MAX_RETRIES_LOGIN)"
    by (simp add: MAX_RETRIES_LOGIN_def)
  note f = obterToken_falha[OF prep falha n']
  show "fst (obterToken e forceRefresh retryCount w) =
              Inl (if exStatus ex = Some 500 then erroSankhyaIndisponivel
                   else erroFalhaAutenticacao (ouStr (exDataError ex) (exMessage ex)))"
    by (simp add: f)
  show "cache (snd (obterToken e forceRefresh retryCount w)) TOKEN_CACHE_KEY = None"
    by (simp add: f)
  show "loginCalls (snd (obterToken e forceRefresh retryCount w)) = loginCalls w2"
    by (simp add: f)
  show "esperas (snd (obterToken e forceRefresh retryCount w)) = esperas w2"
    by (simp add: f)
next
  from obterToken_solta_lock[OF prep, of e retryCount]
  show "cache (snd (obterToken e forceRefresh retryCount w)) LOCK_KEY = None"
    and "tokenPromise (snd (obterToken e forceRefresh retryCount w)) = None"
    by simp_all
qed

text \<open>
  C5 at a login endpoint that always answers 500, from an empty store: the first failure
  is retried, and the whole call ends after four logins and waits of 1, 2 and 3 seconds with
  the "temporarily unavailable" error, the lock released.
\<close>

theorem obterToken_falha_de_login_witness:
  "prepararRenovacao False (mundoInicial 1000)
     = Inr (cacheSet LOCK_KEY (VLock 1000) LOCK_TTL (mundoInicial 1000))
   \<and> tentarLogin envLogin500 (cacheSet LOCK_KEY (VLock 1000) LOCK_TTL (mundoInicial 1000))
     = (Inl (falhaHttp 500),
        (cacheSet LOCK_KEY (VLock 1000) LOCK_TTL (mundoInicial 1000))\<lparr>loginCalls := 1\<rparr>)
   \<and> exStatus (falhaHttp 500) = Some 500 \<and> (0::nat) < 3
   \<and> obterToken envLogin500 False 0 (mundoInicial 1000) =
        (case obterToken envLogin500 False (0 + 1)
                ((dormir (1000 * (int 0 + 1))
                    (cacheDelete LOCK_KEY
                       ((cacheSet LOCK_KEY (VLock 1000) LOCK_TTL (mundoInicial 1000))\<lparr>loginCalls := 1\<rparr>)))
                   \<lparr>tokenPromise := None\<rparr>) of
           (r, w6) \<Rightarrow> (r, finalizar w6))
   \<and> fst (obterToken envLogin500 False 0 (mundoInicial 1000)) = Inl erroSankhyaIndisponivel
   \<and> loginCalls (snd (obterToken envLogin500 False 0 (mundoInicial 1000))) = 4
   \<and> esperas (snd (obterToken envLogin500 False 0 (mundoInicial 1000))) = [1000, 2000, 3000]
   \<and> cache (snd (obterToken envLogin500 False 0 (mundoInicial 1000))) LOCK_KEY = None"
proof -
  have h1: "prepararRenovacao False (mundoInicial 1000)
     = Inr (cacheSet LOCK_KEY (VLock 1000) LOCK_TTL (mundoInicial 1000))"
    by (simp add: avaliar_token)
  have h2: "tentarLogin envLogin500 (cacheSet LOCK_KEY (VLock 1000) LOCK_TTL (mundoInicial 1000))
     = (Inl (falhaHttp 500),
        (cacheSet LOCK_KEY (VLock 1000) LOCK_TTL (mundoInicial 1000))\<lparr>loginCalls := 1\<rparr>)"
    by (simp add: tentarLogin_def envLogin500_def mundoInicial_def)
  have h3: "exStatus (falhaHttp 500) = Some 500 \<and> (0::nat) < 3" by (simp add: falhaHttp_def)
  have v: "fst (obterToken envLogin500 False 0 (mundoInicial 1000)) = Inl erroSankhyaIndisponivel
   \<and> loginCalls (snd (obterToken envLogin500 False 0 (mundoInicial 1000))) = 4
   \<and> esperas (snd (obterToken envLogin500 False 0 (mundoInicial 1000))) = [1000, 2000, 3000]"
    by (simp add: obterToken.simps avaliar_token envLogin500_def)
  from obterToken_falha_de_login[OF h1 h2, where retryCount=0] h3
  have "obterToken envLogin500 False 0 (mundoInicial 1000) =
        (case obterToken envLogin500 False (0 + 1)
                ((dormir (1000 * (int 0 + 1))
                    (cacheDelete LOCK_KEY
                       ((cacheSet LOCK_KEY (VLock 1000) LOCK_TTL (mundoInicial 1000))\<lparr>loginCalls := 1\<rparr>)))
                   \<lparr>tokenPromise := None\<rparr>) of
           (r, w6) \<Rightarrow> (r, finalizar w6))"
    and "cache (snd (obterToken envLogin500 False 0 (mundoInicial 1000))) LOCK_KEY = None"
    by blast+
  with h1 h2 h3 v show ?thesis by blast
qed

text \<open>
  The claim as stated fails for a 5xx status other than 500: a login endpoint that answers
  503 is asked once, no retry follows, and the error raised is the authentication failure.
\<close>

theorem obterToken_falha_de_login_counterexample:
  "fst (obterToken envLogin503 False 0 (mundoInicial 1000))
     = Inl (erroFalhaAutenticacao ''Request failed'')
   \<and> fst (obterToken envLogin503 False 0 (mundoInicial 1000)) \<noteq> Inl erroSankhyaIndisponivel
   \<and> loginCalls (snd (obterToken envLogin503 False 0 (mundoInicial 1000))) = 1
   \<and> esperas (snd (obterToken envLogin503 False 0 (mundoInicial 1000))) = []"
  by (simp add: obterToken.simps avaliar_token envLogin503_def erroFalhaAutenticacao_def
      erroSankhyaIndisponivel_def)

lemmas avaliar_chamadas =
  escalonar_def passo_def passoChamada_def retorna_def laco_def iniciarRenovacao_def
  chamadaInicial_def processoInicial_def doisChamadores_def envTokensDistintos_def
  caminhoRapido_def tokenValido_def cacheGet_def cacheSet_def cacheDelete_def dormir_def
  ouStr_def erroSimples_def MAX_LOCK_WAIT_def LOCK_TTL_def MAX_RETRIES_LOGIN_def RETRY_DELAY_def
  LOCK_KEY_def TOKEN_CACHE_KEY_def Let_def mundoInicial_def

lemma obterToken_chamadas_em_sequencia:
  "loginCalls (mundo (fst (escalonar envTokensDistintos [0, 0, 0, 0, 0, 0, 0, 0, 0, 1] doisChamadores))) = 1
   \<and> map ponto (snd (escalonar envTokensDistintos [0, 0, 0, 0, 0, 0, 0, 0, 0, 1] doisChamadores))
       = [Terminado (Inr ''tokenA''), Terminado (Inr ''tokenA'')]"
  by (simp add: avaliar_chamadas)

lemma obterToken_aguarda_a_promessa:
  "loginCalls (mundo (fst (escalonar envTokensDistintos [0, 0, 0, 0, 1, 0, 0, 0, 0, 0, 1] doisChamadores))) = 1
   \<and> map ponto (snd (escalonar envTokensDistintos [0, 0, 0, 0, 1] doisChamadores))
       = [Login 0, AguardaPromessa 0]
   \<and> map ponto (snd (escalonar envTokensDistintos [0, 0, 0, 0, 1, 0, 0, 0, 0, 0, 1] doisChamadores))
       = [Terminado (Inr ''tokenA''), Terminado (Inr ''tokenA'')]"
  by (simp add: avaliar_chamadas)

text \<open>
  Claim C2 fails on the code. Two calls \<open>obterToken(false, 0)\<close> start on a store that
  holds no credential and are resumed in turn. Each reads \<open>tokenPromise\<close> before the other
  has assigned it, and each reads the lock before the other has written it (the lock is
  taken by a \<open>get\<close> followed by a \<open>set\<close>), so after three steps each both are past the lock.
  In the end two login calls have been issued and the two callers have received different
  tokens.
\<close>

theorem obterToken_renovacao_duplicada:
  "tokenValido (mundo (fst doisChamadores)) = None
   \<and> map ponto (snd (escalonar envTokensDistintos [0, 1, 0, 1, 0, 1] doisChamadores))
       = [LeCredencialComLock, LeCredencialComLock]
   \<and> loginCalls (mundo (fst (escalonar envTokensDistintos
         [0, 1, 0, 1, 0, 1, 0, 1, 0, 1, 0, 1, 0, 1, 0, 1, 0, 1] doisChamadores))) = 2
   \<and> map ponto (snd (escalonar envTokensDistintos
         [0, 1, 0, 1, 0, 1, 0, 1, 0, 1, 0, 1, 0, 1, 0, 1, 0, 1] doisChamadores))
       = [Terminado (Inr ''tokenA''), Terminado (Inr ''tokenB'')]"
  by (simp add: avaliar_chamadas)

text \<open>
  A call that runs alone goes through the steps of the function \<open>obterToken\<close>: here with
  a login endpoint that always answers 500 (three retries, then the error) and with one
  that succeeds.
\<close>

lemma chamada_sozinha_como_obterToken:
  "map ponto (snd (escalonar envLogin500 (replicate 29 0)
      (processoInicial (mundoInicial 1000), [chamadaInicial False])))
     = [Terminado (fst (obterToken envLogin500 False 0 (mundoInicial 1000)))]
   \<and> mundo (fst (escalonar envLogin500 (replicate 29 0)
      (processoInicial (mundoInicial 1000), [chamadaInicial False])))
     = snd (obterToken envLogin500 False 0 (mundoInicial 1000))"
  by (simp add: avaliar_chamadas obterToken.simps avaliar_token envLogin500_def
       finalizar_def numeral_eq_Suc)

lemma chamada_sozinha_com_login:
  "map ponto (snd (escalonar envLoginOk (replicate 9 0)
      (processoInicial mundoExpirado, [chamadaInicial True])))
     = [Terminado (fst (obterToken envLoginOk True 0 mundoExpirado))]
   \<and> mundo (fst (escalonar envLoginOk (replicate 9 0)
      (processoInicial mundoExpirado, [chamadaInicial True])))
     = snd (obterToken envLoginOk True 0 mundoExpirado)"
  by (simp add: avaliar_chamadas obterToken.simps avaliar_token envLoginOk_def
       finalizar_def numeral_eq_Suc)

subsection \<open>Authenticated request executor\<close>

lemma prepararRenovacao_retorno_now:
  assumes a: "prepararRenovacao forceRefresh w = Inl (res, w')"
  shows "now w \<le> now w'"
proof -
  define w0 where "w0 = (if forceRefresh then cacheDelete TOKEN_CACHE_KEY w else w)"
  have f0: "now w0 = now w" by (simp add: w0_def)
  obtain r w2 where al: "adquirirLock (now w0) w0 = (r, w2)" by (cases "adquirirLock (now w0) w0")
  note fr = adquirirLock_frame[OF al]
  note eq = prepararRenovacao_desdobrado[OF al w0_def]
  from a have "w' = w0 \<or> w' = w2 \<or> w' = cacheDelete LOCK_KEY w2"
    unfolding eq
    by (cases "caminhoRapido forceRefresh w0"; cases "tokenPromise w0"; cases r;
        cases "tokenValido w2"; cases forceRefresh) simp_all
  with fr f0 show ?thesis by auto
qed

lemma obterToken_frame:
  "obterToken e forceRefresh retryCount w = (res, w') \<Longrightarrow>
     httpCalls w' = httpCalls w \<and> tokensUsados w' = tokensUsados w
   \<and> now w \<le> now w' \<and> loginCalls w \<le> loginCalls w'"
proof (induction e forceRefresh retryCount w arbitrary: res w' rule: obterToken.induct)
  case (1 e forceRefresh retryCount w)
  show ?case
  proof (cases "prepararRenovacao forceRefresh w")
    case (Inl ret)
    obtain res0 w0 where ret: "ret = (res0, w0)" by (cases ret)
    from obterToken_retorno[OF Inl, of e retryCount] "1.prems" ret have "w0 = w'" by simp
    with prepararRenovacao_retorno_frame[OF Inl[unfolded ret]]
         prepararRenovacao_retorno_now[OF Inl[unfolded ret]]
    show ?thesis by simp
  next
    case (Inr w1)
    note fr = prepararRenovacao_frame[OF Inr]
    obtain x w2 where tl: "tentarLogin e w1 = (x, w2)" by (cases "tentarLogin e w1")
    show ?thesis
    proof (cases x)
      case (Inr t')
      from tl Inr have tl': "tentarLogin e w1 = (Inr t', w2)" by simp
      from obterToken_sucesso[OF \<open>prepararRenovacao forceRefresh w = Inr w1\<close> tl', of retryCount] "1.prems"
      have e1: "w' = finalizar w2" by simp
      from tentarLogin_sucesso[OF tl'] fr e1 show ?thesis by auto
    next
      case (Inl ex)
      from tl Inl have tl': "tentarLogin e w1 = (Inl ex, w2)" by simp
      note w2 = tentarLogin_falha[OF tl']
      show ?thesis
      proof (cases "exStatus ex = Some 500 \<and> retryCount < MAX_RETRIES_LOGIN")
        case False
        from obterToken_falha[OF \<open>prepararRenovacao forceRefresh w = Inr w1\<close> tl' False] "1.prems"
        have "w' = finalizar ((cacheDelete TOKEN_CACHE_KEY (cacheDelete LOCK_KEY w2))\<lparr>tokenPromise := None\<rparr>)"
          by simp
        with fr w2 show ?thesis by simp
      next
        case True
        define w5 where "w5 = (dormir (RETRY_DELAY * (int retryCount + 1)) (cacheDelete LOCK_KEY w2))\<lparr>tokenPromise := None\<rparr>"
        obtain r w6 where rec: "obterToken e forceRefresh (retryCount + 1) w5 = (r, w6)"
          by (cases "obterToken e forceRefresh (retryCount + 1) w5")
        from obterToken_retry[OF \<open>prepararRenovacao forceRefresh w = Inr w1\<close> tl'] True rec "1.prems"
        have e1: "w' = finalizar w6" by (simp add: w5_def)
        have f5: "httpCalls w5 = httpCalls w" "tokensUsados w5 = tokensUsados w" "now w \<le> now w5"
          "loginCalls w \<le> loginCalls w5"
          using fr by (simp_all add: w5_def w2 RETRY_DELAY_def)
        note ih = "1.IH"[OF \<open>prepararRenovacao forceRefresh w = Inr w1\<close> tl[symmetric] Inl refl True refl refl, folded w5_def]
        from ih[OF rec] f5 e1 show ?thesis by simp
      qed
    qed
  qed
qed

lemma obterToken_caminho_rapido:
  "tokenValido w = Some t \<Longrightarrow> obterToken e False retryCount w = (Inr t, w)"
  by (rule obterToken_retorno) (simp add: prepararRenovacao_def caminhoRapido_def)

lemma executarRequisicao_frame:
  assumes "executarRequisicao e fullUrl metodo dados w = (res, w')"
  shows "httpCalls w' \<le> Suc (httpCalls w) \<and> httpCalls w \<le> httpCalls w' \<and> now w \<le> now w'
       \<and> loginCalls w \<le> loginCalls w'"
proof -
  obtain r w1 where ot: "obterToken e False 0 w = (r, w1)" by (cases "obterToken e False 0 w")
  note fr = obterToken_frame[OF ot]
  from assms ot fr show ?thesis
    by (cases r) (auto simp add: executarRequisicao_def Let_def split: respostaHttp.splits)
qed

lemma executarRequisicao_com_status:
  assumes ex: "executarRequisicao e fullUrl metodo dados w = (Inl ex, w')"
    and st: "exStatus ex \<noteq> None \<or> exCode ex \<noteq> None"
  shows "\<exists>tk w1. obterToken e False 0 w = (Inr tk, w1)
           \<and> dataTransport e (httpCalls w) fullUrl metodo dados tk = HttpErro ex
           \<and> w' = w1\<lparr>httpCalls := Suc (httpCalls w), tokensUsados := tokensUsados w @ [tk]\<rparr>"
proof -
  obtain r w1 where ot: "obterToken e False 0 w = (r, w1)" by (cases "obterToken e False 0 w")
  note fr = obterToken_frame[OF ot]
  show ?thesis
  proof (cases r)
    case (Inl msg)
    with ex ot st show ?thesis by (auto simp add: executarRequisicao_def erroSimples_def)
  next
    case (Inr tk)
    with ex ot fr show ?thesis
      by (auto simp add: executarRequisicao_def Let_def split: respostaHttp.splits)
  qed
qed

lemma fazerRequisicao_sucesso:
  "executarRequisicao e fullUrl metodo dados w = (Inr d, w1) \<Longrightarrow>
   fazerRequisicaoAutenticada e fullUrl metodo dados retryCount w = (Inr d, w1)"
  by (subst fazerRequisicaoAutenticada.simps) simp

lemma fazerRequisicao_sessao_retry:
  "executarRequisicao e fullUrl metodo dados w = (Inl ex, w1) \<Longrightarrow>
   exStatus ex = Some 401 \<or> exStatus ex = Some 403 \<Longrightarrow> retryCount < 1 \<Longrightarrow>
   fazerRequisicaoAutenticada e fullUrl metodo dados retryCount w =
     fazerRequisicaoAutenticada e fullUrl metodo dados (retryCount + 1)
       (dormir 500 (cacheDelete TOKEN_CACHE_KEY w1))"
  by (subst fazerRequisicaoAutenticada.simps) (simp add: Let_def)

lemma fazerRequisicao_sessao_expirada:
  "executarRequisicao e fullUrl metodo dados w = (Inl ex, w1) \<Longrightarrow>
   exStatus ex = Some 401 \<or> exStatus ex = Some 403 \<Longrightarrow> \<not> retryCount < 1 \<Longrightarrow>
   fazerRequisicaoAutenticada e fullUrl metodo dados retryCount w =
     (Inl erroSessaoExpirada, cacheDelete TOKEN_CACHE_KEY w1)"
  by (subst fazerRequisicaoAutenticada.simps) (simp add: Let_def)

lemma fazerRequisicao_backoff:
  "executarRequisicao e fullUrl metodo dados w = (Inl ex, w1) \<Longrightarrow>
   \<not> (exStatus ex = Some 401 \<or> exStatus ex = Some 403) \<Longrightarrow>
   exCode ex = Some ''ECONNABORTED'' \<or> exCode ex = Some ''ENOTFOUND'' \<or> statusServidor ex \<Longrightarrow>
   retryCount < MAX_RETRIES_REQUISICAO \<Longrightarrow>
   fazerRequisicaoAutenticada e fullUrl metodo dados retryCount w =
     fazerRequisicaoAutenticada e fullUrl metodo dados (retryCount + 1)
       (dormir (RETRY_DELAY * (int retryCount + 1)) w1)"
  by (subst fazerRequisicaoAutenticada.simps) (simp add: Let_def)

lemma fazerRequisicao_falha:
  "executarRequisicao e fullUrl metodo dados w = (Inl ex, w1) \<Longrightarrow>
   \<not> (exStatus ex = Some 401 \<or> exStatus ex = Some 403) \<Longrightarrow>
   \<not> ((exCode ex = Some ''ECONNABORTED'' \<or> exCode ex = Some ''ENOTFOUND'' \<or> statusServidor ex)
       \<and> retryCount < MAX_RETRIES_REQUISICAO) \<Longrightarrow>
   fazerRequisicaoAutenticada e fullUrl metodo dados retryCount w =
     (Inl (if exCode ex = Some ''ECONNABORTED'' then erroTempoExcedido
           else if statusServidor ex then erroServicoIndisponivel
           else ouStr (exStatusMessage ex) (ouStr (Some (exMessage ex)) erroComunicacao)), w1)"
  by (subst fazerRequisicaoAutenticada.simps) (auto simp add: Let_def)

lemma fazerRequisicao_limite_de_tentativas:
  "httpCalls (snd (fazerRequisicaoAutenticada e fullUrl metodo dados retryCount w))
     \<le> httpCalls w + Suc (MAX_RETRIES_REQUISICAO - retryCount)"
proof (induction e fullUrl metodo dados retryCount w rule: fazerRequisicaoAutenticada.induct)
  case (1 e fullUrl metodo dados retryCount w)
  obtain x w1 where ex: "executarRequisicao e fullUrl metodo dados w = (x, w1)"
    by (cases "executarRequisicao e fullUrl metodo dados w")
  note fr = executarRequisicao_frame[OF ex]
  show ?case
  proof (cases x)
    case (Inr d)
    with ex fr show ?thesis by (simp add: fazerRequisicao_sucesso)
  next
    case (Inl exc)
    with ex have ex': "executarRequisicao e fullUrl metodo dados w = (Inl exc, w1)" by simp
    show ?thesis
    proof (cases "exStatus exc = Some 401 \<or> exStatus exc = Some 403")
      case True
      show ?thesis
      proof (cases "retryCount < 1")
        case r: True
        note eq = fazerRequisicao_sessao_retry[OF ex' True r]
        from "1.IH"(1)[OF ex[symmetric] Inl True refl r] fr r
        show ?thesis unfolding eq by (simp add: MAX_RETRIES_REQUISICAO_def)
      next
        case r: False
        show ?thesis using fr by (simp add: fazerRequisicao_sessao_expirada[OF ex' True r])
      qed
    next
      case False
      show ?thesis
      proof (cases "(exCode exc = Some ''ECONNABORTED'' \<or> exCode exc = Some ''ENOTFOUND'' \<or> statusServidor exc)
                    \<and> retryCount < MAX_RETRIES_REQUISICAO")
        case r: True
        then have r1: "exCode exc = Some ''ECONNABORTED'' \<or> exCode exc = Some ''ENOTFOUND'' \<or> statusServidor exc"
          and r2: "retryCount < MAX_RETRIES_REQUISICAO" by simp_all
        note eq = fazerRequisicao_backoff[OF ex' False r1 r2]
        from "1.IH"(2)[OF ex[symmetric] Inl False r] fr r2
        show ?thesis unfolding eq MAX_RETRIES_REQUISICAO_def by (simp del: One_nat_def; arith)
      next
        case r: False
        show ?thesis using fr by (simp add: fazerRequisicao_falha[OF ex' False r])
      qed
    qed
  qed
qed

lemmas avaliar_requisicao =
  fazerRequisicaoAutenticada.simps executarRequisicao_def obterToken.simps avaliar_token
  mundoComToken_def falhaRede_def statusServidor_def MAX_RETRIES_REQUISICAO_def

lemma tokenValido_credencial:
  "cache w TOKEN_CACHE_KEY = Some (VToken c, evicted) \<Longrightarrow> token c \<noteq> [] \<Longrightarrow>
   now w < expiresAt c \<Longrightarrow> now w < evicted \<Longrightarrow> tokenValido w = Some (token c)"
  by (simp add: tokenValido_def cacheGet_def Let_def)

lemma executarRequisicao_chamou:
  assumes ex: "executarRequisicao e fullUrl metodo dados w = (res, w')"
    and n: "httpCalls w < httpCalls w'"
  shows "\<exists>tk w1. obterToken e False 0 w = (Inr tk, w1)
           \<and> w' = w1\<lparr>httpCalls := Suc (httpCalls w1), tokensUsados := tokensUsados w1 @ [tk]\<rparr>"
proof -
  obtain r w1 where ot: "obterToken e False 0 w = (r, w1)" by (cases "obterToken e False 0 w")
  note fr = obterToken_frame[OF ot]
  show ?thesis
  proof (cases r)
    case (Inl msg)
    with ex ot have "w' = w1" by (simp add: executarRequisicao_def)
    with fr n show ?thesis by simp
  next
    case (Inr tk)
    with ex ot have "w' = w1\<lparr>httpCalls := Suc (httpCalls w1), tokensUsados := tokensUsados w1 @ [tk]\<rparr>"
      by (auto simp add: executarRequisicao_def Let_def split: respostaHttp.splits)
    with ot Inr show ?thesis by simp
  qed
qed

lemma executarRequisicao_com_token:
  "tokenValido w = Some tk \<Longrightarrow> dataTransport e (httpCalls w) fullUrl metodo dados tk = HttpErro ex \<Longrightarrow>
   executarRequisicao e fullUrl metodo dados w =
     (Inl ex, w\<lparr>httpCalls := Suc (httpCalls w), tokensUsados := tokensUsados w @ [tk]\<rparr>)"
  by (simp add: executarRequisicao_def obterToken_caminho_rapido)

text \<open>
  Claim C3. When the ERP answers a call of \<open>fazerRequisicaoAutenticada\<close> with 401 or 403,
  the credential is deleted from the store. With \<open>retryCount < 1\<close> the function waits 500 ms
  and returns what the one retried call (with \<open>retryCount + 1\<close>) returns; the retried call
  finds no credential, so with no renewal in flight the token it sends was issued by a login
  made after the deletion. If the retried call is answered 401 or 403 again, the function
  raises the session-expired error right after that second data call; if it is answered
  successfully, the function returns that answer. With \<open>retryCount >= 1\<close> the error is
  raised without any retry.
\<close>

theorem fazerRequisicao_sessao_expirada_retenta_uma_vez:
  assumes resposta401: "executarRequisicao e fullUrl metodo dados w = (Inl ex, w1)"
    and status: "exStatus ex = Some 401 \<or> exStatus ex = Some 403"
  shows "cacheGet TOKEN_CACHE_KEY (cacheDelete TOKEN_CACHE_KEY w1) = None
       \<and> httpCalls w1 = Suc (httpCalls w)
       \<and> (retryCount < 1 \<longrightarrow>
            fazerRequisicaoAutenticada e fullUrl metodo dados retryCount w =
              fazerRequisicaoAutenticada e fullUrl metodo dados (retryCount + 1)
                (dormir 500 (cacheDelete TOKEN_CACHE_KEY w1)))
       \<and> (\<not> retryCount < 1 \<longrightarrow>
            fazerRequisicaoAutenticada e fullUrl metodo dados retryCount w =
              (Inl erroSessaoExpirada, cacheDelete TOKEN_CACHE_KEY w1))
       \<and> (\<forall>ex2 w2. retryCount < 1
              \<and> executarRequisicao e fullUrl metodo dados (dormir 500 (cacheDelete TOKEN_CACHE_KEY w1))
                   = (Inl ex2, w2)
              \<and> (exStatus ex2 = Some 401 \<or> exStatus ex2 = Some 403) \<longrightarrow>
            fazerRequisicaoAutenticada e fullUrl metodo dados retryCount w =
              (Inl erroSessaoExpirada, cacheDelete TOKEN_CACHE_KEY w2)
            \<and> httpCalls w2 = httpCalls w + 2)
       \<and> (\<forall>d w2. retryCount < 1
              \<and> executarRequisicao e fullUrl metodo dados (dormir 500 (cacheDelete TOKEN_CACHE_KEY w1))
                   = (Inr d, w2) \<longrightarrow>
            fazerRequisicaoAutenticada e fullUrl metodo dados retryCount w = (Inr d, w2))
       \<and> (\<forall>r2 w2. tokenPromise w1 = None
              \<and> executarRequisicao e fullUrl metodo dados (dormir 500 (cacheDelete TOKEN_CACHE_KEY w1))
                   = (r2, w2)
              \<and> httpCalls w1 < httpCalls w2 \<longrightarrow>
            loginCalls w1 < loginCalls w2
            \<and> (\<exists>b tk. loginTransport e (loginCalls w2 - 1) = LoginResposta b tk
                      \<and> last (tokensUsados w2) = ouStr b (ouStr tk [])))"
proof (intro conjI allI impI)
  define w3 where "w3 = dormir 500 (cacheDelete TOKEN_CACHE_KEY w1)"
  show "cacheGet TOKEN_CACHE_KEY (cacheDelete TOKEN_CACHE_KEY w1) = None"
    by (simp add: cacheGet_def)
  from status have "exStatus ex \<noteq> None \<or> exCode ex \<noteq> None" by auto
  from executarRequisicao_com_status[OF resposta401 this]
  show h1: "httpCalls w1 = Suc (httpCalls w)" by auto
  {
    assume r: "retryCount < 1"
    from fazerRequisicao_sessao_retry[OF resposta401 status r]
    show "fazerRequisicaoAutenticada e fullUrl metodo dados retryCount w =
              fazerRequisicaoAutenticada e fullUrl metodo dados (retryCount + 1)
                (dormir 500 (cacheDelete TOKEN_CACHE_KEY w1))" .
  }
  {
    assume r: "\<not> retryCount < 1"
    from fazerRequisicao_sessao_expirada[OF resposta401 status r]
    show "fazerRequisicaoAutenticada e fullUrl metodo dados retryCount w =
              (Inl erroSessaoExpirada, cacheDelete TOKEN_CACHE_KEY w1)" .
  }
  {
    fix ex2 w2
    assume a: "retryCount < 1
              \<and> executarRequisicao e fullUrl metodo dados (dormir 500 (cacheDelete TOKEN_CACHE_KEY w1))
                   = (Inl ex2, w2)
              \<and> (exStatus ex2 = Some 401 \<or> exStatus ex2 = Some 403)"
    then have r: "retryCount < 1"
      and e2: "executarRequisicao e fullUrl metodo dados (dormir 500 (cacheDelete TOKEN_CACHE_KEY w1)) = (Inl ex2, w2)"
      and s2: "exStatus ex2 = Some 401 \<or> exStatus ex2 = Some 403" by simp_all
    have nr: "\<not> retryCount + 1 < 1" by simp
    from fazerRequisicao_sessao_retry[OF resposta401 status r]
         fazerRequisicao_sessao_expirada[OF e2 s2 nr]
    show "fazerRequisicaoAutenticada e fullUrl metodo dados retryCount w =
              (Inl erroSessaoExpirada, cacheDelete TOKEN_CACHE_KEY w2)" by simp
    from s2 have "exStatus ex2 \<noteq> None \<or> exCode ex2 \<noteq> None" by auto
    from executarRequisicao_com_status[OF e2 this] h1
    show "httpCalls w2 = httpCalls w + 2" by auto
  }
  {
    fix d w2
    assume a: "retryCount < 1
              \<and> executarRequisicao e fullUrl metodo dados (dormir 500 (cacheDelete TOKEN_CACHE_KEY w1))
                   = (Inr d, w2)"
    then have r: "retryCount < 1"
      and e2: "executarRequisicao e fullUrl metodo dados (dormir 500 (cacheDelete TOKEN_CACHE_KEY w1)) = (Inr d, w2)"
      by simp_all
    from fazerRequisicao_sessao_retry[OF resposta401 status r] fazerRequisicao_sucesso[OF e2]
    show "fazerRequisicaoAutenticada e fullUrl metodo dados retryCount w = (Inr d, w2)" by simp
  }
  {
    fix r2 w2
    assume a: "tokenPromise w1 = None
              \<and> executarRequisicao e fullUrl metodo dados (dormir 500 (cacheDelete TOKEN_CACHE_KEY w1))
                   = (r2, w2)
              \<and> httpCalls w1 < httpCalls w2"
    then have tp: "tokenPromise w3 = None"
      and e2: "executarRequisicao e fullUrl metodo dados w3 = (r2, w2)"
      and h: "httpCalls w3 < httpCalls w2" by (simp_all add: w3_def)
    have v3: "tokenValido w3 = None" by (simp add: w3_def tokenValido_sem_entrada)
    from executarRequisicao_chamou[OF e2 h] obtain tk w4 where
      ot: "obterToken e False 0 w3 = (Inr tk, w4)"
      and w2: "w2 = w4\<lparr>httpCalls := Suc (httpCalls w4), tokensUsados := tokensUsados w4 @ [tk]\<rparr>"
      by blast
    from obterToken_renova[OF v3 tp ot] w2
    show "loginCalls w1 < loginCalls w2"
      and "\<exists>b tk. loginTransport e (loginCalls w2 - 1) = LoginResposta b tk
                      \<and> last (tokensUsados w2) = ouStr b (ouStr tk [])"
      by (auto simp add: w3_def)
  }
qed

text \<open>
  C3 at an ERP that always answers 401, from a store with a valid credential: two data
  calls, one wait of 500 ms, one new login between them, then the session-expired error.
  And at an ERP that answers 401 once and then succeeds: the caller gets the answer.
\<close>

theorem fazerRequisicao_sessao_expirada_retenta_uma_vez_witness:
  "executarRequisicao env401 ''u'' ''POST'' JNull mundoComToken
     = (Inl (falhaHttp 401), mundoComToken\<lparr>httpCalls := 1, tokensUsados := [''tok'']\<rparr>)
   \<and> (exStatus (falhaHttp 401) = Some 401 \<or> exStatus (falhaHttp 401) = Some 403)
   \<and> (0::nat) < 1
   \<and> fazerRequisicaoAutenticada env401 ''u'' ''POST'' JNull 0 mundoComToken =
       fazerRequisicaoAutenticada env401 ''u'' ''POST'' JNull (0 + 1)
         (dormir 500 (cacheDelete TOKEN_CACHE_KEY (mundoComToken\<lparr>httpCalls := 1, tokensUsados := [''tok'']\<rparr>)))
   \<and> fst (fazerRequisicaoAutenticada env401 ''u'' ''POST'' JNull 0 mundoComToken) = Inl erroSessaoExpirada
   \<and> httpCalls (snd (fazerRequisicaoAutenticada env401 ''u'' ''POST'' JNull 0 mundoComToken)) = 2
   \<and> loginCalls (snd (fazerRequisicaoAutenticada env401 ''u'' ''POST'' JNull 0 mundoComToken)) = 1
   \<and> esperas (snd (fazerRequisicaoAutenticada env401 ''u'' ''POST'' JNull 0 mundoComToken)) = [500]
   \<and> tokensUsados (snd (fazerRequisicaoAutenticada env401 ''u'' ''POST'' JNull 0 mundoComToken)) = [''tok'', ''novo'']
   \<and> fst (fazerRequisicaoAutenticada env401Depois200 ''u'' ''POST'' JNull 0 mundoComToken)
       = Inr \<lparr>responseBody = None\<rparr>"
proof -
  have h1: "executarRequisicao env401 ''u'' ''POST'' JNull mundoComToken
     = (Inl (falhaHttp 401), mundoComToken\<lparr>httpCalls := 1, tokensUsados := [''tok'']\<rparr>)"
    by (simp add: executarRequisicao_def obterToken.simps avaliar_token mundoComToken_def env401_def)
  have h2: "exStatus (falhaHttp 401) = Some 401 \<or> exStatus (falhaHttp 401) = Some 403"
    by (simp add: falhaHttp_def)
  have v: "fst (fazerRequisicaoAutenticada env401 ''u'' ''POST'' JNull 0 mundoComToken) = Inl erroSessaoExpirada
   \<and> httpCalls (snd (fazerRequisicaoAutenticada env401 ''u'' ''POST'' JNull 0 mundoComToken)) = 2
   \<and> loginCalls (snd (fazerRequisicaoAutenticada env401 ''u'' ''POST'' JNull 0 mundoComToken)) = 1
   \<and> esperas (snd (fazerRequisicaoAutenticada env401 ''u'' ''POST'' JNull 0 mundoComToken)) = [500]
   \<and> tokensUsados (snd (fazerRequisicaoAutenticada env401 ''u'' ''POST'' JNull 0 mundoComToken)) = [''tok'', ''novo'']"
    by (simp add: avaliar_requisicao env401_def)
  have v2: "fst (fazerRequisicaoAutenticada env401Depois200 ''u'' ''POST'' JNull 0 mundoComToken)
       = Inr \<lparr>responseBody = None\<rparr>"
    by (simp add: avaliar_requisicao env401Depois200_def)
  from fazerRequisicao_sessao_expirada_retenta_uma_vez[OF h1 h2, where retryCount=0]
  have "fazerRequisicaoAutenticada env401 ''u'' ''POST'' JNull 0 mundoComToken =
       fazerRequisicaoAutenticada env401 ''u'' ''POST'' JNull (0 + 1)
         (dormir 500 (cacheDelete TOKEN_CACHE_KEY (mundoComToken\<lparr>httpCalls := 1, tokensUsados := [''tok'']\<rparr>)))"
    by simp
  with h1 h2 v v2 show ?thesis by simp
qed

lemma executarRequisicao_token_obtido:
  "obterToken e False 0 w = (Inr tk, u) \<Longrightarrow>
   dataTransport e (httpCalls u) fullUrl metodo dados tk = HttpErro ex \<Longrightarrow>
   executarRequisicao e fullUrl metodo dados w =
     (Inl ex, u\<lparr>httpCalls := Suc (httpCalls u), tokensUsados := tokensUsados u @ [tk]\<rparr>)"
  by (simp add: executarRequisicao_def)

lemma fazerRequisicao_tres_tentativas:
  assumes sempre: "\<forall>k url verbo corpoReq tk. dataTransport e k url verbo corpoReq tk = HttpErro ex"
    and naoSessao: "exStatus ex \<noteq> Some 401 \<and> exStatus ex \<noteq> Some 403"
    and transitorio: "exCode ex = Some ''ECONNABORTED'' \<or> exCode ex = Some ''ENOTFOUND''
                      \<or> statusServidor ex"
    and token0: "obterToken e False 0 w = (Inr tk0, u0)"
    and token1: "obterToken e False 0
                   (dormir (1000 * (0 + 1))
                      (u0\<lparr>httpCalls := Suc (httpCalls u0), tokensUsados := tokensUsados u0 @ [tk0]\<rparr>))
                 = (Inr tk1, u1)"
    and token2: "obterToken e False 0
                   (dormir (1000 * (1 + 1))
                      (u1\<lparr>httpCalls := Suc (httpCalls u1), tokensUsados := tokensUsados u1 @ [tk1]\<rparr>))
                 = (Inr tk2, u2)"
  shows "fazerRequisicaoAutenticada e fullUrl metodo dados 0 w =
           (Inl (if exCode ex = Some ''ECONNABORTED'' then erroTempoExcedido
                 else if statusServidor ex then erroServicoIndisponivel
                 else ouStr (exStatusMessage ex) (ouStr (Some (exMessage ex)) erroComunicacao)),
            u2\<lparr>httpCalls := Suc (httpCalls u2), tokensUsados := tokensUsados u2 @ [tk2]\<rparr>)
       \<and> httpCalls (snd (fazerRequisicaoAutenticada e fullUrl metodo dados 0 w)) = httpCalls w + 3
       \<and> tokensUsados (snd (fazerRequisicaoAutenticada e fullUrl metodo dados 0 w))
           = tokensUsados w @ [tk0, tk1, tk2]
       \<and> httpCalls (snd (fazerRequisicaoAutenticada e' fullUrl' metodo' dados' retryCount w'))
           \<le> httpCalls w' + 3"
proof -
  have ns: "\<not> (exStatus ex = Some 401 \<or> exStatus ex = Some 403)" using naoSessao by simp
  define a1 where "a1 = u0\<lparr>httpCalls := Suc (httpCalls u0), tokensUsados := tokensUsados u0 @ [tk0]\<rparr>"
  define b1 where "b1 = dormir (RETRY_DELAY * (int 0 + 1)) a1"
  define a2 where "a2 = u1\<lparr>httpCalls := Suc (httpCalls u1), tokensUsados := tokensUsados u1 @ [tk1]\<rparr>"
  define b2 where "b2 = dormir (RETRY_DELAY * (int 1 + 1)) a2"
  define a3 where "a3 = u2\<lparr>httpCalls := Suc (httpCalls u2), tokensUsados := tokensUsados u2 @ [tk2]\<rparr>"
  have t1: "obterToken e False 0 b1 = (Inr tk1, u1)"
    using token1 by (simp add: b1_def a1_def RETRY_DELAY_def)
  have t2: "obterToken e False 0 b2 = (Inr tk2, u2)"
    using token2 by (simp add: b2_def a2_def RETRY_DELAY_def)
  have e0: "executarRequisicao e fullUrl metodo dados w = (Inl ex, a1)"
    unfolding a1_def by (rule executarRequisicao_token_obtido[OF token0]) (simp add: sempre)
  have e1: "executarRequisicao e fullUrl metodo dados b1 = (Inl ex, a2)"
    unfolding a2_def by (rule executarRequisicao_token_obtido[OF t1]) (simp add: sempre)
  have e2: "executarRequisicao e fullUrl metodo dados b2 = (Inl ex, a3)"
    unfolding a3_def by (rule executarRequisicao_token_obtido[OF t2]) (simp add: sempre)
  have s0: "fazerRequisicaoAutenticada e fullUrl metodo dados 0 w
             = fazerRequisicaoAutenticada e fullUrl metodo dados (0 + 1) b1"
    unfolding b1_def
    by (rule fazerRequisicao_backoff[OF e0 ns transitorio]) (simp add: MAX_RETRIES_REQUISICAO_def)
  have s1: "fazerRequisicaoAutenticada e fullUrl metodo dados (0 + 1) b1
             = fazerRequisicaoAutenticada e fullUrl metodo dados (1 + 1) b2"
    unfolding b2_def
    using fazerRequisicao_backoff[OF e1 ns transitorio, of 1] by (simp add: MAX_RETRIES_REQUISICAO_def)
  have s2: "fazerRequisicaoAutenticada e fullUrl metodo dados (1 + 1) b2
             = (Inl (if exCode ex = Some ''ECONNABORTED'' then erroTempoExcedido
                     else if statusServidor ex then erroServicoIndisponivel
                     else ouStr (exStatusMessage ex) (ouStr (Some (exMessage ex)) erroComunicacao)), a3)"
    by (rule fazerRequisicao_falha[OF e2 ns]) (simp add: MAX_RETRIES_REQUISICAO_def)
  have fim: "fazerRequisicaoAutenticada e fullUrl metodo dados 0 w
             = (Inl (if exCode ex = Some ''ECONNABORTED'' then erroTempoExcedido
                     else if statusServidor ex then erroServicoIndisponivel
                     else ouStr (exStatusMessage ex) (ouStr (Some (exMessage ex)) erroComunicacao)), a3)"
    using s0 s1 s2 by simp
  note f0 = obterToken_frame[OF token0]
  note f1 = obterToken_frame[OF t1]
  note f2 = obterToken_frame[OF t2]
  have h: "httpCalls a3 = httpCalls w + 3"
    using f0 f1 f2 by (simp add: a3_def b2_def a2_def b1_def a1_def dormir_def)
  have tu: "tokensUsados a3 = tokensUsados w @ [tk0, tk1, tk2]"
    using f0 f1 f2 by (simp add: a3_def b2_def a2_def b1_def a1_def dormir_def)
  have lim: "httpCalls (snd (fazerRequisicaoAutenticada e' fullUrl' metodo' dados' retryCount w'))
           \<le> httpCalls w' + 3"
    using fazerRequisicao_limite_de_tentativas[of e' fullUrl' metodo' dados' retryCount w']
    by (simp add: MAX_RETRIES_REQUISICAO_def)
  show ?thesis
    unfolding fim using lim h tu by (simp add: a3_def)
qed

text \<open>
  Claim C4, as the code has it. No call of \<open>fazerRequisicaoAutenticada\<close> issues more than
  \<open>MAX_RETRIES + 1 = 3\<close> data calls. When the ERP fails every data call in the same
  transient way (an HTTP status of 500 or more, a timeout \<open>ECONNABORTED\<close>, or a
  name-resolution failure \<open>ENOTFOUND\<close>) and each of the three attempts obtains its token
  from \<open>obterToken\<close>, the function issues exactly three data calls, the second attempt
  starting \<open>1000 * 1\<close> milliseconds after the first data call and the third \<open>1000 * 2\<close>
  milliseconds after the second, and then raises: the timeout error for \<open>ECONNABORTED\<close>,
  the service-unavailable error for a status of 500 or more, and for \<open>ENOTFOUND\<close> the
  message of the transport error itself. In particular, when a valid credential stays in
  the store for these 3000 milliseconds, every attempt finds it: no login is made, and the
  two waits are the only ones. (An attempt whose \<open>obterToken\<close> fails issues no data call.)
\<close>

theorem fazerRequisicao_esgota_retentativas:
  assumes sempre: "\<forall>k url verbo corpoReq tk. dataTransport e k url verbo corpoReq tk = HttpErro ex"
    and naoSessao: "exStatus ex \<noteq> Some 401 \<and> exStatus ex \<noteq> Some 403"
    and transitorio: "exCode ex = Some ''ECONNABORTED'' \<or> exCode ex = Some ''ENOTFOUND''
                      \<or> statusServidor ex"
  shows "(\<forall>tk0 u0 tk1 u1 tk2 u2.
            obterToken e False 0 w = (Inr tk0, u0)
          \<and> obterToken e False 0
               (dormir (1000 * (0 + 1))
                  (u0\<lparr>httpCalls := Suc (httpCalls u0), tokensUsados := tokensUsados u0 @ [tk0]\<rparr>))
              = (Inr tk1, u1)
          \<and> obterToken e False 0
               (dormir (1000 * (1 + 1))
                  (u1\<lparr>httpCalls := Suc (httpCalls u1), tokensUsados := tokensUsados u1 @ [tk1]\<rparr>))
              = (Inr tk2, u2) \<longrightarrow>
            fazerRequisicaoAutenticada e fullUrl metodo dados 0 w =
              (Inl (if exCode ex = Some ''ECONNABORTED'' then erroTempoExcedido
                    else if statusServidor ex then erroServicoIndisponivel
                    else ouStr (exStatusMessage ex) (ouStr (Some (exMessage ex)) erroComunicacao)),
               u2\<lparr>httpCalls := Suc (httpCalls u2), tokensUsados := tokensUsados u2 @ [tk2]\<rparr>)
          \<and> httpCalls (snd (fazerRequisicaoAutenticada e fullUrl metodo dados 0 w)) = httpCalls w + 3
          \<and> tokensUsados (snd (fazerRequisicaoAutenticada e fullUrl metodo dados 0 w))
              = tokensUsados w @ [tk0, tk1, tk2])
       \<and> (\<forall>c evicted.
            cache w TOKEN_CACHE_KEY = Some (VToken c, evicted) \<and> token c \<noteq> []
          \<and> now w + 3000 < expiresAt c \<and> now w + 3000 < evicted \<longrightarrow>
            fst (fazerRequisicaoAutenticada e fullUrl metodo dados 0 w) =
              Inl (if exCode ex = Some ''ECONNABORTED'' then erroTempoExcedido
                   else if statusServidor ex then erroServicoIndisponivel
                   else ouStr (exStatusMessage ex) (ouStr (Some (exMessage ex)) erroComunicacao))
          \<and> httpCalls (snd (fazerRequisicaoAutenticada e fullUrl metodo dados 0 w)) = httpCalls w + 3
          \<and> esperas (snd (fazerRequisicaoAutenticada e fullUrl metodo dados 0 w))
              = esperas w @ [1000 * (0 + 1), 1000 * (1 + 1)]
          \<and> tokensUsados (snd (fazerRequisicaoAutenticada e fullUrl metodo dados 0 w))
              = tokensUsados w @ [token c, token c, token c]
          \<and> loginCalls (snd (fazerRequisicaoAutenticada e fullUrl metodo dados 0 w)) = loginCalls w)
       \<and> httpCalls (snd (fazerRequisicaoAutenticada e' fullUrl' metodo' dados' retryCount w'))
           \<le> httpCalls w' + 3"
proof (intro conjI allI impI)
  fix tk0 u0 tk1 u1 tk2 u2
  assume a: "obterToken e False 0 w = (Inr tk0, u0)
          \<and> obterToken e False 0
               (dormir (1000 * (0 + 1))
                  (u0\<lparr>httpCalls := Suc (httpCalls u0), tokensUsados := tokensUsados u0 @ [tk0]\<rparr>))
              = (Inr tk1, u1)
          \<and> obterToken e False 0
               (dormir (1000 * (1 + 1))
                  (u1\<lparr>httpCalls := Suc (httpCalls u1), tokensUsados := tokensUsados u1 @ [tk1]\<rparr>))
              = (Inr tk2, u2)"
  note r = fazerRequisicao_tres_tentativas[OF sempre naoSessao transitorio
             a[THEN conjunct1] a[THEN conjunct2, THEN conjunct1] a[THEN conjunct2, THEN conjunct2],
             of fullUrl metodo dados]
  from r show "fazerRequisicaoAutenticada e fullUrl metodo dados 0 w =
              (Inl (if exCode ex = Some ''ECONNABORTED'' then erroTempoExcedido
                    else if statusServidor ex then erroServicoIndisponivel
                    else ouStr (exStatusMessage ex) (ouStr (Some (exMessage ex)) erroComunicacao)),
               u2\<lparr>httpCalls := Suc (httpCalls u2), tokensUsados := tokensUsados u2 @ [tk2]\<rparr>)"
    by (rule conjunct1)
  from r[THEN conjunct2, THEN conjunct1]
  show "httpCalls (snd (fazerRequisicaoAutenticada e fullUrl metodo dados 0 w)) = httpCalls w + 3" .
  from r[THEN conjunct2, THEN conjunct2, THEN conjunct1]
  show "tokensUsados (snd (fazerRequisicaoAutenticada e fullUrl metodo dados 0 w))
              = tokensUsados w @ [tk0, tk1, tk2]" .
next
  fix c evicted
  assume cr: "cache w TOKEN_CACHE_KEY = Some (VToken c, evicted) \<and> token c \<noteq> []
          \<and> now w + 3000 < expiresAt c \<and> now w + 3000 < evicted"
  then have c1: "cache w TOKEN_CACHE_KEY = Some (VToken c, evicted)" and c2: "token c \<noteq> []"
    and c3: "now w + 3000 < expiresAt c" and c4: "now w + 3000 < evicted" by simp_all
  define a1 where "a1 = w\<lparr>httpCalls := Suc (httpCalls w), tokensUsados := tokensUsados w @ [token c]\<rparr>"
  define b1 where "b1 = dormir (1000 * (0 + 1)) a1"
  define a2 where "a2 = b1\<lparr>httpCalls := Suc (httpCalls b1), tokensUsados := tokensUsados b1 @ [token c]\<rparr>"
  define b2 where "b2 = dormir (1000 * (1 + 1)) a2"
  define a3 where "a3 = b2\<lparr>httpCalls := Suc (httpCalls b2), tokensUsados := tokensUsados b2 @ [token c]\<rparr>"
  have v0: "tokenValido w = Some (token c)"
    using c1 c2 c3 c4 by (intro tokenValido_credencial[where evicted=evicted]) simp_all
  have v1: "tokenValido b1 = Some (token c)"
    using c1 c2 c3 c4
    by (intro tokenValido_credencial[where evicted=evicted]) (simp_all add: b1_def a1_def)
  have v2: "tokenValido b2 = Some (token c)"
    using c1 c2 c3 c4
    by (intro tokenValido_credencial[where evicted=evicted])
       (simp_all add: b2_def a2_def b1_def a1_def)
  have t0: "obterToken e False 0 w = (Inr (token c), w)" by (rule obterToken_caminho_rapido[OF v0])
  have t1: "obterToken e False 0
               (dormir (1000 * (0 + 1))
                  (w\<lparr>httpCalls := Suc (httpCalls w), tokensUsados := tokensUsados w @ [token c]\<rparr>))
            = (Inr (token c), b1)"
    using obterToken_caminho_rapido[OF v1, of e] by (simp add: b1_def a1_def)
  have t2: "obterToken e False 0
               (dormir (1000 * (1 + 1))
                  (b1\<lparr>httpCalls := Suc (httpCalls b1), tokensUsados := tokensUsados b1 @ [token c]\<rparr>))
            = (Inr (token c), b2)"
    using obterToken_caminho_rapido[OF v2, of e] by (simp add: b2_def a2_def)
  note r = fazerRequisicao_tres_tentativas[OF sempre naoSessao transitorio t0 t1 t2,
             of fullUrl metodo dados]
  have fim: "fazerRequisicaoAutenticada e fullUrl metodo dados 0 w
             = (Inl (if exCode ex = Some ''ECONNABORTED'' then erroTempoExcedido
                     else if statusServidor ex then erroServicoIndisponivel
                     else ouStr (exStatusMessage ex) (ouStr (Some (exMessage ex)) erroComunicacao)), a3)"
    using r[THEN conjunct1] by (simp add: a3_def)
  show "fst (fazerRequisicaoAutenticada e fullUrl metodo dados 0 w) =
              Inl (if exCode ex = Some ''ECONNABORTED'' then erroTempoExcedido
                   else if statusServidor ex then erroServicoIndisponivel
                   else ouStr (exStatusMessage ex) (ouStr (Some (exMessage ex)) erroComunicacao))"
    unfolding fim by simp
  show "httpCalls (snd (fazerRequisicaoAutenticada e fullUrl metodo dados 0 w)) = httpCalls w + 3"
    unfolding fim by (simp add: a3_def b2_def a2_def b1_def a1_def)
  show "esperas (snd (fazerRequisicaoAutenticada e fullUrl metodo dados 0 w))
              = esperas w @ [1000 * (0 + 1), 1000 * (1 + 1)]"
    unfolding fim by (simp add: a3_def b2_def a2_def b1_def a1_def)
  show "tokensUsados (snd (fazerRequisicaoAutenticada e fullUrl metodo dados 0 w))
              = tokensUsados w @ [token c, token c, token c]"
    unfolding fim by (simp add: a3_def b2_def a2_def b1_def a1_def)
  show "loginCalls (snd (fazerRequisicaoAutenticada e fullUrl metodo dados 0 w)) = loginCalls w"
    unfolding fim by (simp add: a3_def b2_def a2_def b1_def a1_def)
next
  show "httpCalls (snd (fazerRequisicaoAutenticada e' fullUrl' metodo' dados' retryCount w'))
           \<le> httpCalls w' + 3"
    using fazerRequisicao_limite_de_tentativas[of e' fullUrl' metodo' dados' retryCount w']
    by (simp add: MAX_RETRIES_REQUISICAO_def)
qed

text \<open>
  C4 at an ERP that always answers 500: from an empty store (the first attempt logs in, the
  next two find the credential), and with a valid credential in the store.
\<close>

theorem fazerRequisicao_esgota_retentativas_witness:
  "(\<forall>k url verbo corpoReq tk. dataTransport envLoginOk k url verbo corpoReq tk = HttpErro (falhaHttp 500))
   \<and> exStatus (falhaHttp 500) \<noteq> Some 401 \<and> exStatus (falhaHttp 500) \<noteq> Some 403
   \<and> statusServidor (falhaHttp 500)
   \<and> fst (obterToken envLoginOk False 0 (mundoInicial 1000)) = Inr ''tok''
   \<and> fst (fazerRequisicaoAutenticada envLoginOk ''u'' ''POST'' JNull 0 (mundoInicial 1000))
        = Inl erroServicoIndisponivel
   \<and> httpCalls (snd (fazerRequisicaoAutenticada envLoginOk ''u'' ''POST'' JNull 0 (mundoInicial 1000))) = 3
   \<and> tokensUsados (snd (fazerRequisicaoAutenticada envLoginOk ''u'' ''POST'' JNull 0 (mundoInicial 1000)))
        = [''tok'', ''tok'', ''tok'']
   \<and> esperas (snd (fazerRequisicaoAutenticada envLoginOk ''u'' ''POST'' JNull 0 (mundoInicial 1000)))
        = [1000, 2000]
   \<and> loginCalls (snd (fazerRequisicaoAutenticada envLoginOk ''u'' ''POST'' JNull 0 (mundoInicial 1000))) = 1
   \<and> fst (obterToken envLoginOk False 0 mundoComToken) = Inr ''tok''
   \<and> fst (fazerRequisicaoAutenticada envLoginOk ''u'' ''POST'' JNull 0 mundoComToken)
        = Inl erroServicoIndisponivel
   \<and> httpCalls (snd (fazerRequisicaoAutenticada envLoginOk ''u'' ''POST'' JNull 0 mundoComToken)) = 3
   \<and> esperas (snd (fazerRequisicaoAutenticada envLoginOk ''u'' ''POST'' JNull 0 mundoComToken))
        = [1000, 2000]
   \<and> loginCalls (snd (fazerRequisicaoAutenticada envLoginOk ''u'' ''POST'' JNull 0 mundoComToken)) = 0"
proof -
  have h1: "\<forall>k url verbo corpoReq tk. dataTransport envLoginOk k url verbo corpoReq tk = HttpErro (falhaHttp 500)"
    by (simp add: envLoginOk_def)
  have h2: "exStatus (falhaHttp 500) \<noteq> Some 401 \<and> exStatus (falhaHttp 500) \<noteq> Some 403"
    by (simp add: falhaHttp_def)
  have h3: "statusServidor (falhaHttp 500)" by (simp add: falhaHttp_def statusServidor_def)
  then have h3': "exCode (falhaHttp 500) = Some ''ECONNABORTED'' \<or> exCode (falhaHttp 500) = Some ''ENOTFOUND''
                      \<or> statusServidor (falhaHttp 500)" by simp
  define u0 where "u0 = snd (obterToken envLoginOk False 0 (mundoInicial 1000))"
  define u1 where "u1 = snd (obterToken envLoginOk False 0
                   (dormir (1000 * (0 + 1))
                      (u0\<lparr>httpCalls := Suc (httpCalls u0), tokensUsados := tokensUsados u0 @ [''tok'']\<rparr>)))"
  define u2 where "u2 = snd (obterToken envLoginOk False 0
                   (dormir (1000 * (1 + 1))
                      (u1\<lparr>httpCalls := Suc (httpCalls u1), tokensUsados := tokensUsados u1 @ [''tok'']\<rparr>)))"
  have t0: "obterToken envLoginOk False 0 (mundoInicial 1000) = (Inr ''tok'', u0)"
    unfolding u0_def by (simp add: obterToken.simps avaliar_token envLoginOk_def finalizar_def cacheSet_def cacheDelete_def)
  have t1: "obterToken envLoginOk False 0
                   (dormir (1000 * (0 + 1))
                      (u0\<lparr>httpCalls := Suc (httpCalls u0), tokensUsados := tokensUsados u0 @ [''tok'']\<rparr>))
            = (Inr ''tok'', u1)"
    unfolding u1_def u0_def
    by (simp add: obterToken.simps avaliar_token envLoginOk_def finalizar_def cacheSet_def cacheDelete_def dormir_def
         TOKEN_CACHE_KEY_def LOCK_KEY_def)
  have t2: "obterToken envLoginOk False 0
                   (dormir (1000 * (1 + 1))
                      (u1\<lparr>httpCalls := Suc (httpCalls u1), tokensUsados := tokensUsados u1 @ [''tok'']\<rparr>))
            = (Inr ''tok'', u2)"
    unfolding u2_def u1_def u0_def
    by (simp add: obterToken.simps avaliar_token envLoginOk_def finalizar_def cacheSet_def cacheDelete_def dormir_def
         TOKEN_CACHE_KEY_def LOCK_KEY_def)
  note g = fazerRequisicao_esgota_retentativas[OF h1 h2 h3', of "mundoInicial 1000" "''u''" "''POST''" JNull]
  have t012: "obterToken envLoginOk False 0 (mundoInicial 1000) = (Inr ''tok'', u0)
          \<and> obterToken envLoginOk False 0
               (dormir (1000 * (0 + 1))
                  (u0\<lparr>httpCalls := Suc (httpCalls u0), tokensUsados := tokensUsados u0 @ [''tok'']\<rparr>))
              = (Inr ''tok'', u1)
          \<and> obterToken envLoginOk False 0
               (dormir (1000 * (1 + 1))
                  (u1\<lparr>httpCalls := Suc (httpCalls u1), tokensUsados := tokensUsados u1 @ [''tok'']\<rparr>))
              = (Inr ''tok'', u2)"
    using t0 t1 t2 by simp
  note r = g[THEN conjunct1, rule_format, OF t012]
  have cr: "cache mundoComToken TOKEN_CACHE_KEY
              = Some (VToken \<lparr>token = ''tok'', expiresAt = 1201000, geradoEm = 1000\<rparr>, 1201000)
            \<and> token \<lparr>token = ''tok'', expiresAt = 1201000, geradoEm = 1000\<rparr> \<noteq> []
            \<and> now mundoComToken + 3000 < expiresAt \<lparr>token = ''tok'', expiresAt = 1201000, geradoEm = 1000\<rparr>
            \<and> now mundoComToken + 3000 < 1201000"
    by (simp add: mundoComToken_def mundoInicial_def)
  note r2 = fazerRequisicao_esgota_retentativas[OF h1 h2 h3', of mundoComToken "''u''" "''POST''" JNull,
              THEN conjunct2, THEN conjunct1, rule_format, OF cr]
  have v: "esperas (snd (fazerRequisicaoAutenticada envLoginOk ''u'' ''POST'' JNull 0 (mundoInicial 1000)))
        = [1000, 2000]
     \<and> loginCalls (snd (fazerRequisicaoAutenticada envLoginOk ''u'' ''POST'' JNull 0 (mundoInicial 1000))) = 1
     \<and> fst (obterToken envLoginOk False 0 mundoComToken) = Inr ''tok''"
    by (simp add: avaliar_requisicao envLoginOk_def)
  have v2: "fst (fazerRequisicaoAutenticada envLoginOk ''u'' ''POST'' JNull 0 mundoComToken)
        = Inl erroServicoIndisponivel
     \<and> httpCalls (snd (fazerRequisicaoAutenticada envLoginOk ''u'' ''POST'' JNull 0 mundoComToken)) = 3
     \<and> esperas (snd (fazerRequisicaoAutenticada envLoginOk ''u'' ''POST'' JNull 0 mundoComToken))
        = [1000, 2000]
     \<and> loginCalls (snd (fazerRequisicaoAutenticada envLoginOk ''u'' ''POST'' JNull 0 mundoComToken)) = 0"
    using r2 h3 by (simp add: mundoComToken_def mundoInicial_def falhaHttp_def)
  have f0: "fst (obterToken envLoginOk False 0 (mundoInicial 1000)) = Inr ''tok''"
    using t0 by simp
  have c1: "fst (fazerRequisicaoAutenticada envLoginOk ''u'' ''POST'' JNull 0 (mundoInicial 1000))
        = Inl erroServicoIndisponivel"
    using r[THEN conjunct1] h3 by (simp add: falhaHttp_def)
  have c2: "httpCalls (snd (fazerRequisicaoAutenticada envLoginOk ''u'' ''POST'' JNull 0 (mundoInicial 1000))) = 3"
    using r[THEN conjunct2, THEN conjunct1] by (simp add: mundoInicial_def)
  have c3: "tokensUsados (snd (fazerRequisicaoAutenticada envLoginOk ''u'' ''POST'' JNull 0 (mundoInicial 1000)))
        = [''tok'', ''tok'', ''tok'']"
    using r[THEN conjunct2, THEN conjunct2] by (simp add: mundoInicial_def)
  from h1 h2 h3 f0 c1 c2 c3 v v2 show ?thesis by blast
qed

text \<open>
  The claim as stated fails for the two network failures: after the same three attempts a
  timeout raises the timeout error and a name-resolution failure raises the transport's own
  message, neither of which is the service-unavailable error. It also fails when no token
  can be obtained: with an empty store and a login endpoint that answers 503, the ERP that
  always answers 500 receives no data call at all and the error is the authentication
  failure.
\<close>

theorem fazerRequisicao_esgota_retentativas_counterexample:
  "fst (fazerRequisicaoAutenticada envTimeout ''u'' ''POST'' JNull 0 mundoComToken)
     = Inl erroTempoExcedido
   \<and> erroTempoExcedido \<noteq> erroServicoIndisponivel
   \<and> httpCalls (snd (fazerRequisicaoAutenticada envTimeout ''u'' ''POST'' JNull 0 mundoComToken)) = 3
   \<and> fst (fazerRequisicaoAutenticada envSemDns ''u'' ''POST'' JNull 0 mundoComToken)
     = Inl ''getaddrinfo ENOTFOUND api.sandbox.sankhya.com.br''
   \<and> ''getaddrinfo ENOTFOUND api.sandbox.sankhya.com.br'' \<noteq> erroServicoIndisponivel
   \<and> httpCalls (snd (fazerRequisicaoAutenticada envSemDns ''u'' ''POST'' JNull 0 mundoComToken)) = 3
   \<and> fst (fazerRequisicaoAutenticada envLogin503 ''u'' ''POST'' JNull 0 (mundoInicial 1000))
     = Inl (erroFalhaAutenticacao ''Request failed'')
   \<and> erroFalhaAutenticacao ''Request failed'' \<noteq> erroServicoIndisponivel
   \<and> httpCalls (snd (fazerRequisicaoAutenticada envLogin503 ''u'' ''POST'' JNull 0 (mundoInicial 1000))) = 0
   \<and> dataTransport envLogin503 0 ''u'' ''POST'' JNull ''tok'' = HttpErro (falhaHttp 500)"
  by (simp add: avaliar_requisicao envTimeout_def envSemDns_def envLogin503_def erroTempoExcedido_def
      erroServicoIndisponivel_def erroFalhaAutenticacao_def)

subsection \<open>Request deduplicator\<close>

lemma consistente_vazio: "consistente dedupVazio"
  by (simp add: consistente_def dedupVazio_def)

lemma consistente_dedupedRequest:
  assumes c: "consistente st"
  shows "consistente (snd (dedupedRequest key st))"
proof (cases "pendingRequests st key")
  case (Some promise)
  with c show ?thesis by (simp add: dedupedRequest_def)
next
  case None
  from c have a: "\<And>p k. emVoo st p = Some k \<longleftrightarrow> pendingRequests st k = Some p"
    and b: "\<And>p k. emVoo st p = Some k \<Longrightarrow> p < proximaPromessa st"
    by (auto simp add: consistente_def)
  have fresh: "emVoo st (proximaPromessa st) = None"
  proof (cases "emVoo st (proximaPromessa st)")
    case None then show ?thesis .
  next
    case (Some k) with b[OF Some] show ?thesis by simp
  qed
  have nokey: "\<And>p. emVoo st p \<noteq> Some key" using a None by simp
  show ?thesis
    unfolding consistente_def
  proof (intro conjI allI impI)
    fix p k
    show "emVoo (snd (dedupedRequest key st)) p = Some k
          \<longleftrightarrow> pendingRequests (snd (dedupedRequest key st)) k = Some p"
      using None a[of p k] fresh nokey[of p] a[of "proximaPromessa st" k]
      by (auto simp add: dedupedRequest_def Let_def)
  next
    fix p k
    assume "emVoo (snd (dedupedRequest key st)) p = Some k"
    then show "p < proximaPromessa (snd (dedupedRequest key st))"
      using None b[of p k]
      by (auto simp add: dedupedRequest_def Let_def split: if_splits)
  qed
qed

lemma consistente_liquidar:
  assumes c: "consistente st"
  shows "consistente (liquidar promise sucesso st)"
proof (cases "emVoo st promise")
  case None
  with c show ?thesis by (simp add: liquidar_def)
next
  case (Some key)
  from c have a: "\<And>p k. emVoo st p = Some k \<longleftrightarrow> pendingRequests st k = Some p"
    and b: "\<And>p k. emVoo st p = Some k \<Longrightarrow> p < proximaPromessa st"
    by (auto simp add: consistente_def)
  from a[of promise key] Some have pk: "pendingRequests st key = Some promise" by simp
  show ?thesis
    unfolding consistente_def
  proof (intro conjI allI impI)
    fix p k
    show "emVoo (liquidar promise sucesso st) p = Some k
          \<longleftrightarrow> pendingRequests (liquidar promise sucesso st) k = Some p"
      using Some pk a[of p k] a[of promise k] a[of p key]
      by (auto simp add: liquidar_def)
  next
    fix p k
    assume "emVoo (liquidar promise sucesso st) p = Some k"
    then show "p < proximaPromessa (liquidar promise sucesso st)"
      using Some b[of p k] by (auto simp add: liquidar_def split: if_splits)
  qed
qed

lemma consistente_executar: "consistente st \<Longrightarrow> consistente (executar ev st)"
  by (cases ev) (simp_all add: consistente_dedupedRequest consistente_liquidar)

lemma consistente_correr: "consistente st \<Longrightarrow> consistente (correr evs st)"
  by (induction evs arbitrary: st) (simp_all add: consistente_executar)

lemma consistente_um_por_chave:
  "consistente st \<Longrightarrow> emVoo st p = Some key \<Longrightarrow> emVoo st q = Some key \<Longrightarrow> p = q"
  by (simp add: consistente_def)

text \<open>
  Claim C6. \<open>dedupedRequest(key, operation)\<close> hands out the promise already registered
  for \<open>key\<close> and leaves the table as it is (the operation is not invoked) when there is
  one; otherwise it invokes the operation once and registers its promise under \<open>key\<close>.
  The registration stays as long as that promise has not settled, and is removed when it
  settles, with success or with failure. Hence in every run of calls and settlements from
  the empty table the table is consistent, at most one operation is in flight per key, and
  an operation is only ever invoked for a key that has none in flight.
\<close>

theorem dedupedRequest_uma_operacao_por_chave:
  "(\<forall>(st::dedupEstado) key promise. pendingRequests st key = Some promise \<longrightarrow>
       dedupedRequest key st = (promise, st))
   \<and> (\<forall>(st::dedupEstado) key. pendingRequests st key = None \<longrightarrow>
         fst (dedupedRequest key st) = proximaPromessa st
       \<and> pendingRequests (snd (dedupedRequest key st)) key = Some (proximaPromessa st)
       \<and> emVoo (snd (dedupedRequest key st)) (proximaPromessa st) = Some key
       \<and> invocacoes (snd (dedupedRequest key st)) = Suc (invocacoes st))
   \<and> (\<forall>st promise key sucesso. consistente st \<and> emVoo st promise = Some key \<longrightarrow>
         pendingRequests (liquidar promise sucesso st) key = None
       \<and> emVoo (liquidar promise sucesso st) promise = None
       \<and> invocacoes (liquidar promise sucesso st) = invocacoes st)
   \<and> (\<forall>st ev key promise. consistente st \<and> pendingRequests st key = Some promise
         \<and> ev \<noteq> Liquidar promise True \<and> ev \<noteq> Liquidar promise False \<longrightarrow>
         pendingRequests (executar ev st) key = Some promise)
   \<and> (\<forall>evs. consistente (correr evs dedupVazio))
   \<and> (\<forall>evs p q key. emVoo (correr evs dedupVazio) p = Some key
         \<and> emVoo (correr evs dedupVazio) q = Some key \<longrightarrow> p = q)
   \<and> (\<forall>evs key. invocacoes (executar (Chamar key) (correr evs dedupVazio))
                    \<noteq> invocacoes (correr evs dedupVazio) \<longrightarrow>
         (\<forall>p. emVoo (correr evs dedupVazio) p \<noteq> Some key))"
proof (intro conjI allI impI)
  fix st :: dedupEstado and key promise
  assume "pendingRequests st key = Some promise"
  then show "dedupedRequest key st = (promise, st)" by (simp add: dedupedRequest_def)
next
  fix st :: dedupEstado and key
  assume n: "pendingRequests st key = None"
  then show "fst (dedupedRequest key st) = proximaPromessa st"
    and "pendingRequests (snd (dedupedRequest key st)) key = Some (proximaPromessa st)"
    and "emVoo (snd (dedupedRequest key st)) (proximaPromessa st) = Some key"
    and "invocacoes (snd (dedupedRequest key st)) = Suc (invocacoes st)"
    by (simp_all add: dedupedRequest_def Let_def)
next
  fix st promise key sucesso
  assume a: "consistente st \<and> emVoo st promise = Some key"
  then show "pendingRequests (liquidar promise sucesso st) key = None"
    and "emVoo (liquidar promise sucesso st) promise = None"
    and "invocacoes (liquidar promise sucesso st) = invocacoes st"
    by (simp_all add: liquidar_def)
next
  fix st ev key promise
  assume a: "consistente st \<and> pendingRequests st key = Some promise
         \<and> ev \<noteq> Liquidar promise True \<and> ev \<noteq> Liquidar promise False"
  then have c: "consistente st" and pk: "pendingRequests st key = Some promise"
    and neT: "ev \<noteq> Liquidar promise True" and neF: "ev \<noteq> Liquidar promise False"
    by simp_all
  have ne: "ev \<noteq> Liquidar promise b" for b
    using neT neF by (cases b) simp_all
  from c have inv: "\<And>p k. emVoo st p = Some k \<longleftrightarrow> pendingRequests st k = Some p"
    by (auto simp add: consistente_def)
  show "pendingRequests (executar ev st) key = Some promise"
  proof (cases ev)
    case (Chamar k)
    with pk show ?thesis
      by (cases "pendingRequests st k") (auto simp add: dedupedRequest_def Let_def)
  next
    case (Liquidar q b)
    with ne[of b] have qp: "q \<noteq> promise" by simp
    show ?thesis
    proof (cases "emVoo st q")
      case None
      with Liquidar pk show ?thesis by (simp add: liquidar_def)
    next
      case (Some k)
      with inv[of q k] have "pendingRequests st k = Some q" by simp
      with pk qp have "k \<noteq> key" by auto
      with Liquidar Some pk show ?thesis by (simp add: liquidar_def)
    qed
  qed
next
  fix evs
  show "consistente (correr evs dedupVazio)"
    by (rule consistente_correr[OF consistente_vazio])
next
  fix evs p q key
  assume "emVoo (correr evs dedupVazio) p = Some key \<and> emVoo (correr evs dedupVazio) q = Some key"
  with consistente_correr[OF consistente_vazio, of evs]
  show "p = q" by (auto dest: consistente_um_por_chave)
next
  fix evs key p
  assume a: "invocacoes (executar (Chamar key) (correr evs dedupVazio))
                    \<noteq> invocacoes (correr evs dedupVazio)"
  have c: "consistente (correr evs dedupVazio)"
    by (rule consistente_correr[OF consistente_vazio])
  from a have "pendingRequests (correr evs dedupVazio) key = None"
    by (cases "pendingRequests (correr evs dedupVazio) key") (simp_all add: dedupedRequest_def)
  with c show "emVoo (correr evs dedupVazio) p \<noteq> Some key"
    by (auto simp add: consistente_def)
qed

text \<open>
  C6 on a run: two calls for key \<open>k\<close> share promise 0 and invoke the operation once;
  the operation fails and its registration goes; the next call for \<open>k\<close> invokes the
  operation again, as promise 1.
\<close>

theorem dedupedRequest_uma_operacao_por_chave_witness:
  "pendingRequests (correr [Chamar ''k''] dedupVazio) ''k'' = Some 0
   \<and> dedupedRequest ''k'' (correr [Chamar ''k''] dedupVazio) = (0, correr [Chamar ''k''] dedupVazio)
   \<and> invocacoes (correr [Chamar ''k'', Chamar ''k''] dedupVazio) = 1
   \<and> consistente (correr [Chamar ''k'', Chamar ''k''] dedupVazio)
   \<and> emVoo (correr [Chamar ''k'', Chamar ''k''] dedupVazio) 0 = Some ''k''
   \<and> pendingRequests (liquidar 0 False (correr [Chamar ''k'', Chamar ''k''] dedupVazio)) ''k'' = None
   \<and> pendingRequests (liquidar 0 True (correr [Chamar ''k'', Chamar ''k''] dedupVazio)) ''k'' = None
   \<and> pendingRequests (correr [Chamar ''k'', Chamar ''k'', Liquidar 0 False] dedupVazio) ''k'' = None
   \<and> fst (dedupedRequest ''k'' (correr [Chamar ''k'', Chamar ''k'', Liquidar 0 False] dedupVazio)) = 1
   \<and> invocacoes (correr [Chamar ''k'', Chamar ''k'', Liquidar 0 False, Chamar ''k''] dedupVazio) = 2"
proof -
  note t = dedupedRequest_uma_operacao_por_chave
  note t1 = t[THEN conjunct1, rule_format]
  note t3 = t[THEN conjunct2, THEN conjunct2, THEN conjunct1, rule_format]
  note t5 = t[THEN conjunct2, THEN conjunct2, THEN conjunct2, THEN conjunct2, THEN conjunct1, rule_format]
  have p0: "pendingRequests (correr [Chamar ''k''] dedupVazio) ''k'' = Some 0"
    by (simp add: dedupedRequest_def dedupVazio_def)
  from t1[OF p0] have d1: "dedupedRequest ''k'' (correr [Chamar ''k''] dedupVazio)
      = (0, correr [Chamar ''k''] dedupVazio)" .
  have c2: "consistente (correr [Chamar ''k'', Chamar ''k''] dedupVazio)" by (rule t5)
  have e2: "emVoo (correr [Chamar ''k'', Chamar ''k''] dedupVazio) 0 = Some ''k''"
    by (simp add: dedupedRequest_def dedupVazio_def)
  from c2 e2 have ce: "consistente (correr [Chamar ''k'', Chamar ''k''] dedupVazio)
      \<and> emVoo (correr [Chamar ''k'', Chamar ''k''] dedupVazio) 0 = Some ''k''" by simp
  from t3[OF ce, of False] t3[OF ce, of True]
  have l: "pendingRequests (liquidar 0 False (correr [Chamar ''k'', Chamar ''k''] dedupVazio)) ''k'' = None"
    "pendingRequests (liquidar 0 True (correr [Chamar ''k'', Chamar ''k''] dedupVazio)) ''k'' = None"
    by simp_all
  have v: "invocacoes (correr [Chamar ''k'', Chamar ''k''] dedupVazio) = 1"
    "pendingRequests (correr [Chamar ''k'', Chamar ''k'', Liquidar 0 False] dedupVazio) ''k'' = None"
    "fst (dedupedRequest ''k'' (correr [Chamar ''k'', Chamar ''k'', Liquidar 0 False] dedupVazio)) = 1"
    "invocacoes (correr [Chamar ''k'', Chamar ''k'', Liquidar 0 False, Chamar ''k''] dedupVazio) = 2"
    by (simp_all add: dedupedRequest_def liquidar_def dedupVazio_def)
  from p0 d1 c2 e2 l v show ?thesis by simp
qed

subsection \<open>Cache-aside data fetchers\<close>

lemma jsSlice0_length: "0 \<le> fim \<Longrightarrow> int (length (jsSlice0 xs fim)) \<le> fim"
  by (simp add: jsSlice0_def Let_def)

lemma tentarConsultarProdutos_sucesso:
  assumes ok: "tentarConsultarProdutos e pg tamanho payload cacheKey w = (Some (Inr v), w1)"
    and t: "0 \<le> tamanho"
  shows "\<exists>r. v = VProdutos r \<and> int (length (registros r)) \<le> tamanho
             \<and> (\<forall>p \<in> set (registros r). p ''ESTOQUE'' = Some (JStr ''0''))"
proof -
  obtain x w0 where rq: "fazerRequisicaoAutenticada_produtos e URL_CONSULTA_SERVICO ''POST'' payload 0 w = (x, w0)"
    by (cases "fazerRequisicaoAutenticada_produtos e URL_CONSULTA_SERVICO ''POST'' payload 0 w")
  show ?thesis
  proof (cases x)
    case None
    with ok rq show ?thesis by (simp add: tentarConsultarProdutos_def)
  next
    case (Some y)
    note sy = Some
    show ?thesis
    proof (cases y)
      case (Inl err)
      with ok rq sy show ?thesis by (simp add: tentarConsultarProdutos_def)
    next
      case (Inr resp)
      have vazia: "int (length (registros (paginaVazia pg tamanho))) \<le> tamanho
                   \<and> (\<forall>p \<in> set (registros (paginaVazia pg tamanho)). p ''ESTOQUE'' = Some (JStr ''0''))"
        using t by (simp add: paginaVazia_def)
      from rq sy Inr have rq': "fazerRequisicaoAutenticada_produtos e URL_CONSULTA_SERVICO ''POST'' payload 0 w
          = (Some (Inr resp), w0)" by simp
      show ?thesis
      proof (cases "responseBody resp")
        case None
        with ok rq' have "v = VProdutos (paginaVazia pg tamanho)"
          by (auto simp add: tentarConsultarProdutos_def)
        with vazia show ?thesis by blast
      next
        case (Some c)
        note sc = Some
        obtain eo where c: "c = Corpo eo" by (cases c)
        show ?thesis
        proof (cases eo)
          case None
          with ok rq' sc c have "v = VProdutos (paginaVazia pg tamanho)"
            by (auto simp add: tentarConsultarProdutos_def)
          with vazia show ?thesis by blast
        next
          case (Some ents)
          note se = Some
          show ?thesis
          proof (cases "entityAusente (entity ents)")
            case True
            with ok rq' sc c se
            have "v = VProdutos (paginaVazia pg tamanho)"
              by (auto simp add: tentarConsultarProdutos_def)
            with vazia show ?thesis by blast
          next
            case False
            show ?thesis
            proof (cases "mapearEntidades ents")
              case (Inl err)
              with ok rq' sc c se False show ?thesis
                by (simp add: tentarConsultarProdutos_def)
            next
              case (Inr lista)
              define cortada where
                "cortada = (if int (length lista) > tamanho then jsSlice0 lista tamanho else lista)"
              have len: "int (length cortada) \<le> tamanho"
                using t by (simp add: cortada_def jsSlice0_length)
              from ok rq' sc c se False Inr
              have "\<exists>r. v = VProdutos r \<and> registros r =
                      map (\<lambda>produto. produto
                                       (''ESTOQUE'' \<mapsto> JStr ''0'',
                                        ''VLRCOMERC'' \<mapsto>
                                          (if truthy (readProp produto ''VLRCOMERC'')
                                           then readProp produto ''VLRCOMERC'' else JStr ''0''))) cortada"
                by (auto simp add: tentarConsultarProdutos_def Let_def cortada_def)
              then obtain r where r: "v = VProdutos r" and rr: "registros r =
                      map (\<lambda>produto. produto
                                       (''ESTOQUE'' \<mapsto> JStr ''0'',
                                        ''VLRCOMERC'' \<mapsto>
                                          (if truthy (readProp produto ''VLRCOMERC'')
                                           then readProp produto ''VLRCOMERC'' else JStr ''0''))) cortada"
                by blast
              from rr len have "int (length (registros r)) \<le> tamanho" by simp
              moreover from rr have "\<forall>p \<in> set (registros r). p ''ESTOQUE'' = Some (JStr ''0'')"
                by auto
              ultimately show ?thesis using r by blast
            qed
          qed
        qed
      qed
    qed
  qed
qed

lemma buscarProdutos_sucesso:
  "buscarProdutos e pg tamanho payload cacheKey w = (Some (Inr v), w1) \<Longrightarrow>
   tentarConsultarProdutos e pg tamanho payload cacheKey w = (Some (Inr v), w1)"
  by (auto simp add: buscarProdutos_def split: prod.splits sum.splits option.splits)

lemma buscarProdutos_falha:
  "tentarConsultarProdutos e pg tamanho payload cacheKey w = (Some (Inl err), w1) \<Longrightarrow>
   buscarProdutos e pg tamanho payload cacheKey w
     = (Some (Inl err), cacheSet cacheKey (VProdutos (paginaVazia pg tamanho)) 60 w1)"
  by (simp add: buscarProdutos_def)

lemma tentarConsultarProdutos_falha_da_requisicao:
  "fazerRequisicaoAutenticada_produtos e URL_CONSULTA_SERVICO ''POST'' payload 0 w = (Some (Inl err), w1) \<Longrightarrow>
   tentarConsultarProdutos e pg tamanho payload cacheKey w = (Some (Inl err), w1)"
  by (simp add: tentarConsultarProdutos_def)

lemma consultarProdutos_cache:
  "cacheGet (chaveProdutos pg tamanho searchName searchCode) w = Some cached \<Longrightarrow>
   consultarProdutos e pg tamanho searchName searchCode w = (Some (Inr cached), w)"
  by (simp add: consultarProdutos_def Let_def)

lemma consultarProdutos_compartilhada:
  "cacheGet (chaveProdutos pg tamanho searchName searchCode) w = None \<Longrightarrow>
   pendingRequests (dedup w) (chaveRequisicaoProdutos searchName searchCode) = Some promise \<Longrightarrow>
   consultarProdutos e pg tamanho searchName searchCode w = (desfechos w promise, w)"
  by (simp add: consultarProdutos_def Let_def aguardarDeduped_def chaveRequisicaoProdutos_def)

lemma consultarProdutos_busca:
  assumes "cacheGet (chaveProdutos pg tamanho searchName searchCode) w = None"
    and "pendingRequests (dedup w) (chaveRequisicaoProdutos searchName searchCode) = None"
    and "buscarProdutos e pg tamanho (payloadProdutos (criterioProdutos searchName searchCode))
           (chaveProdutos pg tamanho searchName searchCode)
           (snd (iniciarPromessa (chaveRequisicaoProdutos searchName searchCode) w))
         = (Some r, w1)"
  shows "consultarProdutos e pg tamanho searchName searchCode w =
           (Some r, liquidarPromessa (fst (iniciarPromessa (chaveRequisicaoProdutos searchName searchCode) w))
                      (case r of Inl err \<Rightarrow> False | Inr v \<Rightarrow> True) w1)"
proof -
  obtain promise w0 where i: "iniciarPromessa (chaveRequisicaoProdutos searchName searchCode) w = (promise, w0)"
    by (cases "iniciarPromessa (chaveRequisicaoProdutos searchName searchCode) w")
  with assms show ?thesis
    by (cases r)
       (simp_all add: consultarProdutos_def Let_def aguardarDeduped_def chaveRequisicaoProdutos_def)
qed

text \<open>
  A call of \<open>consultarProdutos\<close> that runs the query itself (nothing cached under its cache
  key, nothing in flight under its request key) with \<open>pageSize >= 0\<close> and succeeds returns
  at most \<open>pageSize\<close> records, each with \<open>ESTOQUE\<close> equal to the string \<open>'0'\<close>.
\<close>

lemma consultarProdutos_limita_quando_busca:
  assumes ok: "consultarProdutos e pg tamanho searchName searchCode w = (Some (Inr v), w')"
    and semCache: "cacheGet (chaveProdutos pg tamanho searchName searchCode) w = None"
    and semPendente: "pendingRequests (dedup w) (chaveRequisicaoProdutos searchName searchCode) = None"
    and naoNegativo: "0 \<le> tamanho"
  shows "\<exists>r. v = VProdutos r \<and> int (length (registros r)) \<le> tamanho
              \<and> (\<forall>p \<in> set (registros r). p ''ESTOQUE'' = Some (JStr ''0''))"
proof -
  obtain r w1 where b: "buscarProdutos e pg tamanho
           (payloadProdutos (criterioProdutos searchName searchCode))
           (chaveProdutos pg tamanho searchName searchCode)
           (snd (iniciarPromessa (chaveRequisicaoProdutos searchName searchCode) w))
         = (r, w1)"
    by (cases "buscarProdutos e pg tamanho
           (payloadProdutos (criterioProdutos searchName searchCode))
           (chaveProdutos pg tamanho searchName searchCode)
           (snd (iniciarPromessa (chaveRequisicaoProdutos searchName searchCode) w))")
  have "r = Some (Inr v)"
  proof (cases r)
    case None
    obtain promise w0 where "iniciarPromessa (chaveRequisicaoProdutos searchName searchCode) w = (promise, w0)"
      by (cases "iniciarPromessa (chaveRequisicaoProdutos searchName searchCode) w")
    with None b ok semCache semPendente show ?thesis
      by (simp add: consultarProdutos_def Let_def aguardarDeduped_def chaveRequisicaoProdutos_def)
  next
    case (Some y)
    with b have "buscarProdutos e pg tamanho
           (payloadProdutos (criterioProdutos searchName searchCode))
           (chaveProdutos pg tamanho searchName searchCode)
           (snd (iniciarPromessa (chaveRequisicaoProdutos searchName searchCode) w))
         = (Some y, w1)" by simp
    from consultarProdutos_busca[OF semCache semPendente this] ok Some show ?thesis by simp
  qed
  with b have "tentarConsultarProdutos e pg tamanho
           (payloadProdutos (criterioProdutos searchName searchCode))
           (chaveProdutos pg tamanho searchName searchCode)
           (snd (iniciarPromessa (chaveRequisicaoProdutos searchName searchCode) w))
         = (Some (Inr v), w1)"
    by (simp add: buscarProdutos_sucesso)
  from tentarConsultarProdutos_sucesso[OF this naoNegativo] show ?thesis .
qed

lemmas avaliar_produtos =
  consultarProdutos_def aguardarDeduped_def iniciarPromessa_def liquidarPromessa_def
  dedupedRequest_def liquidar_def buscarProdutos_def tentarConsultarProdutos_def
  fazerRequisicaoAutenticada_produtos.simps executarRequisicao_produtos_def getSankhyaToken.simps
  ouStr_def erroSimples_def statusServidor_def falhaHttp_def
  MAX_RETRIES_LOGIN_def MAX_RETRIES_REQUISICAO_def RETRY_DELAY_def
  mapearEntidades_def mapearEntidade_def mapearCampos.simps fieldKeyOf_def string_of_nat.simps
  linhaProduto_def readProp_def jsSlice0_def cacheGet_def cacheSet_def cacheDelete_def dormir_def
  mundoInicial_def dedupVazio_def Let_def

text \<open>
  On three rows from the ERP and an empty store: with \<open>pageSize = 2\<close> two records come
  back, both with \<open>ESTOQUE\<close> \<open>'0'\<close>; with \<open>pageSize = -1\<close>, \<open>slice(0, -1)\<close> keeps two
  records.
\<close>

lemma consultarProdutos_duas_de_tres:
  "map_option length (registrosDe (fst (consultarProdutos envTresProdutos 1 2 [] [] (mundoInicial 1000))))
       = Some 2
   \<and> map_option (list_all (\<lambda>p. p ''ESTOQUE'' = Some (JStr ''0'')))
       (registrosDe (fst (consultarProdutos envTresProdutos 1 2 [] [] (mundoInicial 1000))))
       = Some True"
  by (simp add: avaliar_produtos envTresProdutos_def respostaTresProdutos_def)

lemma consultarProdutos_pagina_negativa:
  "map_option length
     (registrosDe (fst (consultarProdutos envTresProdutos 1 (- 1) [] [] (mundoInicial 1000))))
     = Some 2"
  by (simp add: avaliar_produtos envTresProdutos_def respostaTresProdutos_def)

text \<open>
  Claim C10 fails on the code. The request key of \<open>consultarProdutos\<close> holds the URL and
  the request body, and neither \<open>page\<close> nor \<open>pageSize\<close>. A call
  \<open>consultarProdutos(1, 3, '', '')\<close> on three rows from the ERP returns three records. While
  it is in flight (its promise registered, nothing cached yet), a call
  \<open>consultarProdutos(1, 1, '', '')\<close> finds nothing under its own cache key and the promise
  of the first call under its request key: it returns the outcome of the first call, three
  records for a page size of 1.
\<close>

theorem consultarProdutos_compartilha_outra_pagina:
  "map_option length
     (registrosDe (fst (consultarProdutos envTresProdutos 1 3 [] [] (mundoInicial 1000)))) = Some 3
   \<and> cacheGet (chaveProdutos 1 1 [] [])
       (comChamadaEmVoo (chaveRequisicaoProdutos [] [])
          (fst (consultarProdutos envTresProdutos 1 3 [] [] (mundoInicial 1000))) (mundoInicial 1000))
     = None
   \<and> fst (consultarProdutos envTresProdutos 1 1 [] []
            (comChamadaEmVoo (chaveRequisicaoProdutos [] [])
               (fst (consultarProdutos envTresProdutos 1 3 [] [] (mundoInicial 1000))) (mundoInicial 1000)))
     = fst (consultarProdutos envTresProdutos 1 3 [] [] (mundoInicial 1000))
   \<and> map_option length
       (registrosDe (fst (consultarProdutos envTresProdutos 1 1 [] []
            (comChamadaEmVoo (chaveRequisicaoProdutos [] [])
               (fst (consultarProdutos envTresProdutos 1 3 [] [] (mundoInicial 1000))) (mundoInicial 1000)))))
     = Some 3
   \<and> \<not> (3::int) \<le> 1"
  by (simp add: avaliar_produtos envTresProdutos_def respostaTresProdutos_def comChamadaEmVoo_def
        chaveRequisicaoProdutos_def)

lemma requisicao_sempre_500:
  "fst (fazerRequisicaoAutenticada envLoginOk fullUrl metodo dados 0 mundoComToken)
     = Inl erroServicoIndisponivel
   \<and> cache (snd (fazerRequisicaoAutenticada envLoginOk fullUrl metodo dados 0 mundoComToken))
     = cache mundoComToken"
  by (simp add: avaliar_requisicao envLoginOk_def)

lemma chaves_fora_do_token:
  "chaveParceiros 1 50 [] [] None None \<noteq> TOKEN_CACHE_KEY"
  "''tipos:operacao:all'' \<noteq> TOKEN_CACHE_KEY"
  "''tipos:negociacao:all'' \<noteq> TOKEN_CACHE_KEY"
  by (simp_all add: chaveParceiros_def TOKEN_CACHE_KEY_def)

lemma mundoComToken_sem_cache:
  "key \<noteq> TOKEN_CACHE_KEY \<Longrightarrow> cacheGet key mundoComToken = None"
  by (simp add: cacheGet_def mundoComToken_def)

lemma requisicao_produtos_400:
  "fst (fazerRequisicaoAutenticada_produtos env400 URL_CONSULTA_SERVICO ''POST'' dados 0
          (snd (iniciarPromessa (chaveRequisicaoProdutos [] []) (mundoInicial 1000))))
     = Some (Inl ''Request failed'')
   \<and> now (snd (fazerRequisicaoAutenticada_produtos env400 URL_CONSULTA_SERVICO ''POST'' dados 0
          (snd (iniciarPromessa (chaveRequisicaoProdutos [] []) (mundoInicial 1000))))) = 1000
   \<and> fst (fazerRequisicaoAutenticada_produtos env400 URL_CONSULTA_SERVICO ''POST'' dados 0 (mundoInicial 1000))
     = Some (Inl ''Request failed'')"
  by (simp add: avaliar_produtos env400_def chaveRequisicaoProdutos_def)

text \<open>
  Claim C9, as the code has it. When the request of a fetcher raises an error: the products
  fetcher, running the query itself (nothing cached under its cache key, no promise pending
  under its request key), stores the empty result under its cache key for 60 seconds and
  raises the error again; the stock fetcher (nothing cached under its cache key) does the
  same for 15 seconds; the partners, operation-types and negotiation-types fetchers raise
  the error again and store nothing (the state is the one the failed request left); the
  order-header-by-model fetcher stores nothing and returns
  \<open>{ codTipVenda: null, nunota: null }\<close> instead of raising. The request is the
  \<open>fazerRequisicaoAutenticada\<close> of the fetcher's own module.
\<close>

theorem fetchers_na_falha_da_consulta:
  "(\<forall>e pg tamanho searchName searchCode w err w1.
       cacheGet (chaveProdutos pg tamanho searchName searchCode) w = None
     \<and> pendingRequests (dedup w) (chaveRequisicaoProdutos searchName searchCode) = None
     \<and> fazerRequisicaoAutenticada_produtos e URL_CONSULTA_SERVICO ''POST''
          (payloadProdutos (criterioProdutos searchName searchCode)) 0
          (snd (iniciarPromessa (chaveRequisicaoProdutos searchName searchCode) w))
        = (Some (Inl err), w1) \<longrightarrow>
       fst (consultarProdutos e pg tamanho searchName searchCode w) = Some (Inl err)
     \<and> cache (snd (consultarProdutos e pg tamanho searchName searchCode w))
          (chaveProdutos pg tamanho searchName searchCode)
        = Some (VProdutos (paginaVazia pg tamanho), now w1 + 60 * 1000))
   \<and> (\<forall>parseFloat e codProd searchLocal w err w1.
       cacheGet (chaveEstoque codProd searchLocal) w = None
     \<and> fazerRequisicaoAutenticada_produtos e URL_CONSULTA_SERVICO ''POST''
          (payloadEstoque codProd searchLocal) 0 w = (Some (Inl err), w1) \<longrightarrow>
       consultarEstoqueProduto parseFloat e codProd searchLocal w
        = (Some (Inl err), cacheSet (chaveEstoque codProd searchLocal) (VEstoques estoqueVazio) 15 w1))
   \<and> (\<forall>e pg tamanho searchName searchCode codVendedor codVendedoresEquipe w err w1.
       cacheGet (chaveParceiros pg tamanho searchName searchCode codVendedor codVendedoresEquipe) w = None
     \<and> fazerRequisicaoAutenticada e URL_CONSULTA_SERVICO ''POST''
          (payloadParceiros searchName searchCode codVendedor codVendedoresEquipe) 0 w = (Inl err, w1) \<longrightarrow>
       consultarParceiros e pg tamanho searchName searchCode codVendedor codVendedoresEquipe w
        = (Inl err, w1))
   \<and> (\<forall>e w err w1.
       cacheGet ''tipos:operacao:all'' w = None
     \<and> fazerRequisicaoAutenticada e URL_CONSULTA_SERVICO ''POST'' payloadTiposOperacao 0 w = (Inl err, w1) \<longrightarrow>
       consultarTiposOperacao e w = (Inl err, w1))
   \<and> (\<forall>e w err w1.
       cacheGet ''tipos:negociacao:all'' w = None
     \<and> fazerRequisicaoAutenticada e URL_CONSULTA_SERVICO ''POST'' payloadTiposNegociacao 0 w = (Inl err, w1) \<longrightarrow>
       consultarTiposNegociacao e w = (Inl err, w1))
   \<and> (\<forall>e codTipOper w err w1.
       fazerRequisicaoAutenticada e URL_CONSULTA_SERVICO ''POST'' (payloadTipVenda codTipOper) 0 w
        = (Inl err, w1) \<longrightarrow>
       consultarTipVendaPorModelo e codTipOper w = (tipVendaNulo, w1))"
proof (intro conjI allI impI)
  fix e pg tamanho searchName searchCode w err w1
  assume a: "cacheGet (chaveProdutos pg tamanho searchName searchCode) w = None
     \<and> pendingRequests (dedup w) (chaveRequisicaoProdutos searchName searchCode) = None
     \<and> fazerRequisicaoAutenticada_produtos e URL_CONSULTA_SERVICO ''POST''
          (payloadProdutos (criterioProdutos searchName searchCode)) 0
          (snd (iniciarPromessa (chaveRequisicaoProdutos searchName searchCode) w))
        = (Some (Inl err), w1)"
  then have miss: "cacheGet (chaveProdutos pg tamanho searchName searchCode) w = None"
    and livre: "pendingRequests (dedup w) (chaveRequisicaoProdutos searchName searchCode) = None"
    and rq: "fazerRequisicaoAutenticada_produtos e URL_CONSULTA_SERVICO ''POST''
          (payloadProdutos (criterioProdutos searchName searchCode)) 0
          (snd (iniciarPromessa (chaveRequisicaoProdutos searchName searchCode) w))
        = (Some (Inl err), w1)"
    by simp_all
  note t = tentarConsultarProdutos_falha_da_requisicao[OF rq]
  note b = buscarProdutos_falha[OF t]
  note c = consultarProdutos_busca[OF miss livre b]
  show "fst (consultarProdutos e pg tamanho searchName searchCode w) = Some (Inl err)"
    unfolding c by simp
  show "cache (snd (consultarProdutos e pg tamanho searchName searchCode w))
          (chaveProdutos pg tamanho searchName searchCode)
        = Some (VProdutos (paginaVazia pg tamanho), now w1 + 60 * 1000)"
    unfolding c by (simp add: liquidarPromessa_def cacheSet_def)
next
  fix parseFloat e codProd searchLocal w err w1
  assume "cacheGet (chaveEstoque codProd searchLocal) w = None
     \<and> fazerRequisicaoAutenticada_produtos e URL_CONSULTA_SERVICO ''POST''
          (payloadEstoque codProd searchLocal) 0 w = (Some (Inl err), w1)"
  then show "consultarEstoqueProduto parseFloat e codProd searchLocal w
        = (Some (Inl err), cacheSet (chaveEstoque codProd searchLocal) (VEstoques estoqueVazio) 15 w1)"
    by (simp add: consultarEstoqueProduto_def tentarConsultarEstoque_def Let_def)
next
  fix e pg tamanho searchName searchCode codVendedor codVendedoresEquipe w err w1
  assume "cacheGet (chaveParceiros pg tamanho searchName searchCode codVendedor codVendedoresEquipe) w = None
     \<and> fazerRequisicaoAutenticada e URL_CONSULTA_SERVICO ''POST''
          (payloadParceiros searchName searchCode codVendedor codVendedoresEquipe) 0 w = (Inl err, w1)"
  then show "consultarParceiros e pg tamanho searchName searchCode codVendedor codVendedoresEquipe w
        = (Inl err, w1)"
    by (simp add: consultarParceiros_def Let_def)
next
  fix e w err w1
  assume "cacheGet ''tipos:operacao:all'' w = None
     \<and> fazerRequisicaoAutenticada e URL_CONSULTA_SERVICO ''POST'' payloadTiposOperacao 0 w = (Inl err, w1)"
  then show "consultarTiposOperacao e w = (Inl err, w1)"
    by (simp add: consultarTiposOperacao_def consultarLista_def)
next
  fix e w err w1
  assume "cacheGet ''tipos:negociacao:all'' w = None
     \<and> fazerRequisicaoAutenticada e URL_CONSULTA_SERVICO ''POST'' payloadTiposNegociacao 0 w = (Inl err, w1)"
  then show "consultarTiposNegociacao e w = (Inl err, w1)"
    by (simp add: consultarTiposNegociacao_def consultarLista_def)
next
  fix e codTipOper w err w1
  assume "fazerRequisicaoAutenticada e URL_CONSULTA_SERVICO ''POST'' (payloadTipVenda codTipOper) 0 w
        = (Inl err, w1)"
  then show "consultarTipVendaPorModelo e codTipOper w = (tipVendaNulo, w1)"
    by (simp add: consultarTipVendaPorModelo_def Let_def)
qed

text \<open>
  C9 at concrete calls. From an empty store and with an ERP that answers every data call
  with 400, the request of produtos-service.ts raises after one attempt: the products and
  stock fetchers store their empty results and raise. From a store that holds a valid
  credential and with an ERP that always answers 500, the request of sankhya-api.ts raises
  after its three attempts: the partners and list fetchers raise and the order-header
  fetcher returns the null pair.
\<close>

theorem fetchers_na_falha_da_consulta_witness:
  "cacheGet (chaveProdutos 1 50 [] []) (mundoInicial 1000) = None
   \<and> pendingRequests (dedup (mundoInicial 1000)) (chaveRequisicaoProdutos [] []) = None
   \<and> fst (fazerRequisicaoAutenticada_produtos env400 URL_CONSULTA_SERVICO ''POST''
            (payloadProdutos (criterioProdutos [] [])) 0
            (snd (iniciarPromessa (chaveRequisicaoProdutos [] []) (mundoInicial 1000))))
       = Some (Inl ''Request failed'')
   \<and> fst (consultarProdutos env400 1 50 [] [] (mundoInicial 1000)) = Some (Inl ''Request failed'')
   \<and> cache (snd (consultarProdutos env400 1 50 [] [] (mundoInicial 1000))) (chaveProdutos 1 50 [] [])
       = Some (VProdutos (paginaVazia 1 50), 1000 + 60 * 1000)
   \<and> cacheGet (chaveEstoque ''10'' []) (mundoInicial 1000) = None
   \<and> consultarEstoqueProduto (\<lambda>v. 0) env400 ''10'' [] (mundoInicial 1000)
       = (Some (Inl ''Request failed''),
          cacheSet (chaveEstoque ''10'' []) (VEstoques estoqueVazio) 15
            (snd (fazerRequisicaoAutenticada_produtos env400 URL_CONSULTA_SERVICO ''POST''
                    (payloadEstoque ''10'' []) 0 (mundoInicial 1000))))
   \<and> cacheGet (chaveParceiros 1 50 [] [] None None) mundoComToken = None
   \<and> consultarParceiros envLoginOk 1 50 [] [] None None mundoComToken
       = (Inl erroServicoIndisponivel,
          snd (fazerRequisicaoAutenticada envLoginOk URL_CONSULTA_SERVICO ''POST''
                 (payloadParceiros [] [] None None) 0 mundoComToken))
   \<and> consultarTiposOperacao envLoginOk mundoComToken
       = (Inl erroServicoIndisponivel,
          snd (fazerRequisicaoAutenticada envLoginOk URL_CONSULTA_SERVICO ''POST'' payloadTiposOperacao 0 mundoComToken))
   \<and> consultarTiposNegociacao envLoginOk mundoComToken
       = (Inl erroServicoIndisponivel,
          snd (fazerRequisicaoAutenticada envLoginOk URL_CONSULTA_SERVICO ''POST'' payloadTiposNegociacao 0 mundoComToken))
   \<and> consultarTipVendaPorModelo envLoginOk ''10'' mundoComToken
       = (tipVendaNulo,
          snd (fazerRequisicaoAutenticada envLoginOk URL_CONSULTA_SERVICO ''POST'' (payloadTipVenda ''10'') 0 mundoComToken))"
proof -
  note t = fetchers_na_falha_da_consulta
  note tProdutos = t[THEN conjunct1, rule_format]
  note tEstoque = t[THEN conjunct2, THEN conjunct1, rule_format]
  note tParceiros = t[THEN conjunct2, THEN conjunct2, THEN conjunct1, rule_format]
  note tOperacao = t[THEN conjunct2, THEN conjunct2, THEN conjunct2, THEN conjunct1, rule_format]
  note tNegociacao = t[THEN conjunct2, THEN conjunct2, THEN conjunct2, THEN conjunct2, THEN conjunct1, rule_format]
  note tTipVenda = t[THEN conjunct2, THEN conjunct2, THEN conjunct2, THEN conjunct2, THEN conjunct2, rule_format]
  have f: "fazerRequisicaoAutenticada envLoginOk URL_CONSULTA_SERVICO ''POST'' dados 0 mundoComToken
      = (Inl erroServicoIndisponivel,
         snd (fazerRequisicaoAutenticada envLoginOk URL_CONSULTA_SERVICO ''POST'' dados 0 mundoComToken))"
    for dados
    using requisicao_sempre_500[of URL_CONSULTA_SERVICO "''POST''" dados]
    by (simp add: prod_eq_iff)
  have m1: "cacheGet (chaveProdutos 1 50 [] []) (mundoInicial 1000) = None"
    and m2: "cacheGet (chaveEstoque ''10'' []) (mundoInicial 1000) = None"
    by (simp_all add: cacheGet_def mundoInicial_def)
  have m3: "pendingRequests (dedup (mundoInicial 1000)) (chaveRequisicaoProdutos [] []) = None"
    by (simp add: mundoInicial_def dedupVazio_def)
  have m4: "cacheGet (chaveParceiros 1 50 [] [] None None) mundoComToken = None"
    and m5: "cacheGet ''tipos:operacao:all'' mundoComToken = None"
    and m6: "cacheGet ''tipos:negociacao:all'' mundoComToken = None"
    by (simp_all add: mundoComToken_sem_cache chaves_fora_do_token)
  note q = requisicao_produtos_400[of "payloadProdutos (criterioProdutos [] [])"]
  have g1: "fazerRequisicaoAutenticada_produtos env400 URL_CONSULTA_SERVICO ''POST''
            (payloadProdutos (criterioProdutos [] [])) 0
            (snd (iniciarPromessa (chaveRequisicaoProdutos [] []) (mundoInicial 1000)))
       = (Some (Inl ''Request failed''),
          snd (fazerRequisicaoAutenticada_produtos env400 URL_CONSULTA_SERVICO ''POST''
            (payloadProdutos (criterioProdutos [] [])) 0
            (snd (iniciarPromessa (chaveRequisicaoProdutos [] []) (mundoInicial 1000)))))"
    using q by (simp add: prod_eq_iff)
  have g2: "fazerRequisicaoAutenticada_produtos env400 URL_CONSULTA_SERVICO ''POST''
            (payloadEstoque ''10'' []) 0 (mundoInicial 1000)
       = (Some (Inl ''Request failed''),
          snd (fazerRequisicaoAutenticada_produtos env400 URL_CONSULTA_SERVICO ''POST''
            (payloadEstoque ''10'' []) 0 (mundoInicial 1000)))"
    using requisicao_produtos_400[of "payloadEstoque ''10'' []"] by (simp add: prod_eq_iff)
  have h6: "cacheGet (chaveProdutos 1 50 [] []) (mundoInicial 1000) = None
     \<and> pendingRequests (dedup (mundoInicial 1000)) (chaveRequisicaoProdutos [] []) = None
     \<and> fazerRequisicaoAutenticada_produtos env400 URL_CONSULTA_SERVICO ''POST''
          (payloadProdutos (criterioProdutos [] [])) 0
          (snd (iniciarPromessa (chaveRequisicaoProdutos [] []) (mundoInicial 1000)))
        = (Some (Inl ''Request failed''),
          snd (fazerRequisicaoAutenticada_produtos env400 URL_CONSULTA_SERVICO ''POST''
            (payloadProdutos (criterioProdutos [] [])) 0
            (snd (iniciarPromessa (chaveRequisicaoProdutos [] []) (mundoInicial 1000)))))"
    using m1 m3 g1 by simp
  from tProdutos[where e=env400 and w="mundoInicial 1000" and pg=1 and tamanho=50
      and searchName="[]" and searchCode="[]" and err="''Request failed''", OF h6] q
  have p6: "fst (consultarProdutos env400 1 50 [] [] (mundoInicial 1000)) = Some (Inl ''Request failed'')
   \<and> cache (snd (consultarProdutos env400 1 50 [] [] (mundoInicial 1000))) (chaveProdutos 1 50 [] [])
       = Some (VProdutos (paginaVazia 1 50), 1000 + 60 * 1000)"
    by simp
  have p5: "consultarEstoqueProduto (\<lambda>v. 0) env400 ''10'' [] (mundoInicial 1000)
       = (Some (Inl ''Request failed''),
          cacheSet (chaveEstoque ''10'' []) (VEstoques estoqueVazio) 15
            (snd (fazerRequisicaoAutenticada_produtos env400 URL_CONSULTA_SERVICO ''POST''
                    (payloadEstoque ''10'' []) 0 (mundoInicial 1000))))"
    by (rule tEstoque) (simp add: m2 g2[symmetric])
  have p1: "consultarParceiros envLoginOk 1 50 [] [] None None mundoComToken
     = (Inl erroServicoIndisponivel,
        snd (fazerRequisicaoAutenticada envLoginOk URL_CONSULTA_SERVICO ''POST''
               (payloadParceiros [] [] None None) 0 mundoComToken))"
    by (rule tParceiros) (simp add: m4 f[symmetric])
  have p2: "consultarTiposOperacao envLoginOk mundoComToken
     = (Inl erroServicoIndisponivel,
        snd (fazerRequisicaoAutenticada envLoginOk URL_CONSULTA_SERVICO ''POST'' payloadTiposOperacao 0 mundoComToken))"
    by (rule tOperacao) (simp add: m5 f[symmetric])
  have p3: "consultarTiposNegociacao envLoginOk mundoComToken
     = (Inl erroServicoIndisponivel,
        snd (fazerRequisicaoAutenticada envLoginOk URL_CONSULTA_SERVICO ''POST'' payloadTiposNegociacao 0 mundoComToken))"
    by (rule tNegociacao) (simp add: m6 f[symmetric])
  have p4: "consultarTipVendaPorModelo envLoginOk ''10'' mundoComToken
     = (tipVendaNulo,
        snd (fazerRequisicaoAutenticada envLoginOk URL_CONSULTA_SERVICO ''POST'' (payloadTipVenda ''10'') 0 mundoComToken))"
    by (rule tTipVenda[where err=erroServicoIndisponivel]) (simp add: f[symmetric])
  from m1 m3 q[THEN conjunct1] p6 m2 p5 m4 p1 p2 p3 p4 show ?thesis by blast
qed

text \<open>
  The claim as stated fails for the partners fetcher and for the list fetchers: after a
  failed query the error is propagated but nothing is stored under the cache key. The
  order-header fetcher does not propagate the error. With an ERP that always answers 500
  the products fetcher neither stores anything nor raises: its request is retried under
  the key of its own pending promise, and the call never settles. And a call
  \<open>consultarProdutos(1, 1, '', '')\<close> that finds the promise of a call
  \<open>consultarProdutos(1, 3, '', '')\<close> pending is handed the error of that call, while
  nothing is stored under its own cache key, by either call.
\<close>

theorem fetchers_na_falha_da_consulta_counterexample:
  "fst (consultarParceiros envLoginOk 1 50 [] [] None None mundoComToken) = Inl erroServicoIndisponivel
   \<and> cache (snd (consultarParceiros envLoginOk 1 50 [] [] None None mundoComToken))
        (chaveParceiros 1 50 [] [] None None) = None
   \<and> fst (consultarTiposOperacao envLoginOk mundoComToken) = Inl erroServicoIndisponivel
   \<and> cache (snd (consultarTiposOperacao envLoginOk mundoComToken)) ''tipos:operacao:all'' = None
   \<and> fst (consultarTipVendaPorModelo envLoginOk ''10'' mundoComToken) = tipVendaNulo
   \<and> fst (consultarProdutos envLoginOk 1 50 [] [] (mundoInicial 1000)) = None
   \<and> httpCalls (snd (consultarProdutos envLoginOk 1 50 [] [] (mundoInicial 1000))) = 1
   \<and> cache (snd (consultarProdutos envLoginOk 1 50 [] [] (mundoInicial 1000)))
        (chaveProdutos 1 50 [] []) = None
   \<and> fst (consultarProdutos env400 1 3 [] [] (mundoInicial 1000)) = Some (Inl ''Request failed'')
   \<and> cache (snd (consultarProdutos env400 1 3 [] [] (mundoInicial 1000))) (chaveProdutos 1 1 [] [])
       = None
   \<and> fst (consultarProdutos env400 1 1 [] []
            (comChamadaEmVoo (chaveRequisicaoProdutos [] [])
               (fst (consultarProdutos env400 1 3 [] [] (mundoInicial 1000))) (mundoInicial 1000)))
       = Some (Inl ''Request failed'')
   \<and> cache (snd (consultarProdutos env400 1 1 [] []
            (comChamadaEmVoo (chaveRequisicaoProdutos [] [])
               (fst (consultarProdutos env400 1 3 [] [] (mundoInicial 1000))) (mundoInicial 1000))))
         (chaveProdutos 1 1 [] [])
       = None"
proof -
  have f: "fazerRequisicaoAutenticada envLoginOk URL_CONSULTA_SERVICO ''POST'' dados 0 mundoComToken
      = (Inl erroServicoIndisponivel,
         snd (fazerRequisicaoAutenticada envLoginOk URL_CONSULTA_SERVICO ''POST'' dados 0 mundoComToken))"
    for dados
    using requisicao_sempre_500[of URL_CONSULTA_SERVICO "''POST''" dados]
    by (simp add: prod_eq_iff)
  have c: "cache (snd (fazerRequisicaoAutenticada envLoginOk URL_CONSULTA_SERVICO ''POST'' dados 0 mundoComToken)) key
      = cache mundoComToken key" for dados key
    using requisicao_sempre_500[of URL_CONSULTA_SERVICO "''POST''" dados] by simp
  have k: "cache mundoComToken (chaveParceiros 1 50 [] [] None None) = None"
    "cache mundoComToken ''tipos:operacao:all'' = None"
    using chaves_fora_do_token by (simp_all add: mundoComToken_def)
  have m: "cacheGet (chaveParceiros 1 50 [] [] None None) mundoComToken = None"
    "cacheGet ''tipos:operacao:all'' mundoComToken = None"
    by (simp_all add: mundoComToken_sem_cache chaves_fora_do_token)
  have a1: "consultarParceiros envLoginOk 1 50 [] [] None None mundoComToken
      = (Inl erroServicoIndisponivel,
         snd (fazerRequisicaoAutenticada envLoginOk URL_CONSULTA_SERVICO ''POST''
               (payloadParceiros [] [] None None) 0 mundoComToken))"
  proof -
    from f[of "payloadParceiros [] [] None None"] obtain w1 where
      e: "fazerRequisicaoAutenticada envLoginOk URL_CONSULTA_SERVICO ''POST''
            (payloadParceiros [] [] None None) 0 mundoComToken = (Inl erroServicoIndisponivel, w1)"
      by blast
    show ?thesis using m by (simp add: consultarParceiros_def Let_def e)
  qed
  have a2: "consultarTiposOperacao envLoginOk mundoComToken
      = (Inl erroServicoIndisponivel,
         snd (fazerRequisicaoAutenticada envLoginOk URL_CONSULTA_SERVICO ''POST'' payloadTiposOperacao 0 mundoComToken))"
  proof -
    from f[of payloadTiposOperacao] obtain w1 where
      e: "fazerRequisicaoAutenticada envLoginOk URL_CONSULTA_SERVICO ''POST''
            payloadTiposOperacao 0 mundoComToken = (Inl erroServicoIndisponivel, w1)"
      by blast
    show ?thesis using m by (simp add: consultarTiposOperacao_def consultarLista_def e)
  qed
  have a3: "fst (consultarTipVendaPorModelo envLoginOk ''10'' mundoComToken) = tipVendaNulo"
  proof -
    from f[of "payloadTipVenda ''10''"] obtain w1 where
      e: "fazerRequisicaoAutenticada envLoginOk URL_CONSULTA_SERVICO ''POST''
            (payloadTipVenda ''10'') 0 mundoComToken = (Inl erroServicoIndisponivel, w1)"
      by blast
    show ?thesis by (simp add: consultarTipVendaPorModelo_def Let_def e)
  qed
  have a4: "fst (consultarProdutos envLoginOk 1 50 [] [] (mundoInicial 1000)) = None
   \<and> httpCalls (snd (consultarProdutos envLoginOk 1 50 [] [] (mundoInicial 1000))) = 1
   \<and> cache (snd (consultarProdutos envLoginOk 1 50 [] [] (mundoInicial 1000)))
        (chaveProdutos 1 50 [] []) = None"
    by (simp add: avaliar_produtos envLoginOk_def chaveProdutos_def)
  have a5: "fst (consultarProdutos env400 1 3 [] [] (mundoInicial 1000)) = Some (Inl ''Request failed'')
   \<and> cache (snd (consultarProdutos env400 1 3 [] [] (mundoInicial 1000))) (chaveProdutos 1 1 [] [])
       = None"
    by (simp add: avaliar_produtos env400_def chaveProdutos_def string_of_int_def)
  have a6: "fst (consultarProdutos env400 1 1 [] []
            (comChamadaEmVoo (chaveRequisicaoProdutos [] [])
               (fst (consultarProdutos env400 1 3 [] [] (mundoInicial 1000))) (mundoInicial 1000)))
       = Some (Inl ''Request failed'')
   \<and> cache (snd (consultarProdutos env400 1 1 [] []
            (comChamadaEmVoo (chaveRequisicaoProdutos [] [])
               (fst (consultarProdutos env400 1 3 [] [] (mundoInicial 1000))) (mundoInicial 1000))))
         (chaveProdutos 1 1 [] [])
       = None"
    by (simp add: avaliar_produtos env400_def comChamadaEmVoo_def chaveRequisicaoProdutos_def)
  show ?thesis using a6 by (simp add: a1 a2 a3 a4 a5 c k)
qed

end
